theory Spec2Isabelle
  imports Complex_Main "HOL-Library.AList" "HOL-Library.Multiset"
begin

section \<open>Letters, statuses and the game state\<close>

text \<open>
  The word game of \<^verbatim>\<open>components/Game.tsx\<close>. Two revisions of the component are among
  the sources: \<^verbatim>\<open>src/components/Game.tsx\<close>, whose functions keep their names here, and
  \<^verbatim>\<open>src/unnamed/part_000\<close>, whose functions carry the suffix \<open>_p0\<close> where they differ.
  A JavaScript string is a \<open>string\<close>; a letter read by index (\<^verbatim>\<open>word[i]\<close>) is the string of
  that one character.
\<close>

datatype LetterStatus = Correct | Present | Absent

datatype GameStatus = Playing | Won | Lost

datatype EvalError = LengthMismatch

text \<open>\<^verbatim>\<open>String.prototype.toUpperCase\<close> on the ASCII letters, which are all the game uses.\<close>

definition toUpperCase_char :: "char \<Rightarrow> char" where
  "toUpperCase_char c =
     (let n = (of_char c :: nat) in if 97 \<le> n \<and> n \<le> 122 then char_of (n - 32) else c)"

definition toUpperCase :: "string \<Rightarrow> string" where
  "toUpperCase s = map toUpperCase_char s"

section \<open>GuessEvaluator\<close>

text \<open>
  Modelled from the spec: \<^verbatim>\<open>evaluateGuess\<close> of \<^verbatim>\<open>lib/gameLogic\<close>, which the component imports
  and which is not among the sources. The spec (4.1): two passes over the guess; the first
  marks \<open>correct\<close> where the letters agree at the same position and takes each such letter
  out of a pool of letter counts seeded from the secret; the second marks each remaining
  position \<open>present\<close> when the pool still holds its letter (taking one out) and \<open>absent\<close>
  otherwise. Case-normalized; fails with LengthMismatch when the lengths differ.
\<close>

text \<open>Modelled from the spec: the pool of letter counts, seeded from the secret.\<close>

definition seedPool :: "string \<Rightarrow> char \<Rightarrow> nat" where
  "seedPool secret = (\<lambda>c. count_list secret c)"

text \<open>Modelled from the spec: one occurrence of a letter is taken out of the pool.\<close>

definition takeOne :: "(char \<Rightarrow> nat) \<Rightarrow> char \<Rightarrow> (char \<Rightarrow> nat)" where
  "takeOne pool c = pool(c := pool c - 1)"

text \<open>Modelled from the spec: the first pass, giving the pool left after the exact matches.\<close>

fun firstPass :: "string \<Rightarrow> string \<Rightarrow> (char \<Rightarrow> nat) \<Rightarrow> (char \<Rightarrow> nat)" where
  "firstPass (g # gs) (s # ss) pool =
     firstPass gs ss (if g = s then takeOne pool g else pool)"
| "firstPass _ _ pool = pool"

text \<open>
  Modelled from the spec: the second pass, which writes the statuses; an exact match is
  correct, any other letter present or absent by what the pool still holds.
\<close>

fun secondPass :: "string \<Rightarrow> string \<Rightarrow> (char \<Rightarrow> nat) \<Rightarrow> LetterStatus list" where
  "secondPass (g # gs) (s # ss) pool =
     (if g = s then Correct # secondPass gs ss pool
      else if 0 < pool g then Present # secondPass gs ss (takeOne pool g)
      else Absent # secondPass gs ss pool)"
| "secondPass _ _ pool = []"

text \<open>
  Modelled from the spec: \<^verbatim>\<open>evaluateGuess\<close> itself, on the case-normalized words, failing
  when their lengths differ.
\<close>

definition evaluateGuess :: "string \<Rightarrow> string \<Rightarrow> EvalError + LetterStatus list" where
  "evaluateGuess guess secret =
     (let g = toUpperCase guess; s = toUpperCase secret
      in if length g \<noteq> length s then Inl LengthMismatch
         else Inr (secondPass g s (firstPass g s (seedPool s))))"

text \<open>
  Counting, for the properties of the evaluation: the positions of a guess that hold the
  letter \<open>c\<close> and got the status \<open>st\<close>, and the positions where guess and secret both hold \<open>c\<close>.
\<close>

definition countMarked :: "LetterStatus \<Rightarrow> char \<Rightarrow> string \<Rightarrow> LetterStatus list \<Rightarrow> nat" where
  "countMarked st c guess evaluation =
     length (filter (\<lambda>(x, y). x = c \<and> y = st) (zip guess evaluation))"

definition samePlace :: "char \<Rightarrow> string \<Rightarrow> string \<Rightarrow> nat" where
  "samePlace c guess secret = length (filter (\<lambda>(x, y). x = c \<and> y = c) (zip guess secret))"

section \<open>The component's state\<close>

text \<open>
  \<^verbatim>\<open>lockedLetters: Record<number, string | null>\<close> is an association list from positions to
  letters: a JavaScript object has each key once, \<^verbatim>\<open>obj[i]\<close> is \<open>map_of\<close>, \<^verbatim>\<open>obj[i] = v\<close> is
  \<open>AList.update\<close>, \<^verbatim>\<open>{...obj}\<close> is the list itself and \<^verbatim>\<open>Object.keys(obj).length\<close> its length.
  No path of the component stores \<^verbatim>\<open>null\<close>. \<^verbatim>\<open>revealedLetters: Set<number>\<close> is the list of its
  elements in insertion order.
\<close>

record GameState =
  wordLength :: nat
  secretWord :: string
  clue :: "string option"
  attempts :: "string list"
  lockedLetters :: "(nat \<times> string) list"
  gameStatus :: GameStatus
  attemptIndex :: nat
  revealedLetters :: "nat list"
  letterRevealsRemaining :: int

text \<open>\<^verbatim>\<open>lockGreenMatchedLetters\<close> is a setting of part_000 only.\<close>

record GameSettings =
  maxGuesses :: int
  revealClue :: bool
  randomPuzzle :: bool
  lockGreenMatchedLetters :: bool

text \<open>\<^verbatim>\<open>router.query\<close>: the two parameters the component reads, absent or a text.\<close>

record Router =
  query_date :: "string option"
  query_archive :: "string option"

text \<open>
  What a handler reads besides the component's own state: the settings, the route, the
  loaded dictionary (\<^verbatim>\<open>Set<string>\<close>) and the day \<^verbatim>\<open>getESTDateString()\<close> returns.
\<close>

record Env =
  settings :: GameSettings
  router :: Router
  dictionary :: "string set"
  today :: string

record Component =
  gameState :: GameState
  currentGuess :: "string list"
  clueError :: "string option"
  isShaking :: bool
  forceClear :: bool

text \<open>
  The argument of \<^verbatim>\<open>recordResult\<close> (\<^verbatim>\<open>lib/stats\<close>); the fields taken from the constants of
  \<^verbatim>\<open>GAME_CONFIG\<close> are left out.
\<close>

record StatsCall =
  dateISO :: string
  won :: bool
  guesses :: int
  solution :: string
  mode_randomPuzzle :: bool
  maxGuessesArg :: int

datatype SubmitError = IncompleteGuess | NotInDictionary

text \<open>
  How a call of \<^verbatim>\<open>handleSubmit\<close> ends: it returns at once (the game is over), it rejects the
  guess, the evaluation throws, or the guess is taken, with the call of \<^verbatim>\<open>recordResult\<close> it
  makes, if any.
\<close>

datatype Outcome = NotPlaying | Rejected SubmitError | Threw EvalError | Accepted "StatsCall option"

text \<open>JavaScript truthiness of \<^verbatim>\<open>obj[i]\<close> for text values: defined and not the empty string.\<close>

definition truthy :: "string option \<Rightarrow> bool" where
  "truthy v = (case v of None \<Rightarrow> False | Some s \<Rightarrow> s \<noteq> [])"

definition isArchivePuzzle :: "Router \<Rightarrow> bool" where
  "isArchivePuzzle r = (truthy (query_date r) \<and> query_archive r = Some ''true'')"

section \<open>Submitting a guess\<close>

text \<open>
  Modelled from the spec: \<^verbatim>\<open>validateGuess\<close> of \<^verbatim>\<open>lib/gameLogic\<close>, not among the sources. The
  spec (4.3): the guess is incomplete if any position is empty; the joined guess then has
  fewer letters than the word.
\<close>

definition validateGuess :: "string \<Rightarrow> nat \<Rightarrow> bool" where
  "validateGuess guess n = (length guess = n)"

text \<open>
  \<^verbatim>\<open>Array.from({length: wordLength}, (_, i) => lockedLetters[i] ?? currentGuess[i] ?? '').join('')\<close>
\<close>

definition completeGuess :: "GameState \<Rightarrow> string list \<Rightarrow> string" where
  "completeGuess gs cg =
     concat (map (\<lambda>i. case map_of (lockedLetters gs) i of
                         Some l \<Rightarrow> l
                       | None \<Rightarrow> (if i < length cg then cg ! i else []))
                 [0..<wordLength gs])"

text \<open>
  \<^verbatim>\<open>for (i < evaluation.length) if (evaluation[i] === 'correct') newLocked[i] = completeGuess[i]\<close>.
  The evaluation has one status per letter of the guess, so every read is in range.
\<close>

definition lockStep :: "LetterStatus list \<Rightarrow> string \<Rightarrow> nat \<Rightarrow> (nat \<times> string) list \<Rightarrow> (nat \<times> string) list" where
  "lockStep evaluation guess i m =
     (if evaluation ! i = Correct then AList.update i [guess ! i] m else m)"

definition newLocked :: "LetterStatus list \<Rightarrow> string \<Rightarrow> (nat \<times> string) list \<Rightarrow> (nat \<times> string) list" where
  "newLocked evaluation guess locked = fold (lockStep evaluation guess) [0..<length evaluation] locked"

text \<open>
  \<^verbatim>\<open>next[i] = letter\<close> on an array: beyond the end JavaScript extends the array; the holes
  read as empty cells.
\<close>

definition setCell :: "nat \<Rightarrow> string \<Rightarrow> string list \<Rightarrow> string list" where
  "setCell i v xs =
     (if i < length xs then xs[i := v] else xs @ replicate (i - length xs) [] @ [v])"

text \<open>
  \<^verbatim>\<open>next = new Array(wordLength).fill(''); for ([idx, letter] of Object.entries(locked))
  if (letter) next[idx] = letter\<close>
\<close>

definition lockedCells :: "nat \<Rightarrow> (nat \<times> string) list \<Rightarrow> string list" where
  "lockedCells n locked =
     fold (\<lambda>(i, letter) next. if letter \<noteq> [] then setCell i letter next else next)
       locked (replicate n [])"

definition adjustedMaxGuesses :: "GameSettings \<Rightarrow> GameState \<Rightarrow> int" where
  "adjustedMaxGuesses st gs =
     (let revealedLetterCount = length (lockedLetters gs)
      in if \<not> revealClue st \<and> revealedLetterCount = 1 then maxGuesses st + 1
         else if revealClue st \<and> 2 \<le> revealedLetterCount then max 3 (maxGuesses st - 2)
         else maxGuesses st)"

definition newStatus :: "bool \<Rightarrow> nat \<Rightarrow> int \<Rightarrow> GameStatus" where
  "newStatus isWin nextAttemptIndex limit =
     (if isWin then Won else if limit \<le> int nextAttemptIndex then Lost else Playing)"

definition isWin :: "LetterStatus list \<Rightarrow> bool" where
  "isWin evaluation = list_all (\<lambda>s. s = Correct) evaluation"

definition statsCall :: "Env \<Rightarrow> GameState \<Rightarrow> bool \<Rightarrow> int \<Rightarrow> StatsCall option" where
  "statsCall env gs win limit =
     (if \<not> isArchivePuzzle (router env)
      then Some \<lparr>dateISO = today env, won = win,
                 guesses = (if win then int (attemptIndex gs + 1) else limit),
                 solution = secretWord gs,
                 mode_randomPuzzle = randomPuzzle (settings env),
                 maxGuessesArg = limit\<rparr>
      else None)"

text \<open>
  \<^verbatim>\<open>handleSubmit\<close> of components/Game.tsx. The handler's \<^verbatim>\<open>gameState\<close> and the \<^verbatim>\<open>prev\<close> of its
  state update are the state at the event. The timers that clear the error and the shake
  are \<open>clearTransient\<close> below.
\<close>

definition handleSubmit :: "Env \<Rightarrow> Component \<Rightarrow> Component \<times> Outcome" where
  "handleSubmit env c =
     (let gs = gameState c in
      if gameStatus gs \<noteq> Playing then (c, NotPlaying)
      else
        let guess = completeGuess gs (currentGuess c) in
        if \<not> validateGuess guess (wordLength gs)
        then (c\<lparr>clueError := Some ''Please enter a complete word''\<rparr>, Rejected IncompleteGuess)
        else if guess \<notin> dictionary env
        then (c\<lparr>clueError := Some ''Not in dictionary'', isShaking := True,
                currentGuess := lockedCells (wordLength gs) (lockedLetters gs),
                forceClear := True\<rparr>, Rejected NotInDictionary)
        else
          (case evaluateGuess guess (secretWord gs) of
             Inl e \<Rightarrow> (c\<lparr>clueError := None\<rparr>, Threw e)
           | Inr evaluation \<Rightarrow>
               let locked = newLocked evaluation guess (lockedLetters gs);
                   limit = adjustedMaxGuesses (settings env) gs;
                   nextAttemptIndex = attemptIndex gs + 1
               in (c\<lparr>clueError := None,
                      gameState := gs\<lparr>attempts := attempts gs @ [guess],
                                      attemptIndex := nextAttemptIndex,
                                      lockedLetters := locked,
                                      gameStatus := newStatus (isWin evaluation) nextAttemptIndex limit\<rparr>,
                      currentGuess := lockedCells (wordLength gs) locked\<rparr>,
                   Accepted (statsCall env gs (isWin evaluation) limit))))"

text \<open>
  The timers set on a rejection: \<^verbatim>\<open>setTimeout(() => setClueError(null), ...)\<close>,
  \<^verbatim>\<open>setTimeout(() => setIsShaking(false), 500)\<close> and the one that ends \<^verbatim>\<open>forceClear\<close>.
\<close>

definition clearTransient :: "('a Component_scheme) \<Rightarrow> ('a Component_scheme)" where
  "clearTransient c = c\<lparr>clueError := None, isShaking := False, forceClear := False\<rparr>"

subsection \<open>The revision of part_000\<close>

text \<open>
  In part_000 the submission updates attempts, index and status at once and leaves the
  locked letters to a timer (\<^verbatim>\<open>setTimeout(..., flipDuration)\<close>). Everything the timer's
  callback writes is fixed when the timer is set, since it reads only what its closure
  captured: \<^verbatim>\<open>finalLockedLetters = lockGreenMatchedLetters ? newLocked : gameState.lockedLetters\<close>
  and the cells of the next input row. The animation flags it also sets are left out.
  Timers of one puzzle have the same delay, so they run in the order they were set.

  The win effect of part_000 sets a timer of the same kind: once the animation of a won
  daily game is over it locks the whole solution and writes the status \<open>won\<close>. It runs
  once, guarded by \<^verbatim>\<open>showWinAnimation\<close> and the stored flag \<^verbatim>\<open>wordibble-puzzle-completed\<close>, which
  is kept with the component here. (The win effect of components/Game.tsx sets both guards
  and changes nothing of the game.)
\<close>

record FlipTimeout =
  finalLockedLetters :: "(nat \<times> string) list"
  nextCells :: "string list"

datatype PendingTimer = FlipOf FlipTimeout | WinOf FlipTimeout

record Component_p0 = Component +
  pendingFlips :: "PendingTimer list"
  showWinAnimation :: bool
  completedFlag :: bool

definition handleSubmit_p0 :: "Env \<Rightarrow> Component_p0 \<Rightarrow> Component_p0 \<times> Outcome" where
  "handleSubmit_p0 env c =
     (let gs = gameState c in
      if gameStatus gs \<noteq> Playing then (c, NotPlaying)
      else
        let guess = completeGuess gs (currentGuess c) in
        if \<not> validateGuess guess (wordLength gs)
        then (c\<lparr>clueError := Some ''Not enough letters''\<rparr>, Rejected IncompleteGuess)
        else if guess \<notin> dictionary env
        then (c\<lparr>clueError := Some ''Not in the valid word list!'', isShaking := True,
                currentGuess := lockedCells (wordLength gs) (lockedLetters gs),
                forceClear := True\<rparr>, Rejected NotInDictionary)
        else
          (case evaluateGuess guess (secretWord gs) of
             Inl e \<Rightarrow> (c\<lparr>clueError := None\<rparr>, Threw e)
           | Inr evaluation \<Rightarrow>
               let locked = newLocked evaluation guess (lockedLetters gs);
                   limit = maxGuesses (settings env);
                   nextAttemptIndex = attemptIndex gs + 1;
                   lockGreen = lockGreenMatchedLetters (settings env);
                   timeout = \<lparr>finalLockedLetters = (if lockGreen then locked else lockedLetters gs),
                              nextCells = (if lockGreen then lockedCells (wordLength gs) locked
                                           else replicate (wordLength gs) [])\<rparr>
               in (c\<lparr>clueError := None,
                      gameState := gs\<lparr>attempts := attempts gs @ [guess],
                                      attemptIndex := nextAttemptIndex,
                                      gameStatus := newStatus (isWin evaluation) nextAttemptIndex limit\<rparr>,
                      pendingFlips := pendingFlips c @ [FlipOf timeout]\<rparr>,
                   Accepted (statsCall env gs (isWin evaluation) limit))))"

text \<open>
  The oldest pending timer runs. A submission's timer:
  \<^verbatim>\<open>setGameState(prev => ({...prev, lockedLetters: finalLockedLetters}))\<close>; the win effect's:
  \<^verbatim>\<open>setGameState(prev => ({...prev, lockedLetters: solutionLockedLetters, gameStatus: 'won'}))\<close>.
\<close>

definition flipTimeout :: "Component_p0 \<Rightarrow> Component_p0" where
  "flipTimeout c =
     (case pendingFlips c of
        [] \<Rightarrow> c
      | FlipOf t # ts \<Rightarrow>
          c\<lparr>gameState := (gameState c)\<lparr>lockedLetters := finalLockedLetters t\<rparr>,
            currentGuess := nextCells t,
            pendingFlips := ts\<rparr>
      | WinOf t # ts \<Rightarrow>
          c\<lparr>gameState := (gameState c)\<lparr>lockedLetters := finalLockedLetters t, gameStatus := Won\<rparr>,
            currentGuess := nextCells t,
            pendingFlips := ts\<rparr>)"

text \<open>
  \<^verbatim>\<open>Object.fromEntries(Array.from({length: wordLength}, (_, i) => [i, secretWord[i]]))\<close>. Beyond
  the end of the secret the letter is undefined: \<^verbatim>\<open>JSON.stringify\<close> drops such an entry, and
  every read of \<^verbatim>\<open>lockedLetters\<close> takes it for no entry; it is left out.
\<close>

definition solutionLocked :: "nat \<Rightarrow> string \<Rightarrow> (nat \<times> string) list" where
  "solutionLocked n secret = map (\<lambda>i. (i, [secret ! i])) (filter (\<lambda>i. i < length secret) [0..<n])"

text \<open>
  The win effect of part_000, run after a render: for a won daily game not yet animated or
  completed it sets both guards and the timer; the timer's writes are fixed from the state
  the effect sees. A cell beyond the end of the secret is undefined and shown empty.
\<close>

definition winEffect :: "Env \<Rightarrow> Component_p0 \<Rightarrow> Component_p0" where
  "winEffect env c =
     (let gs = gameState c in
      if gameStatus gs = Won \<and> \<not> showWinAnimation c \<and> \<not> completedFlag c \<and>
         \<not> randomPuzzle (settings env) \<and> \<not> isArchivePuzzle (router env)
      then c\<lparr>showWinAnimation := True, completedFlag := True,
             pendingFlips := pendingFlips c @
               [WinOf \<lparr>finalLockedLetters = solutionLocked (wordLength gs) (secretWord gs),
                       nextCells = map (\<lambda>i. if i < length (secretWord gs) then [secretWord gs ! i] else [])
                                     [0..<wordLength gs]\<rparr>]\<rparr>
      else c)"

text \<open>
  For the statements about a submission: the guess a component would submit, a submission
  that passes the handler's checks (the game is on, the guess is complete and in the
  dictionary), one whose evaluation succeeds as well (the secret has the word's length), one
  the handler rejects, and a part_000 component with no timer pending and no win animation
  shown.
\<close>

definition theGuess :: "'a Component_scheme \<Rightarrow> string" where
  "theGuess c = completeGuess (gameState c) (currentGuess c)"

definition submittable :: "Env \<Rightarrow> 'a Component_scheme \<Rightarrow> bool" where
  "submittable env c =
     (gameStatus (gameState c) = Playing \<and>
      validateGuess (theGuess c) (wordLength (gameState c)) \<and>
      theGuess c \<in> dictionary env)"

definition acceptable :: "Env \<Rightarrow> 'a Component_scheme \<Rightarrow> bool" where
  "acceptable env c =
     (gameStatus (gameState c) = Playing \<and>
      validateGuess (theGuess c) (wordLength (gameState c)) \<and>
      theGuess c \<in> dictionary env \<and>
      length (secretWord (gameState c)) = wordLength (gameState c))"

definition incomplete :: "'a Component_scheme \<Rightarrow> bool" where
  "incomplete c =
     (gameStatus (gameState c) = Playing \<and> \<not> validateGuess (theGuess c) (wordLength (gameState c)))"

definition unknownWord :: "Env \<Rightarrow> 'a Component_scheme \<Rightarrow> bool" where
  "unknownWord env c =
     (gameStatus (gameState c) = Playing \<and> validateGuess (theGuess c) (wordLength (gameState c)) \<and>
      theGuess c \<notin> dictionary env)"

definition noFlips :: "Component \<Rightarrow> Component_p0" where
  "noFlips c =
     \<lparr>gameState = gameState c, currentGuess = currentGuess c, clueError = clueError c,
      isShaking = isShaking c, forceClear = forceClear c, pendingFlips = [],
      showWinAnimation = False, completedFlag = False\<rparr>"

section \<open>An example game\<close>

text \<open>
  The state once a puzzle is loaded: the component's initial \<^verbatim>\<open>useState\<close> value with the word,
  its length and the pre-revealed letters set by the load effect. The examples play the
  spec's end-to-end case: five letters, the secret CRANE, six guesses.
\<close>

definition loaded :: "nat \<Rightarrow> string \<Rightarrow> (nat \<times> string) list \<Rightarrow> GameState" where
  "loaded n secret locked =
     \<lparr>wordLength = n, secretWord = secret, clue = None, attempts = [], lockedLetters = locked,
      gameStatus = Playing, attemptIndex = 0, revealedLetters = [], letterRevealsRemaining = 1\<rparr>"

definition exampleSettings :: GameSettings where
  "exampleSettings =
     \<lparr>maxGuesses = 6, revealClue = False, randomPuzzle = False, lockGreenMatchedLetters = False\<rparr>"

definition exampleEnv :: "GameSettings \<Rightarrow> Env" where
  "exampleEnv st =
     \<lparr>settings = st, router = \<lparr>query_date = None, query_archive = None\<rparr>,
      dictionary = {''SLATE'', ''CRATE'', ''CRANE'', ''BRAND'', ''STONE''}, today = ''2025-09-01''\<rparr>"

definition typed :: "GameState \<Rightarrow> string list \<Rightarrow> Component" where
  "typed gs cells =
     \<lparr>gameState = gs, currentGuess = cells, clueError = None, isShaking = False,
      forceClear = False\<rparr>"

definition cellsOf :: "string \<Rightarrow> string list" where
  "cellsOf w = map (\<lambda>ch. [ch]) w"

section \<open>The lifeline\<close>

text \<open>
  \<^verbatim>\<open>isPositionRevealed\<close>: in components/Game.tsx membership in the set of revealed positions;
  in part_000 a locked position counts as revealed too. The guard for a \<^verbatim>\<open>revealedLetters\<close>
  that is no Set has no counterpart: here it always is one.
\<close>

definition isPositionRevealed :: "GameState \<Rightarrow> nat \<Rightarrow> bool" where
  "isPositionRevealed gs position = (position \<in> set (revealedLetters gs))"

definition isPositionRevealed_p0 :: "GameState \<Rightarrow> nat \<Rightarrow> bool" where
  "isPositionRevealed_p0 gs position =
     (if truthy (map_of (lockedLetters gs) position) then True
      else position \<in> set (revealedLetters gs))"

definition unrevealedPositions :: "GameState \<Rightarrow> nat list" where
  "unrevealedPositions gs =
     filter (\<lambda>i. \<not> truthy (map_of (lockedLetters gs) i) \<and> \<not> isPositionRevealed gs i)
       [0..<wordLength gs]"

definition unrevealedPositions_p0 :: "GameState \<Rightarrow> nat list" where
  "unrevealedPositions_p0 gs = filter (\<lambda>i. \<not> isPositionRevealed_p0 gs i) [0..<wordLength gs]"

text \<open>\<^verbatim>\<open>new Set(Array.from(set).concat(x))\<close>: a set keeps its elements once, in insertion order.\<close>

definition setAdd :: "nat list \<Rightarrow> nat \<Rightarrow> nat list" where
  "setAdd xs x = (if x \<in> set xs then xs else xs @ [x])"

text \<open>
  \<^verbatim>\<open>handleRevealLetter\<close>; \<open>random\<close> is the value \<^verbatim>\<open>Math.random()\<close> returns, a number from 0 up to
  but not including 1. The toast it shows is left out.
\<close>

definition revealAt :: "nat \<Rightarrow> GameState \<Rightarrow> GameState" where
  "revealAt randomPosition gs =
     gs\<lparr>revealedLetters := setAdd (revealedLetters gs) randomPosition,
        letterRevealsRemaining := letterRevealsRemaining gs - 1\<rparr>"

definition handleRevealLetter :: "real \<Rightarrow> GameState \<Rightarrow> GameState" where
  "handleRevealLetter random gs =
     (if letterRevealsRemaining gs \<le> 0 \<or> gameStatus gs \<noteq> Playing then gs
      else
        let ps = unrevealedPositions gs in
        if 0 < length ps
        then revealAt (ps ! nat \<lfloor>random * real (length ps)\<rfloor>) gs
        else gs)"

definition handleRevealLetter_p0 :: "real \<Rightarrow> GameState \<Rightarrow> GameState" where
  "handleRevealLetter_p0 random gs =
     (if letterRevealsRemaining gs \<le> 0 \<or> gameStatus gs \<noteq> Playing then gs
      else
        let ps = unrevealedPositions_p0 gs in
        if 0 < length ps
        then revealAt (ps ! nat \<lfloor>random * real (length ps)\<rfloor>) gs
        else gs)"

section \<open>The puzzle load\<close>

text \<open>
  The state the component starts with (\<^verbatim>\<open>useState\<close>), for the configured word length.
\<close>

definition initialState :: "nat \<Rightarrow> GameState" where
  "initialState n =
     \<lparr>wordLength = n, secretWord = [], clue = None, attempts = [], lockedLetters = [],
      gameStatus = Playing, attemptIndex = 0, revealedLetters = [], letterRevealsRemaining = 1\<rparr>"

text \<open>
  What the load effect has in hand when its awaits are over: the word length of the puzzle,
  the puzzle's word and clue, and the mask of pre-revealed positions. The mask is what
  \<^verbatim>\<open>computeRevealsForWord\<close> of \<^verbatim>\<open>lib/gameLogic\<close> returned; that function is not among the sources,
  so the mask is an argument.
\<close>

record PuzzleLoad =
  puzzleWordLength :: nat
  loadedWord :: string
  loadedClue :: string
  revealedMask :: "bool list"

text \<open>
  \<^verbatim>\<open>revealedMask.forEach((isLocked, i) => { if (isLocked) lockedLetters[i] = puzzle.word[i]; })\<close>.
  Beyond the end of the word the letter is undefined, which every read of \<^verbatim>\<open>lockedLetters\<close>
  takes for no entry; it is left out.
\<close>

definition maskLocks :: "string \<Rightarrow> bool list \<Rightarrow> (nat \<times> string) list" where
  "maskLocks w flags =
     map (\<lambda>i. (i, [w ! i])) (filter (\<lambda>i. flags ! i \<and> i < length w) [0..<length flags])"

text \<open>
  The state update of the load effect, \<^verbatim>\<open>setGameState((prev) => ({...prev, ...}))\<close>. The effect
  runs on every mount and again whenever the word length, the vowel settings, the random
  mode, the clue setting or the route changes; the attempts, their count and the status are
  those of \<^verbatim>\<open>prev\<close>. In part_000 locked letters that are there already are kept. The
  dictionary the effect sets with the puzzle is the one of the environment.
\<close>

definition loadEffect :: "Env \<Rightarrow> PuzzleLoad \<Rightarrow> GameState \<Rightarrow> GameState" where
  "loadEffect env p prev =
     prev\<lparr>wordLength := puzzleWordLength p,
          secretWord := loadedWord p,
          clue := (if revealClue (settings env) then Some (loadedClue p) else None),
          lockedLetters := maskLocks (loadedWord p) (revealedMask p),
          revealedLetters := [],
          letterRevealsRemaining := 1\<rparr>"

definition loadEffect_p0 :: "Env \<Rightarrow> PuzzleLoad \<Rightarrow> GameState \<Rightarrow> GameState" where
  "loadEffect_p0 env p prev =
     prev\<lparr>wordLength := puzzleWordLength p,
          secretWord := loadedWord p,
          clue := (if revealClue (settings env) then Some (loadedClue p) else None),
          lockedLetters := (if 0 < length (lockedLetters prev) then lockedLetters prev
                            else maskLocks (loadedWord p) (revealedMask p)),
          revealedLetters := [],
          letterRevealsRemaining := 1\<rparr>"

text \<open>The example puzzle as the load effect delivers it: CRANE with its first letter pre-revealed.\<close>

definition examplePuzzle :: PuzzleLoad where
  "examplePuzzle =
     \<lparr>puzzleWordLength = 5, loadedWord = ''CRANE'', loadedClue = ''A tall wading bird'',
      revealedMask = [True, False, False, False, False]\<rparr>"

section \<open>Runs of the component\<close>

text \<open>
  The events that change a game: the input row reports the typed cells
  (\<^verbatim>\<open>handleGuessChange\<close>), a guess is submitted, the lifeline is asked for, in part_000 the
  oldest pending timer runs, and the load effect delivers a puzzle. An event is one the page
  can deliver when each typed cell holds at most one character and the random number is in
  range; \<open>inGame\<close> events are those between two puzzle loads. In part_000 the win effect runs
  after the render that follows an event. The effect that copies the locked letters into the
  input row is left out: a submission takes them from \<^verbatim>\<open>lockedLetters\<close> itself.
\<close>

datatype Event = Typed "string list" | Submit | Reveal real | Flip | Load PuzzleLoad

definition oneLetter :: "string \<Rightarrow> bool" where
  "oneLetter cell = (length cell \<le> 1)"

fun validEvent :: "Event \<Rightarrow> bool" where
  "validEvent (Typed cells) = list_all oneLetter cells"
| "validEvent (Reveal random) = (0 \<le> random \<and> random < 1)"
| "validEvent Submit = True"
| "validEvent Flip = True"
| "validEvent (Load p) = True"

fun inGame :: "Event \<Rightarrow> bool" where
  "inGame (Load p) = False"
| "inGame e = validEvent e"

fun step :: "Env \<Rightarrow> Event \<Rightarrow> Component \<Rightarrow> Component" where
  "step env (Typed cells) c = c\<lparr>currentGuess := cells\<rparr>"
| "step env Submit c = fst (handleSubmit env c)"
| "step env (Reveal random) c = c\<lparr>gameState := handleRevealLetter random (gameState c)\<rparr>"
| "step env Flip c = c"
| "step env (Load p) c = c\<lparr>gameState := loadEffect env p (gameState c)\<rparr>"

fun deliver_p0 :: "Env \<Rightarrow> Event \<Rightarrow> Component_p0 \<Rightarrow> Component_p0" where
  "deliver_p0 env (Typed cells) c = c\<lparr>currentGuess := cells\<rparr>"
| "deliver_p0 env Submit c = fst (handleSubmit_p0 env c)"
| "deliver_p0 env (Reveal random) c = c\<lparr>gameState := handleRevealLetter_p0 random (gameState c)\<rparr>"
| "deliver_p0 env Flip c = flipTimeout c"
| "deliver_p0 env (Load p) c = c\<lparr>gameState := loadEffect_p0 env p (gameState c)\<rparr>"

definition step_p0 :: "Env \<Rightarrow> Event \<Rightarrow> Component_p0 \<Rightarrow> Component_p0" where
  "step_p0 env e c = winEffect env (deliver_p0 env e c)"

definition run :: "Env \<Rightarrow> Event list \<Rightarrow> Component \<Rightarrow> Component" where
  "run env events c = fold (step env) events c"

definition run_p0 :: "Env \<Rightarrow> Event list \<Rightarrow> Component_p0 \<Rightarrow> Component_p0" where
  "run_p0 env events c = fold (step_p0 env) events c"

text \<open>
  The letters the page works with are single characters: a component is well formed when
  every locked letter and every typed cell holds at most one.
\<close>

definition wellFormed :: "'a Component_scheme \<Rightarrow> bool" where
  "wellFormed c =
     (list_all (\<lambda>(i, letter). oneLetter letter) (lockedLetters (gameState c)) \<and>
      list_all oneLetter (currentGuess c))"

text \<open>The positions that have an entry in \<^verbatim>\<open>lockedLetters\<close>.\<close>

definition lockedPositions :: "'a Component_scheme \<Rightarrow> nat set" where
  "lockedPositions c = fst ` set (lockedLetters (gameState c))"

section \<open>The keyboard's letter states\<close>

text \<open>
  \<^verbatim>\<open>keyboardLetterStates\<close>, the same in both revisions. \<^verbatim>\<open>states: Record<string, status>\<close> is a
  map from letters to statuses; \<^verbatim>\<open>states[letter] = 'correct'\<close> is \<open>seed\<close> and the chain of
  conditions in the loop over an attempt's letters is \<open>mark\<close> (a status is a non-empty text,
  so \<^verbatim>\<open>!states[L]\<close> holds when the letter has no entry).
\<close>

definition seed :: "string \<Rightarrow> (string \<rightharpoonup> LetterStatus) \<Rightarrow> (string \<rightharpoonup> LetterStatus)" where
  "seed letter states = states(letter \<mapsto> Correct)"

definition mark :: "string \<Rightarrow> LetterStatus \<Rightarrow> (string \<rightharpoonup> LetterStatus) \<Rightarrow> (string \<rightharpoonup> LetterStatus)" where
  "mark L s states =
     (if s = Correct \<and> states L \<noteq> Some Correct then states(L \<mapsto> Correct)
      else if s = Present \<and> states L \<noteq> Some Correct then states(L \<mapsto> Present)
      else if s = Absent \<and> states L = None then states(L \<mapsto> Absent)
      else states)"

text \<open>\<^verbatim>\<open>for ([indexStr, letter] of Object.entries(lockedLetters)) if (letter) states[letter] = 'correct'\<close>\<close>

definition seedLocked :: "(nat \<times> string) list \<Rightarrow> (string \<rightharpoonup> LetterStatus) \<Rightarrow> (string \<rightharpoonup> LetterStatus)" where
  "seedLocked locked states =
     fold (\<lambda>(index, letter) st. if letter \<noteq> [] then seed letter st else st) locked states"

text \<open>
  \<^verbatim>\<open>for (index of revealedLetters) { letter = secretWord[index]; if (letter) ... }\<close>: beyond the
  end of the word the letter is undefined and nothing is written.
\<close>

definition seedRevealed :: "string \<Rightarrow> nat list \<Rightarrow> (string \<rightharpoonup> LetterStatus) \<Rightarrow> (string \<rightharpoonup> LetterStatus)" where
  "seedRevealed secret revealed states =
     fold (\<lambda>index st. if index < length secret then seed [secret ! index] st else st)
       revealed states"

text \<open>The loop over the letters of one attempt; its evaluation has one status per letter.\<close>

definition markAttempt :: "string \<Rightarrow> LetterStatus list \<Rightarrow> (string \<rightharpoonup> LetterStatus) \<Rightarrow> (string \<rightharpoonup> LetterStatus)" where
  "markAttempt attempt evaln states =
     fold (\<lambda>i st. mark [attempt ! i] (evaln ! i) st) [0..<length attempt] states"

text \<open>The loop over the attempts; an evaluation that throws ends it.\<close>

fun markAttempts :: "string \<Rightarrow> string list \<Rightarrow> (string \<rightharpoonup> LetterStatus) \<Rightarrow> EvalError + (string \<rightharpoonup> LetterStatus)" where
  "markAttempts secret [] states = Inr states"
| "markAttempts secret (attempt # rest) states =
     (case evaluateGuess attempt secret of
        Inl e \<Rightarrow> Inl e
      | Inr evaln \<Rightarrow> markAttempts secret rest (markAttempt attempt evaln states))"

definition keyboardLetterStates :: "GameState \<Rightarrow> EvalError + (string \<rightharpoonup> LetterStatus)" where
  "keyboardLetterStates gs =
     markAttempts (secretWord gs) (attempts gs)
       (seedRevealed (secretWord gs) (revealedLetters gs)
          (seedLocked (lockedLetters gs) Map.empty))"

text \<open>
  The writes of \<^verbatim>\<open>keyboardLetterStates\<close> as a list of steps, in the order the code makes them:
  one seed per truthy locked letter, one per revealed position inside the word, one mark
  per letter of each attempt. The precedence of the statuses is \<open>rank\<close>.
\<close>

datatype KeyStep = Seed string | Mark string LetterStatus

fun applyStep :: "KeyStep \<Rightarrow> (string \<rightharpoonup> LetterStatus) \<Rightarrow> (string \<rightharpoonup> LetterStatus)" where
  "applyStep (Seed letter) states = seed letter states"
| "applyStep (Mark L s) states = mark L s states"

definition lockedSteps :: "(nat \<times> string) list \<Rightarrow> KeyStep list" where
  "lockedSteps locked = map (\<lambda>(index, letter). Seed letter) (filter (\<lambda>(index, letter). letter \<noteq> []) locked)"

definition revealedSteps :: "string \<Rightarrow> nat list \<Rightarrow> KeyStep list" where
  "revealedSteps secret revealed =
     map (\<lambda>index. Seed [secret ! index]) (filter (\<lambda>index. index < length secret) revealed)"

definition attemptSteps :: "string \<Rightarrow> string \<Rightarrow> KeyStep list" where
  "attemptSteps secret attempt =
     (case evaluateGuess attempt secret of
        Inl e \<Rightarrow> []
      | Inr evaln \<Rightarrow> map (\<lambda>i. Mark [attempt ! i] (evaln ! i)) [0..<length attempt])"

definition keySteps :: "GameState \<Rightarrow> KeyStep list" where
  "keySteps gs =
     lockedSteps (lockedLetters gs) @ revealedSteps (secretWord gs) (revealedLetters gs) @
     concat (map (attemptSteps (secretWord gs)) (attempts gs))"

fun rank :: "LetterStatus option \<Rightarrow> nat" where
  "rank None = 0"
| "rank (Some Absent) = 1"
| "rank (Some Present) = 2"
| "rank (Some Correct) = 3"

definition better :: "LetterStatus option \<Rightarrow> LetterStatus \<Rightarrow> LetterStatus" where
  "better cur s = (case cur of None \<Rightarrow> s | Some t \<Rightarrow> if rank (Some s) \<le> rank (Some t) then t else s)"

section \<open>Loading the daily puzzle\<close>

text \<open>
  \<^verbatim>\<open>loadDailyPuzzle\<close> of \<^verbatim>\<open>lib/daily\<close>. What the network answers is an argument: a \<^verbatim>\<open>fetch\<close> can
  reject, answer with \<^verbatim>\<open>ok\<close> false, answer with a body \<^verbatim>\<open>json()\<close> rejects, or deliver the data.
  The day is read twice from \<^verbatim>\<open>getESTDateString()\<close>, before the search and before the
  result is built; both readings are arguments. So is \<^verbatim>\<open>String.prototype.toUpperCase\<close>, as
  \<open>upper\<close>: it changes more than the letters a to z.
\<close>

datatype 'a Fetched = NetworkError | NotOk | BadJson | Body 'a

record PuzzleData =
  date :: string
  word :: string

record DailyPuzzle =
  puzzleWord :: string
  puzzleClue :: string
  isToday :: bool

datatype LoadError = FetchRejected | JsonRejected | Thrown string

text \<open>
  \<^verbatim>\<open>findClue\<close>: the first key of the clues object that matches the word without regard to
  case, and its clue; an empty key is falsy and gives the fallback text.
\<close>

definition findClue :: "(string \<Rightarrow> string) \<Rightarrow> (string \<times> string) list \<Rightarrow> string \<Rightarrow> string" where
  "findClue upper clues w =
     (let normalizedWord = upper w
      in case find (\<lambda>(key, c). upper key = normalizedWord) clues of
           None \<Rightarrow> ''I literally have no clue''
         | Some (matchingKey, c) \<Rightarrow> if matchingKey \<noteq> [] then c else ''I literally have no clue'')"

text \<open>\<^verbatim>\<open>puzzle.date.split('-')[0]\<close>\<close>

definition yearOf :: "string \<Rightarrow> string" where
  "yearOf d = takeWhile (\<lambda>ch. ch \<noteq> CHR ''-'') d"

text \<open>\<^verbatim>\<open>puzzles[0]\<close>, undefined on an empty list.\<close>

definition firstPuzzle :: "PuzzleData list \<Rightarrow> PuzzleData option" where
  "firstPuzzle puzzles = (case puzzles of [] \<Rightarrow> None | p # rest \<Rightarrow> Some p)"

definition choosePuzzle :: "bool \<Rightarrow> string \<Rightarrow> PuzzleData list \<Rightarrow> PuzzleData option" where
  "choosePuzzle randomMode day puzzles =
     (if randomMode then firstPuzzle puzzles
      else (case find (\<lambda>p. date p = day) puzzles of
              Some p \<Rightarrow> Some p
            | None \<Rightarrow> if 0 < length puzzles then firstPuzzle puzzles else None))"

text \<open>The body of the \<^verbatim>\<open>try\<close> block: the puzzle it returns, or what it throws.\<close>

definition tryLoadDailyPuzzle ::
  "(string \<Rightarrow> string) \<Rightarrow> bool \<Rightarrow> string \<Rightarrow> string \<Rightarrow> (bool \<Rightarrow> PuzzleData list Fetched) \<Rightarrow>
   (string \<Rightarrow> (string \<times> string) list Fetched) \<Rightarrow> LoadError + DailyPuzzle" where
  "tryLoadDailyPuzzle upper randomMode day todayEST fetchPuzzles fetchClues =
     (case fetchPuzzles randomMode of
        NetworkError \<Rightarrow> Inl FetchRejected
      | NotOk \<Rightarrow> Inl (Thrown ''Failed to load puzzle data'')
      | BadJson \<Rightarrow> Inl JsonRejected
      | Body puzzles \<Rightarrow>
          (case choosePuzzle randomMode day puzzles of
             None \<Rightarrow> Inl (Thrown ''No puzzle data available'')
           | Some puzzle \<Rightarrow>
               (case fetchClues (yearOf (date puzzle)) of
                  NetworkError \<Rightarrow> Inl FetchRejected
                | NotOk \<Rightarrow> Inl (Thrown ''Failed to load clues data'')
                | BadJson \<Rightarrow> Inl JsonRejected
                | Body clues \<Rightarrow>
                    Inr \<lparr>puzzleWord = upper (word puzzle),
                         puzzleClue = findClue upper clues (word puzzle),
                         isToday = (\<not> randomMode \<and> date puzzle = todayEST)\<rparr>)))"

definition defaultPuzzle :: DailyPuzzle where
  "defaultPuzzle = \<lparr>puzzleWord = ''HELLO'', puzzleClue = ''A friendly greeting'', isToday = False\<rparr>"

text \<open>The function: the \<^verbatim>\<open>catch\<close> block returns the default puzzle for whatever was thrown.\<close>

definition loadDailyPuzzle ::
  "(string \<Rightarrow> string) \<Rightarrow> bool \<Rightarrow> string \<Rightarrow> string \<Rightarrow> (bool \<Rightarrow> PuzzleData list Fetched) \<Rightarrow>
   (string \<Rightarrow> (string \<times> string) list Fetched) \<Rightarrow> DailyPuzzle" where
  "loadDailyPuzzle upper randomMode day todayEST fetchPuzzles fetchClues =
     (case tryLoadDailyPuzzle upper randomMode day todayEST fetchPuzzles fetchClues of
        Inl e \<Rightarrow> defaultPuzzle
      | Inr puzzle \<Rightarrow> puzzle)"

text \<open>A fetch that did not deliver its data.\<close>

definition failed :: "'a Fetched \<Rightarrow> bool" where
  "failed r = (case r of Body x \<Rightarrow> False | _ \<Rightarrow> True)"

section \<open>Persistence\<close>

text \<open>
  The snapshot under the key \<^verbatim>\<open>wordibble-puzzle-state\<close>. A stored text is taken up to what
  \<^verbatim>\<open>JSON.parse\<close> makes of it: a syntax error, \<^verbatim>\<open>null\<close>, or an object, of which each property the
  component reads is either missing or of the type the save effect writes. (A number, a
  text or an array has none of these properties and behaves as the object without any.)
  The component state the restore effect sets is such an object too, since nothing checks
  that a property is there. A property key is the decimal numeral of a position:
  \<^verbatim>\<open>parseInt(key, 10)\<close> returns the position and the re-keying loops of part_000 copy every
  entry.

  \<^verbatim>\<open>revealedLetters\<close> has three shapes: the array and the object the restore effect accepts,
  and the Set of the live state. \<^verbatim>\<open>JSON.stringify\<close> writes a Set as the empty object.
\<close>

datatype Revealed = AsArray "nat list" | AsObject "(string \<times> nat) list" | AsSet "nat list"

record Snapshot =
  s_date :: "string option"
  s_wordLength :: "nat option"
  s_secretWord :: "string option"
  s_clue :: "string option"
  s_attempts :: "string list option"
  s_lockedLetters :: "(nat \<times> string) list option"
  s_gameStatus :: "GameStatus option"
  s_attemptIndex :: "nat option"
  s_revealedLetters :: "Revealed option"
  s_letterRevealsRemaining :: "int option"
  s_currentGuess :: "string list option"

datatype Stored = Malformed | Null | Object Snapshot

text \<open>\<^verbatim>\<open>localStorage\<close>: the snapshot and the flag \<^verbatim>\<open>wordibble-puzzle-completed\<close>.\<close>

record Storage =
  stateItem :: "Stored option"
  completedItem :: bool

text \<open>
  What \<^verbatim>\<open>JSON.stringify({...gameState, lockedLetters, date: today, currentGuess})\<close> parses to:
  an undefined clue is dropped, the Set becomes the empty object.
\<close>

definition stringified :: "GameState \<Rightarrow> (nat \<times> string) list \<Rightarrow> string \<Rightarrow> string list \<Rightarrow> Snapshot" where
  "stringified gs locked day cells =
     \<lparr>s_date = Some day, s_wordLength = Some (wordLength gs), s_secretWord = Some (secretWord gs),
      s_clue = clue gs, s_attempts = Some (attempts gs), s_lockedLetters = Some locked,
      s_gameStatus = Some (gameStatus gs), s_attemptIndex = Some (attemptIndex gs),
      s_revealedLetters = Some (AsObject []),
      s_letterRevealsRemaining = Some (letterRevealsRemaining gs),
      s_currentGuess = Some cells\<rparr>"

text \<open>The save effect of components/Game.tsx.\<close>

definition save :: "Env \<Rightarrow> Component \<Rightarrow> Storage \<Rightarrow> Storage" where
  "save env c storage =
     (if secretWord (gameState c) \<noteq> [] \<and> \<not> randomPuzzle (settings env) \<and> \<not> isArchivePuzzle (router env)
      then storage\<lparr>stateItem :=
             Some (Object (stringified (gameState c) (lockedLetters (gameState c)) (today env)
                             (currentGuess c)))\<rparr>
      else storage)"

text \<open>
  The save effect of part_000: the locked letters are re-keyed, and for a won game replaced by
  the full solution.
\<close>

definition save_p0 :: "Env \<Rightarrow> 'a Component_scheme \<Rightarrow> Storage \<Rightarrow> Storage" where
  "save_p0 env c storage =
     (let gs = gameState c in
      if secretWord gs \<noteq> [] \<and> \<not> randomPuzzle (settings env) \<and> \<not> isArchivePuzzle (router env)
      then
        let numericLockedLetters = lockedLetters gs;
            finalLocked = (if gameStatus gs = Won \<and> secretWord gs \<noteq> []
                           then solutionLocked (wordLength gs) (secretWord gs)
                           else numericLockedLetters)
        in storage\<lparr>stateItem :=
             Some (Object (stringified gs finalLocked (today env) (currentGuess c)))\<rparr>
      else storage)"

text \<open>\<^verbatim>\<open>new Set(array)\<close>: the elements once each, in the order of their first occurrence.\<close>

definition newSet :: "nat list \<Rightarrow> nat list" where
  "newSet xs = fold (\<lambda>x acc. setAdd acc x) xs []"

text \<open>The repair of \<^verbatim>\<open>revealedLetters\<close>, the same in both revisions.\<close>

definition revealedLettersArray :: "Snapshot \<Rightarrow> nat list" where
  "revealedLettersArray puzzleState =
     (case s_revealedLetters puzzleState of
        None \<Rightarrow> []
      | Some (AsArray xs) \<Rightarrow> xs
      | Some (AsObject kvs) \<Rightarrow> map snd kvs
      | Some (AsSet xs) \<Rightarrow> [])"

text \<open>\<^verbatim>\<open>puzzleState.currentGuess || new Array(puzzleState.wordLength).fill('')\<close>; an array is
  truthy, and \<^verbatim>\<open>new Array(undefined)\<close> has the one element.\<close>

definition restoredCells :: "Snapshot \<Rightarrow> string list" where
  "restoredCells puzzleState =
     (case s_currentGuess puzzleState of
        Some cells \<Rightarrow> cells
      | None \<Rightarrow> replicate (case s_wordLength puzzleState of Some n \<Rightarrow> n | None \<Rightarrow> 1) [])"

text \<open>
  What a run of the restore effect does: the state and the cells it sets, if it sets any,
  and the storage it leaves. What is thrown inside its \<^verbatim>\<open>try\<close> block is caught there and
  logged.
\<close>

record Restored =
  restoredState :: Snapshot
  restoredCells_of :: "string list"

datatype RestoreThrow = SyntaxError | TypeError

definition tryRestore :: "Env \<Rightarrow> Stored \<Rightarrow> Storage \<Rightarrow> RestoreThrow + (Restored option \<times> Storage)" where
  "tryRestore env item storage =
     (case item of
        Malformed \<Rightarrow> Inl SyntaxError
      | Null \<Rightarrow> Inl TypeError
      | Object puzzleState \<Rightarrow>
          if s_date puzzleState = Some (today env)
          then Inr (Some \<lparr>restoredState =
                             puzzleState\<lparr>s_revealedLetters :=
                               Some (AsSet (newSet (revealedLettersArray puzzleState)))\<rparr>,
                           restoredCells_of = restoredCells puzzleState\<rparr>,
                    storage)
          else Inr (None, storage\<lparr>stateItem := None, completedItem := False\<rparr>))"

definition restore :: "Env \<Rightarrow> Storage \<Rightarrow> Restored option \<times> Storage" where
  "restore env storage =
     (case stateItem storage of
        None \<Rightarrow> (None, storage)
      | Some item \<Rightarrow>
          if \<not> randomPuzzle (settings env) \<and> \<not> isArchivePuzzle (router env)
          then (case tryRestore env item storage of
                  Inl e \<Rightarrow> (None, storage)
                | Inr result \<Rightarrow> result)
          else (None, storage))"

text \<open>
  part_000: the locked letters are re-keyed; when the snapshot has none and the game is won
  they are taken from the secret, left as the empty object otherwise. For a won game the
  cells show the locked letters. The effect restores once per mount: \<open>hasRestored\<close> is the
  flag \<^verbatim>\<open>hasRestoredFromStorage.current\<close>, and the result holds its new value.
\<close>

definition finalLockedLetters_p0 :: "Snapshot \<Rightarrow> (nat \<times> string) list" where
  "finalLockedLetters_p0 puzzleState =
     (case s_lockedLetters puzzleState of
        Some (e # es) \<Rightarrow> e # es
      | _ \<Rightarrow>
          (case (s_gameStatus puzzleState, s_secretWord puzzleState) of
             (Some Won, Some (ch # secret)) \<Rightarrow>
                solutionLocked (case s_wordLength puzzleState of Some n \<Rightarrow> n | None \<Rightarrow> 0)
                  (ch # secret)
           | _ \<Rightarrow> []))"

definition restoredCells_p0 :: "Snapshot \<Rightarrow> (nat \<times> string) list \<Rightarrow> string list" where
  "restoredCells_p0 puzzleState locked =
     (if s_gameStatus puzzleState = Some Won
      then map (\<lambda>i. case map_of locked i of Some l \<Rightarrow> l | None \<Rightarrow> [])
             [0..<(case s_wordLength puzzleState of Some n \<Rightarrow> n | None \<Rightarrow> 0)]
      else restoredCells puzzleState)"

definition tryRestore_p0 ::
  "Env \<Rightarrow> Stored \<Rightarrow> Storage \<Rightarrow> RestoreThrow + (Restored option \<times> bool \<times> Storage)" where
  "tryRestore_p0 env item storage =
     (case item of
        Malformed \<Rightarrow> Inl SyntaxError
      | Null \<Rightarrow> Inl TypeError
      | Object puzzleState \<Rightarrow>
          if s_date puzzleState = Some (today env)
          then
            let locked = finalLockedLetters_p0 puzzleState
            in Inr (Some \<lparr>restoredState =
                             puzzleState\<lparr>s_revealedLetters :=
                                 Some (AsSet (newSet (revealedLettersArray puzzleState))),
                               s_lockedLetters := Some locked\<rparr>,
                           restoredCells_of = restoredCells_p0 puzzleState locked\<rparr>,
                    s_gameStatus puzzleState \<noteq> Some Won, storage)
          else Inr (None, False, storage\<lparr>stateItem := None, completedItem := False\<rparr>))"

definition restore_p0 :: "Env \<Rightarrow> bool \<Rightarrow> Storage \<Rightarrow> Restored option \<times> bool \<times> Storage" where
  "restore_p0 env hasRestored storage =
     (if hasRestored then (None, hasRestored, storage)
      else
        (case stateItem storage of
           None \<Rightarrow> (None, hasRestored, storage)
         | Some item \<Rightarrow>
             if \<not> randomPuzzle (settings env) \<and> \<not> isArchivePuzzle (router env)
             then (case tryRestore_p0 env item storage of
                     Inl e \<Rightarrow> (None, hasRestored, storage)
                   | Inr result \<Rightarrow> result)
             else (None, hasRestored, storage)))"

text \<open>The game state a restored object is, when it has every property of one.\<close>

definition asGameState :: "Snapshot \<Rightarrow> GameState option" where
  "asGameState s =
     (case (s_wordLength s, s_secretWord s, s_attempts s, s_lockedLetters s, s_gameStatus s,
            s_attemptIndex s, s_revealedLetters s, s_letterRevealsRemaining s) of
        (Some n, Some secret, Some tried, Some locked, Some status, Some k, Some (AsSet revealed),
         Some budget) \<Rightarrow>
          Some \<lparr>wordLength = n, secretWord = secret, clue = s_clue s, attempts = tried,
                lockedLetters = locked, gameStatus = status, attemptIndex = k,
                revealedLetters = revealed, letterRevealsRemaining = budget\<rparr>
      | _ \<Rightarrow> None)"

text \<open>The conditions under which both effects touch the storage: a daily game.\<close>

definition dailyGame :: "Env \<Rightarrow> bool" where
  "dailyGame env = (\<not> randomPuzzle (settings env) \<and> \<not> isArchivePuzzle (router env))"

text \<open>
  The cleanup the load effect starts with, the same in both revisions: unless the route is
  an archive puzzle, a snapshot that parses and whose date is not today's is removed with
  the completed flag; what \<^verbatim>\<open>JSON.parse\<close> or the read of \<^verbatim>\<open>date\<close> throws is caught and logged.
\<close>

definition clearStale :: "Env \<Rightarrow> Storage \<Rightarrow> Storage" where
  "clearStale env storage =
     (if \<not> isArchivePuzzle (router env)
      then (case stateItem storage of
              None \<Rightarrow> storage
            | Some Malformed \<Rightarrow> storage
            | Some Null \<Rightarrow> storage
            | Some (Object puzzleState) \<Rightarrow>
                if s_date puzzleState \<noteq> Some (today env)
                then storage\<lparr>stateItem := None, completedItem := False\<rparr>
                else storage)
      else storage)"

text \<open>
  A mount of the component whose puzzle load succeeds. The effects run in the order they
  are declared: the load effect up to its first await, which is the cleanup, then the
  restore effect; the load effect's state update comes when the puzzle has arrived, on the
  state the restore effect left (the initial one if it set none). The result is the game
  state then, if what was restored is one, and the storage the two effects leave; the save
  effect, which runs after every change of the state, is \<open>save\<close> above.
\<close>

definition mount :: "Env \<Rightarrow> nat \<Rightarrow> PuzzleLoad \<Rightarrow> Storage \<Rightarrow> GameState option \<times> Storage" where
  "mount env n p storage =
     (case restore env (clearStale env storage) of
        (None, storage') \<Rightarrow> (Some (loadEffect env p (initialState n)), storage')
      | (Some r, storage') \<Rightarrow> (map_option (loadEffect env p) (asGameState (restoredState r)), storage'))"

definition mount_p0 :: "Env \<Rightarrow> nat \<Rightarrow> PuzzleLoad \<Rightarrow> Storage \<Rightarrow> GameState option \<times> Storage" where
  "mount_p0 env n p storage =
     (case restore_p0 env False (clearStale env storage) of
        (None, hasRestored, storage') \<Rightarrow> (Some (loadEffect_p0 env p (initialState n)), storage')
      | (Some r, hasRestored, storage') \<Rightarrow>
          (map_option (loadEffect_p0 env p) (asGameState (restoredState r)), storage'))"

section \<open>Properties of the evaluation\<close>

lemma length_toUpperCase [simp]: "length (toUpperCase s) = length s"
  by (simp add: toUpperCase_def)

lemma takeOne_apply: "takeOne pool c x = (if x = c then pool c - 1 else pool x)"
  by (simp add: takeOne_def)

lemma length_secondPass: "length (secondPass g s pool) = min (length g) (length s)"
  by (induction g s pool rule: secondPass.induct) auto

lemma samePlace_Cons:
  "samePlace c (x # g) (y # s) = (if x = c \<and> y = c then 1 else 0) + samePlace c g s"
  by (simp add: samePlace_def)

lemma firstPass_pool: "firstPass g s pool c = pool c - samePlace c g s"
proof (induction g s pool rule: firstPass.induct)
  case (1 g gs s ss pool)
  show ?case
  proof (cases "g = s")
    case True
    then have "firstPass (g # gs) (s # ss) pool c = takeOne pool g c - samePlace c gs ss"
      using "1.IH" by simp
    then show ?thesis using True by (simp add: takeOne_apply samePlace_Cons)
  next
    case False
    then have "firstPass (g # gs) (s # ss) pool c = pool c - samePlace c gs ss"
      using "1.IH" by simp
    then show ?thesis using False by (auto simp: samePlace_Cons)
  qed
qed (simp_all add: samePlace_def)

lemma samePlace_le_count: "samePlace c g s \<le> count_list s c"
proof (induction g arbitrary: s)
  case Nil
  then show ?case by (simp add: samePlace_def)
next
  case (Cons x g)
  show ?case
  proof (cases s)
    case Nil
    then show ?thesis by (simp add: samePlace_def)
  next
    case (Cons y ss)
    have "samePlace c g ss \<le> count_list ss c" by (rule Cons.IH)
    then show ?thesis using Cons by (auto simp: samePlace_def)
  qed
qed

lemma secondPass_correct: "countMarked Correct c g (secondPass g s pool) = samePlace c g s"
  by (induction g s pool rule: secondPass.induct) (auto simp: countMarked_def samePlace_def)

lemma secondPass_present: "countMarked Present c g (secondPass g s pool) \<le> pool c"
proof (induction g s pool rule: secondPass.induct)
  case (1 g gs s ss pool)
  show ?case
  proof (cases "g = s")
    case True
    then show ?thesis using "1.IH"(1) by (simp add: countMarked_def)
  next
    case neq: False
    show ?thesis
    proof (cases "0 < pool g")
      case True
      have "countMarked Present c gs (secondPass gs ss (takeOne pool g))
              \<le> takeOne pool g c"
        using "1.IH"(2) neq True by simp
      then show ?thesis using neq True by (auto simp: countMarked_def takeOne_apply split: if_splits)
    next
      case False
      have "countMarked Present c gs (secondPass gs ss pool) \<le> pool c"
        using "1.IH"(3) neq False by simp
      then show ?thesis using neq False by (auto simp: countMarked_def)
    qed
  qed
qed (simp_all add: countMarked_def)

text \<open>
  C2. For words of equal length the evaluation exists, has one status per letter, and for
  every letter \<open>c\<close> (of the case-normalized words): the positions holding \<open>c\<close> that are marked
  correct or present are no more than the occurrences of \<open>c\<close> in the secret; the correct
  ones are exactly the same-position matches; and the present ones are no more than what is
  left of \<open>c\<close> in the secret once the same-position matches are taken out.
\<close>

theorem evaluateGuess_no_overcount:
  assumes "length guess = length secret"
  shows "\<exists>ev. evaluateGuess guess secret = Inr ev \<and> length ev = length guess \<and>
    (\<forall>c. countMarked Correct c (toUpperCase guess) ev + countMarked Present c (toUpperCase guess) ev
          \<le> count_list (toUpperCase secret) c) \<and>
    (\<forall>c. countMarked Correct c (toUpperCase guess) ev
          = samePlace c (toUpperCase guess) (toUpperCase secret)) \<and>
    (\<forall>c. countMarked Present c (toUpperCase guess) ev
          \<le> count_list (toUpperCase secret) c - samePlace c (toUpperCase guess) (toUpperCase secret))"
proof -
  define g where "g = toUpperCase guess"
  define s where "s = toUpperCase secret"
  define ev where "ev = secondPass g s (firstPass g s (seedPool s))"
  have len: "length g = length s" using assms by (simp add: g_def s_def)
  have ev: "evaluateGuess guess secret = Inr ev"
    using len by (simp add: evaluateGuess_def Let_def g_def s_def ev_def)
  have lev: "length ev = length guess"
    using len by (simp add: ev_def length_secondPass g_def)
  have cor: "countMarked Correct c g ev = samePlace c g s" for c
    by (simp add: ev_def secondPass_correct)
  have pre: "countMarked Present c g ev \<le> count_list s c - samePlace c g s" for c
    using secondPass_present [of c g s "firstPass g s (seedPool s)"]
    by (simp add: ev_def firstPass_pool seedPool_def)
  have tot: "countMarked Correct c g ev + countMarked Present c g ev \<le> count_list s c" for c
    using cor [of c] pre [of c] samePlace_le_count [of c g s] by linarith
  show ?thesis
    using ev lev cor pre tot unfolding g_def s_def by blast
qed

theorem evaluateGuess_no_overcount_witness:
  "length ''ERASE'' = length ''SPEED'' \<and>
   evaluateGuess ''ERASE'' ''SPEED'' = Inr [Present, Absent, Absent, Present, Present] \<and>
   countMarked Correct CHR ''E'' (toUpperCase ''ERASE'') [Present, Absent, Absent, Present, Present]
     + countMarked Present CHR ''E'' (toUpperCase ''ERASE'') [Present, Absent, Absent, Present, Present]
     \<le> count_list (toUpperCase ''SPEED'') CHR ''E''"
proof -
  have e: "evaluateGuess ''ERASE'' ''SPEED'' = Inr [Present, Absent, Absent, Present, Present]"
    by (simp add: evaluateGuess_def toUpperCase_def toUpperCase_char_def seedPool_def
        takeOne_apply Let_def)
  from evaluateGuess_no_overcount [of "''ERASE''" "''SPEED''"] e show ?thesis
    by auto
qed

section \<open>Properties of a submission\<close>

lemma map_of_lockStep:
  "map_of (lockStep ev g n m) i = (if i = n \<and> ev ! n = Correct then Some [g ! n] else map_of m i)"
  by (simp add: lockStep_def update_conv')

lemma map_of_fold_lockStep:
  "map_of (fold (lockStep ev g) [0..<n] m) i =
     (if i < n \<and> ev ! i = Correct then Some [g ! i] else map_of m i)"
  by (induction n) (auto simp: map_of_lockStep less_Suc_eq)

lemma map_of_newLocked:
  "map_of (newLocked ev g m) i =
     (if i < length ev \<and> ev ! i = Correct then Some [g ! i] else map_of m i)"
  by (simp add: newLocked_def map_of_fold_lockStep)

lemma length_update:
  "length (AList.update k v al) = (if k \<in> fst ` set al then length al else Suc (length al))"
  by (induction al) auto

lemma length_lockStep: "length m \<le> length (lockStep ev g n m)"
  by (simp add: lockStep_def length_update)

lemma length_fold_lockStep: "length m \<le> length (fold (lockStep ev g) xs m)"
proof (induction xs arbitrary: m)
  case Nil show ?case by simp
next
  case (Cons x xs)
  have "length m \<le> length (lockStep ev g x m)" by (rule length_lockStep)
  also have "\<dots> \<le> length (fold (lockStep ev g) xs (lockStep ev g x m))" by (rule Cons.IH)
  finally show ?case by simp
qed

lemma length_newLocked: "length m \<le> length (newLocked ev g m)"
  by (simp add: newLocked_def length_fold_lockStep)

lemma evaluateGuess_Inr:
  "length guess = length secret \<Longrightarrow>
     \<exists>ev. evaluateGuess guess secret = Inr ev \<and> length ev = length guess"
  by (simp add: evaluateGuess_def Let_def length_secondPass)

lemma handleSubmit_accepted:
  assumes "gameStatus (gameState c) = Playing"
    and "validateGuess (completeGuess (gameState c) (currentGuess c)) (wordLength (gameState c))"
    and "completeGuess (gameState c) (currentGuess c) \<in> dictionary env"
    and "evaluateGuess (completeGuess (gameState c) (currentGuess c)) (secretWord (gameState c)) = Inr ev"
  shows "handleSubmit env c =
    (c\<lparr>clueError := None,
       gameState := (gameState c)\<lparr>attempts := attempts (gameState c) @ [completeGuess (gameState c) (currentGuess c)],
          attemptIndex := attemptIndex (gameState c) + 1,
          lockedLetters := newLocked ev (completeGuess (gameState c) (currentGuess c)) (lockedLetters (gameState c)),
          gameStatus := newStatus (isWin ev) (attemptIndex (gameState c) + 1) (adjustedMaxGuesses (settings env) (gameState c))\<rparr>,
       currentGuess := lockedCells (wordLength (gameState c)) (newLocked ev (completeGuess (gameState c) (currentGuess c)) (lockedLetters (gameState c)))\<rparr>,
     Accepted (statsCall env (gameState c) (isWin ev) (adjustedMaxGuesses (settings env) (gameState c))))"
  using assms by (simp add: handleSubmit_def Let_def)

lemma handleSubmit_p0_accepted:
  assumes "gameStatus (gameState c) = Playing"
    and "validateGuess (completeGuess (gameState c) (currentGuess c)) (wordLength (gameState c))"
    and "completeGuess (gameState c) (currentGuess c) \<in> dictionary env"
    and "evaluateGuess (completeGuess (gameState c) (currentGuess c)) (secretWord (gameState c)) = Inr ev"
  shows "handleSubmit_p0 env c =
    (c\<lparr>clueError := None,
       gameState := (gameState c)\<lparr>attempts := attempts (gameState c) @ [completeGuess (gameState c) (currentGuess c)],
          attemptIndex := attemptIndex (gameState c) + 1,
          gameStatus := newStatus (isWin ev) (attemptIndex (gameState c) + 1) (maxGuesses (settings env))\<rparr>,
       pendingFlips := pendingFlips c @
         [FlipOf \<lparr>finalLockedLetters = (if lockGreenMatchedLetters (settings env)
              then newLocked ev (completeGuess (gameState c) (currentGuess c)) (lockedLetters (gameState c))
              else lockedLetters (gameState c)),
           nextCells = (if lockGreenMatchedLetters (settings env)
              then lockedCells (wordLength (gameState c)) (newLocked ev (completeGuess (gameState c) (currentGuess c)) (lockedLetters (gameState c)))
              else replicate (wordLength (gameState c)) [])\<rparr>]\<rparr>,
     Accepted (statsCall env (gameState c) (isWin ev) (maxGuesses (settings env))))"
  using assms by (simp add: handleSubmit_p0_def Let_def)

lemma acceptable_evaluates:
  assumes "acceptable env c"
  shows "\<exists>ev. evaluateGuess (theGuess c) (secretWord (gameState c)) = Inr ev \<and>
              length ev = wordLength (gameState c)"
proof -
  have "length (theGuess c) = length (secretWord (gameState c))"
    using assms by (simp add: acceptable_def validateGuess_def)
  from evaluateGuess_Inr [OF this] assms show ?thesis
    by (auto simp: acceptable_def validateGuess_def)
qed

lemma noFlips_simps [simp]:
  "gameState (noFlips c) = gameState c" "currentGuess (noFlips c) = currentGuess c"
  "pendingFlips (noFlips c) = []" "theGuess (noFlips c) = theGuess c"
  by (simp_all add: noFlips_def theGuess_def)

lemma handleSubmit_threw:
  assumes "gameStatus (gameState c) = Playing"
    and "validateGuess (completeGuess (gameState c) (currentGuess c)) (wordLength (gameState c))"
    and "completeGuess (gameState c) (currentGuess c) \<in> dictionary env"
    and "evaluateGuess (completeGuess (gameState c) (currentGuess c)) (secretWord (gameState c)) = Inl e"
  shows "handleSubmit env c = (c\<lparr>clueError := None\<rparr>, Threw e)"
  using assms by (simp add: handleSubmit_def Let_def)

lemma handleSubmit_p0_threw:
  assumes "gameStatus (gameState c) = Playing"
    and "validateGuess (completeGuess (gameState c) (currentGuess c)) (wordLength (gameState c))"
    and "completeGuess (gameState c) (currentGuess c) \<in> dictionary env"
    and "evaluateGuess (completeGuess (gameState c) (currentGuess c)) (secretWord (gameState c)) = Inl e"
  shows "handleSubmit_p0 env c = (c\<lparr>clueError := None\<rparr>, Threw e)"
  using assms by (simp add: handleSubmit_p0_def Let_def)

lemma evaluateGuess_length:
  "evaluateGuess g s = Inr ev \<Longrightarrow> length ev = length g"
  by (auto simp: evaluateGuess_def Let_def length_secondPass split: if_splits)

lemma newStatus_explicit:
  "newStatus (isWin ev) k limit =
     (if (\<forall>s \<in> set ev. s = Correct) then Won else if limit \<le> int k then Lost else Playing)"
  by (simp add: newStatus_def isWin_def list_all_iff)

lemma flipTimeout_FlipOf:
  "pendingFlips c = FlipOf t # ts \<Longrightarrow>
     flipTimeout c = c\<lparr>gameState := (gameState c)\<lparr>lockedLetters := finalLockedLetters t\<rparr>,
                       currentGuess := nextCells t, pendingFlips := ts\<rparr>"
  by (simp add: flipTimeout_def)

lemma handleSubmit_transition:
  fixes c :: Component
  assumes "submittable env c"
  shows "(case evaluateGuess (theGuess c) (secretWord (gameState c)) of
        Inl e \<Rightarrow> handleSubmit env c = (c\<lparr>clueError := None\<rparr>, Threw e)
      | Inr ev \<Rightarrow>
          length ev = wordLength (gameState c) \<and>
          gameState (fst (handleSubmit env c)) =
            (gameState c)\<lparr>attempts := attempts (gameState c) @ [theGuess c],
               attemptIndex := attemptIndex (gameState c) + 1,
               lockedLetters := newLocked ev (theGuess c) (lockedLetters (gameState c)),
               gameStatus :=
                 (if (\<forall>s \<in> set ev. s = Correct) then Won
                  else if (if \<not> revealClue (settings env) \<and> length (lockedLetters (gameState c)) = 1
                           then maxGuesses (settings env) + 1
                           else if revealClue (settings env) \<and> 2 \<le> length (lockedLetters (gameState c))
                           then max 3 (maxGuesses (settings env) - 2)
                           else maxGuesses (settings env))
                          \<le> int (attemptIndex (gameState c) + 1)
                  then Lost else Playing)\<rparr>)"
proof (cases "evaluateGuess (theGuess c) (secretWord (gameState c))")
  case (Inl e)
  have "handleSubmit env c = (c\<lparr>clueError := None\<rparr>, Threw e)"
    using assms Inl by (intro handleSubmit_threw) (simp_all add: submittable_def theGuess_def)
  with Inl show ?thesis by simp
next
  case (Inr ev)
  have a: "gameStatus (gameState c) = Playing"
    "validateGuess (completeGuess (gameState c) (currentGuess c)) (wordLength (gameState c))"
    "completeGuess (gameState c) (currentGuess c) \<in> dictionary env"
    "evaluateGuess (completeGuess (gameState c) (currentGuess c)) (secretWord (gameState c)) = Inr ev"
    using assms Inr by (simp_all add: submittable_def theGuess_def)
  have len: "length ev = wordLength (gameState c)"
    using evaluateGuess_length [OF Inr] assms by (simp add: submittable_def validateGuess_def)
  show ?thesis
    using Inr len
    by (simp add: handleSubmit_accepted [OF a] theGuess_def newStatus_explicit
        adjustedMaxGuesses_def Let_def)
qed

lemma handleSubmit_p0_transition:
  fixes c0 :: Component_p0
  assumes "submittable env c0"
  shows "(case evaluateGuess (theGuess c0) (secretWord (gameState c0)) of
        Inl e \<Rightarrow> handleSubmit_p0 env c0 = (c0\<lparr>clueError := None\<rparr>, Threw e)
      | Inr ev \<Rightarrow>
          length ev = wordLength (gameState c0) \<and>
          gameState (fst (handleSubmit_p0 env c0)) =
            (gameState c0)\<lparr>attempts := attempts (gameState c0) @ [theGuess c0],
               attemptIndex := attemptIndex (gameState c0) + 1,
               gameStatus :=
                 (if (\<forall>s \<in> set ev. s = Correct) then Won
                  else if maxGuesses (settings env) \<le> int (attemptIndex (gameState c0) + 1)
                  then Lost else Playing)\<rparr> \<and>
          pendingFlips (fst (handleSubmit_p0 env c0)) =
            pendingFlips c0 @
              [FlipOf \<lparr>finalLockedLetters =
                         (if lockGreenMatchedLetters (settings env)
                          then newLocked ev (theGuess c0) (lockedLetters (gameState c0))
                          else lockedLetters (gameState c0)),
                       nextCells =
                         (if lockGreenMatchedLetters (settings env)
                          then lockedCells (wordLength (gameState c0))
                                 (newLocked ev (theGuess c0) (lockedLetters (gameState c0)))
                          else replicate (wordLength (gameState c0)) [])\<rparr>])"
proof (cases "evaluateGuess (theGuess c0) (secretWord (gameState c0))")
  case (Inl e)
  have "handleSubmit_p0 env c0 = (c0\<lparr>clueError := None\<rparr>, Threw e)"
    using assms Inl by (intro handleSubmit_p0_threw) (simp_all add: submittable_def theGuess_def)
  with Inl show ?thesis by simp
next
  case (Inr ev)
  have a: "gameStatus (gameState c0) = Playing"
    "validateGuess (completeGuess (gameState c0) (currentGuess c0)) (wordLength (gameState c0))"
    "completeGuess (gameState c0) (currentGuess c0) \<in> dictionary env"
    "evaluateGuess (completeGuess (gameState c0) (currentGuess c0)) (secretWord (gameState c0)) = Inr ev"
    using assms Inr by (simp_all add: submittable_def theGuess_def)
  have len: "length ev = wordLength (gameState c0)"
    using evaluateGuess_length [OF Inr] assms by (simp add: submittable_def validateGuess_def)
  show ?thesis
    using Inr len
    by (simp add: handleSubmit_p0_accepted [OF a] theGuess_def newStatus_explicit)
qed

text \<open>
  C1, amended. For a submission that passes the handler's checks (game on, guess complete
  and in the dictionary), in both revisions: when the evaluation fails (LengthMismatch)
  the handler ends there and only the error message is cleared; when it succeeds the
  complete guess is appended to the attempts, the attempt index grows by one and the status
  becomes won if every position is correct, else lost if the new index has reached the
  limit (in components/Game.tsx the adjusted limit: one more than \<open>maxGuesses\<close> with one
  letter locked and no clue, \<open>max 3 (maxGuesses - 2)\<close> with two or more locked and the clue,
  \<open>maxGuesses\<close> otherwise; in part_000 \<open>maxGuesses\<close>), else stays playing.
  components/Game.tsx sets the locked letters at once to the earlier ones overwritten, at
  each position evaluated correct, with the letter of the guess. part_000 leaves them as
  they are and queues a flip timer; when that timer runs it writes the overwritten map if
  \<open>lockGreenMatchedLetters\<close> is on, and the map the submission saw if it is off.
\<close>

theorem submitGuess_transition:
  fixes c :: Component and c0 :: Component_p0
  assumes "submittable env c" and "submittable env c0"
  shows
    "(case evaluateGuess (theGuess c) (secretWord (gameState c)) of
        Inl e \<Rightarrow> handleSubmit env c = (c\<lparr>clueError := None\<rparr>, Threw e)
      | Inr ev \<Rightarrow>
          length ev = wordLength (gameState c) \<and>
          gameState (fst (handleSubmit env c)) =
            (gameState c)\<lparr>attempts := attempts (gameState c) @ [theGuess c],
               attemptIndex := attemptIndex (gameState c) + 1,
               lockedLetters := newLocked ev (theGuess c) (lockedLetters (gameState c)),
               gameStatus :=
                 (if (\<forall>s \<in> set ev. s = Correct) then Won
                  else if (if \<not> revealClue (settings env) \<and> length (lockedLetters (gameState c)) = 1
                           then maxGuesses (settings env) + 1
                           else if revealClue (settings env) \<and> 2 \<le> length (lockedLetters (gameState c))
                           then max 3 (maxGuesses (settings env) - 2)
                           else maxGuesses (settings env))
                          \<le> int (attemptIndex (gameState c) + 1)
                  then Lost else Playing)\<rparr>) \<and>
     (case evaluateGuess (theGuess c0) (secretWord (gameState c0)) of
        Inl e \<Rightarrow> handleSubmit_p0 env c0 = (c0\<lparr>clueError := None\<rparr>, Threw e)
      | Inr ev \<Rightarrow>
          length ev = wordLength (gameState c0) \<and>
          gameState (fst (handleSubmit_p0 env c0)) =
            (gameState c0)\<lparr>attempts := attempts (gameState c0) @ [theGuess c0],
               attemptIndex := attemptIndex (gameState c0) + 1,
               gameStatus :=
                 (if (\<forall>s \<in> set ev. s = Correct) then Won
                  else if maxGuesses (settings env) \<le> int (attemptIndex (gameState c0) + 1)
                  then Lost else Playing)\<rparr> \<and>
          pendingFlips (fst (handleSubmit_p0 env c0)) =
            pendingFlips c0 @
              [FlipOf \<lparr>finalLockedLetters =
                         (if lockGreenMatchedLetters (settings env)
                          then newLocked ev (theGuess c0) (lockedLetters (gameState c0))
                          else lockedLetters (gameState c0)),
                       nextCells =
                         (if lockGreenMatchedLetters (settings env)
                          then lockedCells (wordLength (gameState c0))
                                 (newLocked ev (theGuess c0) (lockedLetters (gameState c0)))
                          else replicate (wordLength (gameState c0)) [])\<rparr>]) \<and>
     (\<forall>ev g locked i.
        map_of (newLocked ev g locked) i =
          (if i < length ev \<and> ev ! i = Correct then Some [g ! i] else map_of locked i)) \<and>
     (\<forall>c' t ts. pendingFlips c' = FlipOf t # ts \<longrightarrow>
        flipTimeout c' =
          c'\<lparr>gameState := (gameState c')\<lparr>lockedLetters := finalLockedLetters t\<rparr>,
             currentGuess := nextCells t, pendingFlips := ts\<rparr>)"
  using handleSubmit_transition [OF assms(1)] handleSubmit_p0_transition [OF assms(2)]
    map_of_newLocked flipTimeout_FlipOf
  by blast

lemmas example_defs = loaded_def exampleSettings_def exampleEnv_def typed_def cellsOf_def
  theGuess_def completeGuess_def validateGuess_def acceptable_def noFlips_def

lemmas evaluate_defs = evaluateGuess_def toUpperCase_def toUpperCase_char_def seedPool_def
  takeOne_apply Let_def

lemma ev1: "evaluateGuess ''CRATE'' ''CRANE'' = Inr [Correct, Correct, Correct, Absent, Correct]"
  by (simp add: evaluate_defs)

lemma g1: "theGuess (typed (loaded 5 ''CRANE'' []) (cellsOf ''CRATE'')) = ''CRATE''"
  by (simp add: example_defs eval_nat_numeral)

lemma acc1: "acceptable (exampleEnv exampleSettings) (typed (loaded 5 ''CRANE'' []) (cellsOf ''CRATE''))"
  by (simp add: acceptable_def g1 validateGuess_def) (simp add: example_defs)

lemma nl1: "newLocked [Correct, Correct, Correct, Absent, Correct] ''CRATE'' [] = [(0, ''C''), (1, ''R''), (2, ''A''), (4, ''E'')]"
  by (simp add: newLocked_def lockStep_def eval_nat_numeral)

text \<open>
  C1 as stated fails twice. In part_000 with \<open>lockGreenMatchedLetters\<close> off (its value in
  the example settings) CRATE against CRANE is correct at four positions and is recorded,
  and no letter is locked, also after the flip timer has run. And with the default puzzle
  HELLO under a six-letter setting, PLANET is complete and in the dictionary, the evaluation
  fails and nothing is recorded, in either revision.
\<close>

theorem submitGuess_locks_counterexample:
  "evaluateGuess ''CRATE'' ''CRANE'' = Inr [Correct, Correct, Correct, Absent, Correct] \<and>
   snd (handleSubmit_p0 (exampleEnv exampleSettings) (noFlips (typed (loaded 5 ''CRANE'' []) (cellsOf ''CRATE''))))
     = Accepted (Some \<lparr>dateISO = ''2025-09-01'', won = False, guesses = 6, solution = ''CRANE'',
                        mode_randomPuzzle = False, maxGuessesArg = 6\<rparr>) \<and>
   attempts (gameState (flipTimeout (fst (handleSubmit_p0 (exampleEnv exampleSettings)
      (noFlips (typed (loaded 5 ''CRANE'' []) (cellsOf ''CRATE'')))))))  = [''CRATE''] \<and>
   lockedLetters (gameState (flipTimeout (fst (handleSubmit_p0 (exampleEnv exampleSettings)
      (noFlips (typed (loaded 5 ''CRANE'' []) (cellsOf ''CRATE'')))))))  = [] \<and>
   gameStatus (loaded 6 ''HELLO'' []) = Playing \<and>
   theGuess (typed (loaded 6 ''HELLO'' []) (cellsOf ''PLANET'')) = ''PLANET'' \<and>
   validateGuess ''PLANET'' (wordLength (loaded 6 ''HELLO'' [])) \<and>
   handleSubmit ((exampleEnv exampleSettings)\<lparr>dictionary := {''PLANET''}\<rparr>)
       (typed (loaded 6 ''HELLO'' []) (cellsOf ''PLANET''))
     = (typed (loaded 6 ''HELLO'' []) (cellsOf ''PLANET''), Threw LengthMismatch) \<and>
   handleSubmit_p0 ((exampleEnv exampleSettings)\<lparr>dictionary := {''PLANET''}\<rparr>)
       (noFlips (typed (loaded 6 ''HELLO'' []) (cellsOf ''PLANET'')))
     = (noFlips (typed (loaded 6 ''HELLO'' []) (cellsOf ''PLANET'')), Threw LengthMismatch)"
proof -
  let ?c = "noFlips (typed (loaded 5 ''CRANE'' []) (cellsOf ''CRATE''))"
  have a: "gameStatus (gameState ?c) = Playing"
    "validateGuess (completeGuess (gameState ?c) (currentGuess ?c)) (wordLength (gameState ?c))"
    "completeGuess (gameState ?c) (currentGuess ?c) \<in> dictionary (exampleEnv exampleSettings)"
    "evaluateGuess (completeGuess (gameState ?c) (currentGuess ?c)) (secretWord (gameState ?c)) = Inr [Correct, Correct, Correct, Absent, Correct]"
    using acc1 g1 ev1 by (simp_all add: acceptable_def theGuess_def) (simp_all add: example_defs eval_nat_numeral)
  have 1: "snd (handleSubmit_p0 (exampleEnv exampleSettings) ?c)
      = Accepted (Some \<lparr>dateISO = ''2025-09-01'', won = False, guesses = 6, solution = ''CRANE'',
                        mode_randomPuzzle = False, maxGuessesArg = 6\<rparr>) \<and>
    attempts (gameState (flipTimeout (fst (handleSubmit_p0 (exampleEnv exampleSettings) ?c)))) = [''CRATE''] \<and>
    lockedLetters (gameState (flipTimeout (fst (handleSubmit_p0 (exampleEnv exampleSettings) ?c)))) = []"
    by (simp add: handleSubmit_p0_accepted [OF a] ev1 flipTimeout_def statsCall_def isArchivePuzzle_def truthy_def isWin_def)
       (simp add: example_defs eval_nat_numeral)
  let ?d = "typed (loaded 6 ''HELLO'' []) (cellsOf ''PLANET'')"
  let ?env = "(exampleEnv exampleSettings)\<lparr>dictionary := {''PLANET''}\<rparr>"
  have g: "theGuess ?d = ''PLANET''" by (simp add: example_defs eval_nat_numeral)
  have e: "evaluateGuess ''PLANET'' ''HELLO'' = Inl LengthMismatch"
    by (simp add: evaluateGuess_def Let_def)
  have b: "gameStatus (gameState ?d) = Playing"
    "validateGuess (completeGuess (gameState ?d) (currentGuess ?d)) (wordLength (gameState ?d))"
    "completeGuess (gameState ?d) (currentGuess ?d) \<in> dictionary ?env"
    "evaluateGuess (completeGuess (gameState ?d) (currentGuess ?d)) (secretWord (gameState ?d)) = Inl LengthMismatch"
    using g e by (simp_all add: theGuess_def) (simp_all add: example_defs)
  have b0: "gameStatus (gameState (noFlips ?d)) = Playing"
    "validateGuess (completeGuess (gameState (noFlips ?d)) (currentGuess (noFlips ?d))) (wordLength (gameState (noFlips ?d)))"
    "completeGuess (gameState (noFlips ?d)) (currentGuess (noFlips ?d)) \<in> dictionary ?env"
    "evaluateGuess (completeGuess (gameState (noFlips ?d)) (currentGuess (noFlips ?d))) (secretWord (gameState (noFlips ?d))) = Inl LengthMismatch"
    using b by simp_all
  have 2: "handleSubmit ?env ?d = (?d, Threw LengthMismatch)"
    by (simp add: handleSubmit_threw [OF b]) (simp add: typed_def)
  have 3: "handleSubmit_p0 ?env (noFlips ?d) = (noFlips ?d, Threw LengthMismatch)"
    by (simp add: handleSubmit_p0_threw [OF b0]) (simp add: typed_def noFlips_def)
  have 4: "gameStatus (loaded 6 ''HELLO'' []) = Playing"
    "validateGuess ''PLANET'' (wordLength (loaded 6 ''HELLO'' []))"
    by (simp_all add: loaded_def validateGuess_def)
  from ev1 1 2 3 4 g show ?thesis by simp
qed

lemma ev3: "evaluateGuess ''CRANE'' ''CRANE'' = Inr [Correct, Correct, Correct, Correct, Correct]"
  by (simp add: evaluate_defs)

lemma g3: "theGuess (typed (loaded 5 ''CRANE'' []) (cellsOf ''CRANE'')) = ''CRANE''"
  by (simp add: example_defs eval_nat_numeral)

lemma sub1: "submittable (exampleEnv st) (typed (loaded 5 ''CRANE'' []) (cellsOf ''CRATE''))"
  by (simp add: submittable_def g1 validateGuess_def) (simp add: example_defs)

lemma sub1': "submittable (exampleEnv st) (noFlips (typed (loaded 5 ''CRANE'' []) (cellsOf ''CRATE'')))"
  using sub1 [of st] by (simp add: submittable_def)

lemma sub3: "submittable (exampleEnv st) (typed (loaded 5 ''CRANE'' []) (cellsOf ''CRANE''))"
  by (simp add: submittable_def g3 validateGuess_def) (simp add: example_defs)

lemma g4:
  "theGuess (typed ((loaded 5 ''CRANE'' [])\<lparr>attempts := [''SLATE'', ''STONE'', ''BRAND'', ''SLATE'', ''STONE''],
      attemptIndex := 5\<rparr>) (cellsOf ''CRATE'')) = ''CRATE''"
  by (simp add: example_defs eval_nat_numeral)

lemma sub4:
  "submittable (exampleEnv st)
     (typed ((loaded 5 ''CRANE'' [])\<lparr>attempts := [''SLATE'', ''STONE'', ''BRAND'', ''SLATE'', ''STONE''],
        attemptIndex := 5\<rparr>) (cellsOf ''CRATE''))"
  by (simp add: submittable_def g4 validateGuess_def) (simp add: example_defs)

text \<open>
  The amended C1 at the example, secret CRANE and six guesses. CRATE as first guess is
  recorded, locks four letters in components/Game.tsx and leaves the game on; CRANE wins;
  CRATE as sixth guess loses. In part_000 with \<open>lockGreenMatchedLetters\<close> on the four
  letters are locked once the flip timer has run.
\<close>

theorem submitGuess_transition_witness:
  "submittable (exampleEnv exampleSettings) (typed (loaded 5 ''CRANE'' []) (cellsOf ''CRATE'')) \<and>
   gameState (fst (handleSubmit (exampleEnv exampleSettings) (typed (loaded 5 ''CRANE'' []) (cellsOf ''CRATE'')))) =
     (loaded 5 ''CRANE'' [])\<lparr>attempts := [''CRATE''], attemptIndex := 1,
        lockedLetters := [(0, ''C''), (1, ''R''), (2, ''A''), (4, ''E'')], gameStatus := Playing\<rparr> \<and>
   gameState (fst (handleSubmit (exampleEnv exampleSettings) (typed (loaded 5 ''CRANE'' []) (cellsOf ''CRANE'')))) =
     (loaded 5 ''CRANE'' [])\<lparr>attempts := [''CRANE''], attemptIndex := 1,
        lockedLetters := [(0, ''C''), (1, ''R''), (2, ''A''), (3, ''N''), (4, ''E'')], gameStatus := Won\<rparr> \<and>
   gameStatus (gameState (fst (handleSubmit (exampleEnv exampleSettings)
     (typed ((loaded 5 ''CRANE'' [])\<lparr>attempts := [''SLATE'', ''STONE'', ''BRAND'', ''SLATE'', ''STONE''],
        attemptIndex := 5\<rparr>) (cellsOf ''CRATE''))))) = Lost \<and>
   gameState (fst (handleSubmit_p0 (exampleEnv (exampleSettings\<lparr>lockGreenMatchedLetters := True\<rparr>))
       (noFlips (typed (loaded 5 ''CRANE'' []) (cellsOf ''CRATE''))))) =
     (loaded 5 ''CRANE'' [])\<lparr>attempts := [''CRATE''], attemptIndex := 1, gameStatus := Playing\<rparr> \<and>
   gameState (flipTimeout (fst (handleSubmit_p0 (exampleEnv (exampleSettings\<lparr>lockGreenMatchedLetters := True\<rparr>))
       (noFlips (typed (loaded 5 ''CRANE'' []) (cellsOf ''CRATE'')))))) =
     (loaded 5 ''CRANE'' [])\<lparr>attempts := [''CRATE''], attemptIndex := 1,
        lockedLetters := [(0, ''C''), (1, ''R''), (2, ''A''), (4, ''E'')], gameStatus := Playing\<rparr>"
proof -
  let ?env = "exampleEnv exampleSettings"
  let ?envG = "exampleEnv (exampleSettings\<lparr>lockGreenMatchedLetters := True\<rparr>)"
  let ?c1 = "typed (loaded 5 ''CRANE'' []) (cellsOf ''CRATE'')"
  let ?c3 = "typed (loaded 5 ''CRANE'' []) (cellsOf ''CRANE'')"
  let ?c4 = "typed ((loaded 5 ''CRANE'' [])\<lparr>attempts := [''SLATE'', ''STONE'', ''BRAND'', ''SLATE'', ''STONE''],
        attemptIndex := 5\<rparr>) (cellsOf ''CRATE'')"
  have sec: "secretWord (gameState ?c1) = ''CRANE''" "secretWord (gameState ?c3) = ''CRANE''"
    "secretWord (gameState ?c4) = ''CRANE''"
    by (simp_all add: typed_def loaded_def)
  have nl3: "newLocked [Correct, Correct, Correct, Correct, Correct] ''CRANE'' []
      = [(0, ''C''), (1, ''R''), (2, ''A''), (3, ''N''), (4, ''E'')]"
    by (simp add: newLocked_def lockStep_def eval_nat_numeral)
  note T1 = submitGuess_transition [OF sub1 sub1', of exampleSettings]
  note T3 = submitGuess_transition [OF sub3 sub1', of exampleSettings]
  note T4 = submitGuess_transition [OF sub4 sub1', of exampleSettings]
  note TG = submitGuess_transition [OF sub1 sub1',
      of "exampleSettings\<lparr>lockGreenMatchedLetters := True\<rparr>"]
  have r1: "gameState (fst (handleSubmit ?env ?c1)) =
     (loaded 5 ''CRANE'' [])\<lparr>attempts := [''CRATE''], attemptIndex := 1,
        lockedLetters := [(0, ''C''), (1, ''R''), (2, ''A''), (4, ''E'')], gameStatus := Playing\<rparr>"
    using T1 [THEN conjunct1]
    by (simp add: g1 sec ev1 nl1) (simp add: example_defs nl1 lockedCells_def)
  have r3: "gameState (fst (handleSubmit ?env ?c3)) =
     (loaded 5 ''CRANE'' [])\<lparr>attempts := [''CRANE''], attemptIndex := 1,
        lockedLetters := [(0, ''C''), (1, ''R''), (2, ''A''), (3, ''N''), (4, ''E'')], gameStatus := Won\<rparr>"
    using T3 [THEN conjunct1]
    by (simp add: g3 sec ev3 nl3) (simp add: example_defs nl3)
  have r4: "gameStatus (gameState (fst (handleSubmit ?env ?c4))) = Lost"
    using T4 [THEN conjunct1]
    by (simp add: g4 sec ev1 nl1) (simp add: example_defs nl1)
  have p: "gameState (fst (handleSubmit_p0 ?envG (noFlips ?c1))) =
       (loaded 5 ''CRANE'' [])\<lparr>attempts := [''CRATE''], attemptIndex := 1, gameStatus := Playing\<rparr> \<and>
     pendingFlips (fst (handleSubmit_p0 ?envG (noFlips ?c1))) =
       [FlipOf \<lparr>finalLockedLetters = [(0, ''C''), (1, ''R''), (2, ''A''), (4, ''E'')],
                nextCells = lockedCells 5 [(0, ''C''), (1, ''R''), (2, ''A''), (4, ''E'')]\<rparr>]"
    using TG [THEN conjunct2, THEN conjunct1]
    by (simp add: g1 sec ev1 nl1) (simp add: example_defs nl1 lockedCells_def)
  have f: "flipTimeout (fst (handleSubmit_p0 ?envG (noFlips ?c1))) =
      (fst (handleSubmit_p0 ?envG (noFlips ?c1)))
        \<lparr>gameState := (gameState (fst (handleSubmit_p0 ?envG (noFlips ?c1))))
            \<lparr>lockedLetters := [(0, ''C''), (1, ''R''), (2, ''A''), (4, ''E'')]\<rparr>,
         currentGuess := lockedCells 5 [(0, ''C''), (1, ''R''), (2, ''A''), (4, ''E'')],
         pendingFlips := []\<rparr>"
    using TG [THEN conjunct2, THEN conjunct2, THEN conjunct2, rule_format, OF conjunct2 [OF p]]
    by simp
  have r5: "gameState (flipTimeout (fst (handleSubmit_p0 ?envG (noFlips ?c1)))) =
     (loaded 5 ''CRANE'' [])\<lparr>attempts := [''CRATE''], attemptIndex := 1,
        lockedLetters := [(0, ''C''), (1, ''R''), (2, ''A''), (4, ''E'')], gameStatus := Playing\<rparr>"
    unfolding f by (simp add: conjunct1 [OF p])
  from sub1 r1 r3 r4 p r5 show ?thesis by simp
qed

lemma handleSubmit_incomplete:
  "incomplete c \<Longrightarrow> handleSubmit env c =
     (c\<lparr>clueError := Some ''Please enter a complete word''\<rparr>, Rejected IncompleteGuess)"
  by (simp add: incomplete_def handleSubmit_def theGuess_def Let_def)

lemma handleSubmit_unknownWord:
  "unknownWord env c \<Longrightarrow> handleSubmit env c =
     (c\<lparr>clueError := Some ''Not in dictionary'', isShaking := True,
        currentGuess := lockedCells (wordLength (gameState c)) (lockedLetters (gameState c)),
        forceClear := True\<rparr>, Rejected NotInDictionary)"
  by (simp add: unknownWord_def handleSubmit_def theGuess_def Let_def)

lemma handleSubmit_p0_incomplete:
  "incomplete c \<Longrightarrow> handleSubmit_p0 env c =
     (c\<lparr>clueError := Some ''Not enough letters''\<rparr>, Rejected IncompleteGuess)"
  by (simp add: incomplete_def handleSubmit_p0_def theGuess_def Let_def)

lemma handleSubmit_p0_unknownWord:
  "unknownWord env c \<Longrightarrow> handleSubmit_p0 env c =
     (c\<lparr>clueError := Some ''Not in the valid word list!'', isShaking := True,
        currentGuess := lockedCells (wordLength (gameState c)) (lockedLetters (gameState c)),
        forceClear := True\<rparr>, Rejected NotInDictionary)"
  by (simp add: unknownWord_def handleSubmit_p0_def theGuess_def Let_def)

lemma setCell_nth:
  "i < length xs \<Longrightarrow> setCell j v xs ! i = (if i = j then v else xs ! i)"
  by (simp add: setCell_def nth_append)

lemma length_setCell: "length xs \<le> length (setCell j v xs)"
  by (simp add: setCell_def)

lemma fold_cells:
  "distinct (map fst locked) \<Longrightarrow> i < length cells \<Longrightarrow>
     length cells \<le> length (fold (\<lambda>(k, letter) next. if letter \<noteq> [] then setCell k letter next else next)
                              locked cells) \<and>
     fold (\<lambda>(k, letter) next. if letter \<noteq> [] then setCell k letter next else next) locked cells ! i =
       (case map_of locked i of
          Some l \<Rightarrow> if l \<noteq> [] then l else cells ! i
        | None \<Rightarrow> cells ! i)"
proof (induction locked arbitrary: cells)
  case Nil
  show ?case by simp
next
  case (Cons e locked)
  obtain k letter where e: "e = (k, letter)" by (cases e)
  let ?f = "\<lambda>(k, letter) next. if letter \<noteq> [] then setCell k letter next else next"
  let ?cells = "if letter \<noteq> [] then setCell k letter cells else cells"
  have d: "distinct (map fst locked)" and k: "k \<notin> fst ` set locked"
    using Cons.prems(1) e by simp_all
  have le: "length cells \<le> length ?cells" by (simp add: length_setCell)
  with Cons.prems(2) have i: "i < length ?cells" by simp
  note IH = Cons.IH [OF d i]
  have none: "map_of locked k = None" using k by (simp add: map_of_eq_None_iff)
  have n: "?cells ! i = (if i = k \<and> letter \<noteq> [] then letter else cells ! i)"
    using Cons.prems(2) by (simp add: setCell_nth)
  have "fold ?f (e # locked) cells = fold ?f locked ?cells" by (simp add: e)
  with IH le n none show ?case by (auto simp: e split: option.splits)
qed

lemma lockedCells_nth:
  "distinct (map fst locked) \<Longrightarrow> i < n \<Longrightarrow>
     n \<le> length (lockedCells n locked) \<and>
     lockedCells n locked ! i = (case map_of locked i of Some l \<Rightarrow> l | None \<Rightarrow> [])"
  using fold_cells [of locked i "replicate n []"]
  by (auto simp: lockedCells_def split: option.splits)

text \<open>
  C3, amended. In both revisions a submission that is incomplete changes nothing but the
  error message, which is set. A submission that is complete and not in the dictionary
  sets the error message and the shake and force-clear flags, and resets the typed cells:
  every cell of the word shows the letter locked at its position, and is empty where none
  is locked. In either case the game state (attempts, attempt index, locked and revealed
  letters, reveal budget, status) is as it was, and the reset of the cells is what remains
  once the timers have cleared message and flags.
\<close>

theorem rejected_guess_not_recorded:
  fixes c :: Component and c0 :: Component_p0
  shows
    "(incomplete c \<longrightarrow>
        handleSubmit env c =
          (c\<lparr>clueError := Some ''Please enter a complete word''\<rparr>, Rejected IncompleteGuess)) \<and>
     (unknownWord env c \<longrightarrow>
        handleSubmit env c =
          (c\<lparr>clueError := Some ''Not in dictionary'', isShaking := True,
             currentGuess := lockedCells (wordLength (gameState c)) (lockedLetters (gameState c)),
             forceClear := True\<rparr>, Rejected NotInDictionary) \<and>
        clearTransient (fst (handleSubmit env c)) =
          clearTransient (c\<lparr>currentGuess :=
            lockedCells (wordLength (gameState c)) (lockedLetters (gameState c))\<rparr>)) \<and>
     (incomplete c0 \<longrightarrow>
        handleSubmit_p0 env c0 =
          (c0\<lparr>clueError := Some ''Not enough letters''\<rparr>, Rejected IncompleteGuess)) \<and>
     (unknownWord env c0 \<longrightarrow>
        handleSubmit_p0 env c0 =
          (c0\<lparr>clueError := Some ''Not in the valid word list!'', isShaking := True,
              currentGuess := lockedCells (wordLength (gameState c0)) (lockedLetters (gameState c0)),
              forceClear := True\<rparr>, Rejected NotInDictionary) \<and>
        clearTransient (fst (handleSubmit_p0 env c0)) =
          clearTransient (c0\<lparr>currentGuess :=
            lockedCells (wordLength (gameState c0)) (lockedLetters (gameState c0))\<rparr>)) \<and>
     (\<forall>n locked i. distinct (map fst locked) \<and> i < n \<longrightarrow>
        n \<le> length (lockedCells n locked) \<and>
        lockedCells n locked ! i = (case map_of locked i of Some l \<Rightarrow> l | None \<Rightarrow> []))"
proof -
  have 1: "incomplete c \<longrightarrow>
        handleSubmit env c =
          (c\<lparr>clueError := Some ''Please enter a complete word''\<rparr>, Rejected IncompleteGuess)"
    by (simp add: handleSubmit_incomplete)
  have 2: "unknownWord env c \<longrightarrow>
        handleSubmit env c =
          (c\<lparr>clueError := Some ''Not in dictionary'', isShaking := True,
             currentGuess := lockedCells (wordLength (gameState c)) (lockedLetters (gameState c)),
             forceClear := True\<rparr>, Rejected NotInDictionary) \<and>
        clearTransient (fst (handleSubmit env c)) =
          clearTransient (c\<lparr>currentGuess :=
            lockedCells (wordLength (gameState c)) (lockedLetters (gameState c))\<rparr>)"
    by (simp add: handleSubmit_unknownWord clearTransient_def)
  have 3: "incomplete c0 \<longrightarrow>
        handleSubmit_p0 env c0 =
          (c0\<lparr>clueError := Some ''Not enough letters''\<rparr>, Rejected IncompleteGuess)"
    by (simp add: handleSubmit_p0_incomplete)
  have 4: "unknownWord env c0 \<longrightarrow>
        handleSubmit_p0 env c0 =
          (c0\<lparr>clueError := Some ''Not in the valid word list!'', isShaking := True,
              currentGuess := lockedCells (wordLength (gameState c0)) (lockedLetters (gameState c0)),
              forceClear := True\<rparr>, Rejected NotInDictionary) \<and>
        clearTransient (fst (handleSubmit_p0 env c0)) =
          clearTransient (c0\<lparr>currentGuess :=
            lockedCells (wordLength (gameState c0)) (lockedLetters (gameState c0))\<rparr>)"
    by (simp add: handleSubmit_p0_unknownWord clearTransient_def)
  have 5: "\<forall>n locked i. distinct (map fst locked) \<and> i < n \<longrightarrow>
        n \<le> length (lockedCells n locked) \<and>
        lockedCells n locked ! i = (case map_of locked i of Some l \<Rightarrow> l | None \<Rightarrow> [])"
    using lockedCells_nth by blast
  from 1 2 3 4 5 show ?thesis by blast
qed

lemma g2:
  "theGuess (typed (loaded 5 ''CRANE'' [(0, ''C'')]) ['''', ''R'', ''A'', ''N'', ''K'']) = ''CRANK''"
  by (simp add: example_defs eval_nat_numeral)

lemma unk2:
  "unknownWord (exampleEnv exampleSettings)
     (typed (loaded 5 ''CRANE'' [(0, ''C'')]) ['''', ''R'', ''A'', ''N'', ''K''])"
  by (simp add: unknownWord_def g2 validateGuess_def) (simp add: example_defs)

lemma unk2':
  "unknownWord (exampleEnv exampleSettings)
     (noFlips (typed (loaded 5 ''CRANE'' [(0, ''C'')]) ['''', ''R'', ''A'', ''N'', ''K'']))"
  using unk2 by (simp add: unknownWord_def)

lemma inc2: "incomplete (typed (loaded 5 ''CRANE'' [(0, ''C'')]) ['''', ''R'', ''A''])"
  by (simp add: incomplete_def example_defs eval_nat_numeral)

lemma inc2': "incomplete (noFlips (typed (loaded 5 ''CRANE'' [(0, ''C'')]) ['''', ''R'', ''A'']))"
  using inc2 by (simp add: incomplete_def)

lemma cells2: "lockedCells 5 [(0, ''C'')] = [''C'', '''', '''', '''', '''']"
  by (simp add: lockedCells_def setCell_def eval_nat_numeral)

text \<open>
  C3 as stated fails: with C locked at the first position and R, A, N, K typed, CRANK is
  complete and not in the dictionary, and rejecting it empties the typed cells, a change
  that stays when the error message and the flags have been cleared.
\<close>

theorem rejected_guess_clears_input_counterexample:
  "snd (handleSubmit (exampleEnv exampleSettings)
         (typed (loaded 5 ''CRANE'' [(0, ''C'')]) ['''', ''R'', ''A'', ''N'', ''K'']))
     = Rejected NotInDictionary \<and>
   currentGuess (typed (loaded 5 ''CRANE'' [(0, ''C'')]) ['''', ''R'', ''A'', ''N'', ''K''])
     = ['''', ''R'', ''A'', ''N'', ''K''] \<and>
   currentGuess (clearTransient (fst (handleSubmit (exampleEnv exampleSettings)
       (typed (loaded 5 ''CRANE'' [(0, ''C'')]) ['''', ''R'', ''A'', ''N'', ''K'']))))
     = [''C'', '''', '''', '''', ''''] \<and>
   clearTransient (fst (handleSubmit (exampleEnv exampleSettings)
       (typed (loaded 5 ''CRANE'' [(0, ''C'')]) ['''', ''R'', ''A'', ''N'', ''K''])))
     \<noteq> typed (loaded 5 ''CRANE'' [(0, ''C'')]) ['''', ''R'', ''A'', ''N'', ''K''] \<and>
   currentGuess (clearTransient (fst (handleSubmit_p0 (exampleEnv exampleSettings)
       (noFlips (typed (loaded 5 ''CRANE'' [(0, ''C'')]) ['''', ''R'', ''A'', ''N'', ''K''])))))
     = [''C'', '''', '''', '''', '''']"
  by (simp add: handleSubmit_unknownWord [OF unk2] handleSubmit_p0_unknownWord [OF unk2']
        clearTransient_def)
     (simp add: typed_def loaded_def cells2)

text \<open>
  The amended C3 at the example: C is locked, CRANK is rejected as unknown and the three
  cells typed so far as incomplete.
\<close>

theorem rejected_guess_not_recorded_witness:
  "unknownWord (exampleEnv exampleSettings)
     (typed (loaded 5 ''CRANE'' [(0, ''C'')]) ['''', ''R'', ''A'', ''N'', ''K'']) \<and>
   handleSubmit (exampleEnv exampleSettings)
       (typed (loaded 5 ''CRANE'' [(0, ''C'')]) ['''', ''R'', ''A'', ''N'', ''K'']) =
     (\<lparr>gameState = loaded 5 ''CRANE'' [(0, ''C'')], currentGuess = [''C'', '''', '''', '''', ''''],
       clueError = Some ''Not in dictionary'', isShaking = True, forceClear = True\<rparr>,
      Rejected NotInDictionary) \<and>
   incomplete (typed (loaded 5 ''CRANE'' [(0, ''C'')]) ['''', ''R'', ''A'']) \<and>
   handleSubmit (exampleEnv exampleSettings) (typed (loaded 5 ''CRANE'' [(0, ''C'')]) ['''', ''R'', ''A'']) =
     (\<lparr>gameState = loaded 5 ''CRANE'' [(0, ''C'')], currentGuess = ['''', ''R'', ''A''],
       clueError = Some ''Please enter a complete word'', isShaking = False, forceClear = False\<rparr>,
      Rejected IncompleteGuess) \<and>
   gameState (fst (handleSubmit_p0 (exampleEnv exampleSettings)
       (noFlips (typed (loaded 5 ''CRANE'' [(0, ''C'')]) ['''', ''R'', ''A'', ''N'', ''K''])))) =
     loaded 5 ''CRANE'' [(0, ''C'')] \<and>
   currentGuess (fst (handleSubmit_p0 (exampleEnv exampleSettings)
       (noFlips (typed (loaded 5 ''CRANE'' [(0, ''C'')]) ['''', ''R'', ''A'', ''N'', ''K''])))) =
     [''C'', '''', '''', '''', ''''] \<and>
   fst (handleSubmit_p0 (exampleEnv exampleSettings)
       (noFlips (typed (loaded 5 ''CRANE'' [(0, ''C'')]) ['''', ''R'', ''A'']))) =
     (noFlips (typed (loaded 5 ''CRANE'' [(0, ''C'')]) ['''', ''R'', ''A'']))
       \<lparr>clueError := Some ''Not enough letters''\<rparr> \<and>
   lockedCells 5 [(0, ''C'')] ! 0 = ''C'' \<and> lockedCells 5 [(0, ''C'')] ! 1 = ''''"
proof -
  let ?env = "exampleEnv exampleSettings"
  let ?k = "typed (loaded 5 ''CRANE'' [(0, ''C'')]) ['''', ''R'', ''A'', ''N'', ''K'']"
  let ?i = "typed (loaded 5 ''CRANE'' [(0, ''C'')]) ['''', ''R'', ''A'']"
  note K = rejected_guess_not_recorded [of ?k ?env "noFlips ?k"]
  note I = rejected_guess_not_recorded [of ?i ?env "noFlips ?i"]
  have k1: "handleSubmit ?env ?k =
     (?k\<lparr>clueError := Some ''Not in dictionary'', isShaking := True,
         currentGuess := lockedCells (wordLength (gameState ?k)) (lockedLetters (gameState ?k)),
         forceClear := True\<rparr>, Rejected NotInDictionary)"
    using K unk2 by blast
  have k2: "handleSubmit_p0 ?env (noFlips ?k) =
     ((noFlips ?k)\<lparr>clueError := Some ''Not in the valid word list!'', isShaking := True,
         currentGuess := lockedCells (wordLength (gameState (noFlips ?k))) (lockedLetters (gameState (noFlips ?k))),
         forceClear := True\<rparr>, Rejected NotInDictionary)"
    using K unk2' by blast
  have i1: "handleSubmit ?env ?i =
     (?i\<lparr>clueError := Some ''Please enter a complete word''\<rparr>, Rejected IncompleteGuess)"
    using I inc2 by blast
  have i2: "handleSubmit_p0 ?env (noFlips ?i) =
     ((noFlips ?i)\<lparr>clueError := Some ''Not enough letters''\<rparr>, Rejected IncompleteGuess)"
    using I inc2' by blast
  have d: "distinct (map fst [(0::nat, ''C'')])" by simp
  have l0: "lockedCells 5 [(0, ''C'')] ! 0 = ''C''"
    using K [THEN conjunct2, THEN conjunct2, THEN conjunct2, THEN conjunct2, rule_format,
        of "[(0, ''C'')]" 0 5] by simp
  have l1: "lockedCells 5 [(0, ''C'')] ! 1 = ''''"
    using K [THEN conjunct2, THEN conjunct2, THEN conjunct2, THEN conjunct2, rule_format,
        of "[(0, ''C'')]" 1 5] by simp
  have s: "wordLength (gameState ?k) = 5" "lockedLetters (gameState ?k) = [(0, ''C'')]"
    by (simp_all add: typed_def loaded_def)
  show ?thesis
    unfolding k1 k2 i1 i2
    using unk2 inc2 l0 l1 by (simp add: s cells2) (simp add: typed_def)
qed

text \<open>
  Whenever a guess is taken, \<open>recordResult\<close> is called unless the route is an archive
  route, and the random-puzzle setting has no part in it.
\<close>

lemma recordResult_unless_archive:
  assumes "acceptable env c"
  shows "\<exists>ev. snd (handleSubmit env c)
           = Accepted (statsCall env (gameState c) (isWin ev) (adjustedMaxGuesses (settings env) (gameState c))) \<and>
         snd (handleSubmit_p0 env (noFlips c))
           = Accepted (statsCall env (gameState c) (isWin ev) (maxGuesses (settings env))) \<and>
         (statsCall env (gameState c) w limit = None \<longleftrightarrow> isArchivePuzzle (router env))"
proof -
  from acceptable_evaluates [OF assms] obtain ev
    where ev: "evaluateGuess (theGuess c) (secretWord (gameState c)) = Inr ev" by blast
  have a: "gameStatus (gameState c) = Playing"
    "validateGuess (completeGuess (gameState c) (currentGuess c)) (wordLength (gameState c))"
    "completeGuess (gameState c) (currentGuess c) \<in> dictionary env"
    "evaluateGuess (completeGuess (gameState c) (currentGuess c)) (secretWord (gameState c)) = Inr ev"
    using assms ev by (simp_all add: acceptable_def theGuess_def)
  have a0: "gameStatus (gameState (noFlips c)) = Playing"
    "validateGuess (completeGuess (gameState (noFlips c)) (currentGuess (noFlips c))) (wordLength (gameState (noFlips c)))"
    "completeGuess (gameState (noFlips c)) (currentGuess (noFlips c)) \<in> dictionary env"
    "evaluateGuess (completeGuess (gameState (noFlips c)) (currentGuess (noFlips c))) (secretWord (gameState (noFlips c))) = Inr ev"
    using a by simp_all
  show ?thesis
    by (rule exI [of _ ev])
       (simp add: handleSubmit_accepted [OF a] handleSubmit_p0_accepted [OF a0] statsCall_def)
qed

text \<open>
  C8. The handler calls \<open>recordResult\<close> whenever the route is not an archive route; the
  random-puzzle setting is only passed along in the argument. Here the setting is on, the
  route is not an archive route, and both revisions make the call.
\<close>

theorem recordResult_called_in_random_mode:
  "randomPuzzle (settings (exampleEnv (exampleSettings\<lparr>randomPuzzle := True\<rparr>))) \<and>
   \<not> isArchivePuzzle (router (exampleEnv (exampleSettings\<lparr>randomPuzzle := True\<rparr>))) \<and>
   snd (handleSubmit (exampleEnv (exampleSettings\<lparr>randomPuzzle := True\<rparr>))
          (typed (loaded 5 ''CRANE'' []) (cellsOf ''CRATE'')))
     = Accepted (Some \<lparr>dateISO = ''2025-09-01'', won = False, guesses = 6, solution = ''CRANE'',
                        mode_randomPuzzle = True, maxGuessesArg = 6\<rparr>) \<and>
   snd (handleSubmit_p0 (exampleEnv (exampleSettings\<lparr>randomPuzzle := True\<rparr>))
          (noFlips (typed (loaded 5 ''CRANE'' []) (cellsOf ''CRATE''))))
     = Accepted (Some \<lparr>dateISO = ''2025-09-01'', won = False, guesses = 6, solution = ''CRANE'',
                        mode_randomPuzzle = True, maxGuessesArg = 6\<rparr>)"
proof -
  let ?env = "exampleEnv (exampleSettings\<lparr>randomPuzzle := True\<rparr>)"
  let ?c = "typed (loaded 5 ''CRANE'' []) (cellsOf ''CRATE'')"
  have a: "gameStatus (gameState ?c) = Playing"
    "validateGuess (completeGuess (gameState ?c) (currentGuess ?c)) (wordLength (gameState ?c))"
    "completeGuess (gameState ?c) (currentGuess ?c) \<in> dictionary ?env"
    "evaluateGuess (completeGuess (gameState ?c) (currentGuess ?c)) (secretWord (gameState ?c)) = Inr [Correct, Correct, Correct, Absent, Correct]"
    using acc1 g1 ev1 by (simp_all add: acceptable_def theGuess_def) (simp_all add: example_defs eval_nat_numeral)
  have a0: "gameStatus (gameState (noFlips ?c)) = Playing"
    "validateGuess (completeGuess (gameState (noFlips ?c)) (currentGuess (noFlips ?c))) (wordLength (gameState (noFlips ?c)))"
    "completeGuess (gameState (noFlips ?c)) (currentGuess (noFlips ?c)) \<in> dictionary ?env"
    "evaluateGuess (completeGuess (gameState (noFlips ?c)) (currentGuess (noFlips ?c))) (secretWord (gameState (noFlips ?c))) = Inr [Correct, Correct, Correct, Absent, Correct]"
    using a by simp_all
  show ?thesis
    by (simp add: handleSubmit_accepted [OF a] handleSubmit_p0_accepted [OF a0] statsCall_def
        isArchivePuzzle_def truthy_def isWin_def adjustedMaxGuesses_def)
       (simp add: example_defs)
qed

section \<open>Properties of the lifeline\<close>

lemma unrevealedPositions_p0_eq: "unrevealedPositions_p0 gs = unrevealedPositions gs"
  unfolding unrevealedPositions_p0_def unrevealedPositions_def
  by (rule filter_cong) (auto simp: isPositionRevealed_p0_def isPositionRevealed_def)

lemma handleRevealLetter_p0_eq: "handleRevealLetter_p0 r gs = handleRevealLetter r gs"
  by (simp add: handleRevealLetter_p0_def handleRevealLetter_def unrevealedPositions_p0_eq)

lemma set_unrevealedPositions:
  "i \<in> set (unrevealedPositions gs) \<longleftrightarrow>
     i < wordLength gs \<and> \<not> truthy (map_of (lockedLetters gs) i) \<and> i \<notin> set (revealedLetters gs)"
  by (auto simp: unrevealedPositions_def isPositionRevealed_def)

lemma random_index:
  assumes "0 \<le> r" and "r < 1" and "0 < n"
  shows "nat \<lfloor>r * real n\<rfloor> < n"
proof -
  have "r * real n < real n" using assms by simp
  then have "\<lfloor>r * real n\<rfloor> < int n" by (simp add: floor_less_iff)
  moreover have "0 \<le> \<lfloor>r * real n\<rfloor>" using assms by simp
  ultimately show ?thesis by linarith
qed

lemma handleRevealLetter_noop:
  "letterRevealsRemaining gs \<le> 0 \<or> gameStatus gs \<noteq> Playing \<or> unrevealedPositions gs = []
     \<Longrightarrow> handleRevealLetter r gs = gs"
  by (auto simp: handleRevealLetter_def Let_def)

lemma handleRevealLetter_reveals:
  assumes "0 \<le> r" and "r < 1"
    and "\<not> (letterRevealsRemaining gs \<le> 0 \<or> gameStatus gs \<noteq> Playing \<or> unrevealedPositions gs = [])"
  shows "\<exists>p. p \<in> set (unrevealedPositions gs) \<and>
            handleRevealLetter r gs =
              gs\<lparr>revealedLetters := revealedLetters gs @ [p],
                 letterRevealsRemaining := letterRevealsRemaining gs - 1\<rparr>"
proof -
  let ?ps = "unrevealedPositions gs"
  let ?p = "?ps ! nat \<lfloor>r * real (length ?ps)\<rfloor>"
  have n: "0 < length ?ps" using assms(3) by simp
  have "nat \<lfloor>r * real (length ?ps)\<rfloor> < length ?ps"
    by (rule random_index [OF assms(1,2) n])
  then have mem: "?p \<in> set ?ps" by simp
  then have "?p \<notin> set (revealedLetters gs)" by (simp add: set_unrevealedPositions)
  then have "handleRevealLetter r gs =
      gs\<lparr>revealedLetters := revealedLetters gs @ [?p],
         letterRevealsRemaining := letterRevealsRemaining gs - 1\<rparr>"
    using assms(3) n by (simp add: handleRevealLetter_def Let_def revealAt_def setAdd_def)
  with mem show ?thesis by blast
qed

text \<open>The reveals that are left, counted from zero, plus the positions revealed so far.\<close>

lemma submit_keeps_lifeline:
  "revealedLetters (gameState (fst (handleSubmit env c))) = revealedLetters (gameState c) \<and>
   letterRevealsRemaining (gameState (fst (handleSubmit env c))) = letterRevealsRemaining (gameState c)"
  by (simp add: handleSubmit_def Let_def split: sum.splits)

lemma submit_p0_keeps_lifeline:
  "revealedLetters (gameState (fst (handleSubmit_p0 env c))) = revealedLetters (gameState c) \<and>
   letterRevealsRemaining (gameState (fst (handleSubmit_p0 env c))) = letterRevealsRemaining (gameState c)"
  by (simp add: handleSubmit_p0_def Let_def split: sum.splits)

lemma flip_keeps_lifeline:
  "revealedLetters (gameState (flipTimeout c)) = revealedLetters (gameState c) \<and>
   letterRevealsRemaining (gameState (flipTimeout c)) = letterRevealsRemaining (gameState c)"
  by (simp add: flipTimeout_def split: list.splits PendingTimer.splits)

lemma winEffect_gameState [simp]: "gameState (winEffect env c) = gameState c"
  by (simp add: winEffect_def Let_def)

lemma winEffect_currentGuess [simp]: "currentGuess (winEffect env c) = currentGuess c"
  by (simp add: winEffect_def Let_def)

lemma reveal_budget:
  assumes "0 \<le> r" and "r < 1"
  shows "letterRevealsRemaining (handleRevealLetter r gs) \<le> letterRevealsRemaining gs \<and>
     int (length (revealedLetters (handleRevealLetter r gs))) + max 0 (letterRevealsRemaining (handleRevealLetter r gs))
       = int (length (revealedLetters gs)) + max 0 (letterRevealsRemaining gs)"
proof (cases "letterRevealsRemaining gs \<le> 0 \<or> gameStatus gs \<noteq> Playing \<or> unrevealedPositions gs = []")
  case True
  then show ?thesis by (simp add: handleRevealLetter_noop)
next
  case False
  from handleRevealLetter_reveals [OF assms False] obtain p where
    "handleRevealLetter r gs = gs\<lparr>revealedLetters := revealedLetters gs @ [p],
                 letterRevealsRemaining := letterRevealsRemaining gs - 1\<rparr>" by blast
  then show ?thesis using False by simp
qed

lemma step_budget:
  assumes "inGame e"
  shows "letterRevealsRemaining (gameState (step env e c)) \<le> letterRevealsRemaining (gameState c) \<and>
     int (length (revealedLetters (gameState (step env e c)))) + max 0 (letterRevealsRemaining (gameState (step env e c)))
       = int (length (revealedLetters (gameState c))) + max 0 (letterRevealsRemaining (gameState c))"
proof (cases e)
  case (Reveal r)
  then show ?thesis using assms reveal_budget [of r "gameState c"] by simp
next
  case (Load p)
  then show ?thesis using assms by simp
qed (simp_all add: submit_keeps_lifeline)

lemma step_p0_budget:
  assumes "inGame e"
  shows "letterRevealsRemaining (gameState (step_p0 env e c)) \<le> letterRevealsRemaining (gameState c) \<and>
     int (length (revealedLetters (gameState (step_p0 env e c)))) + max 0 (letterRevealsRemaining (gameState (step_p0 env e c)))
       = int (length (revealedLetters (gameState c))) + max 0 (letterRevealsRemaining (gameState c))"
proof (cases e)
  case (Reveal r)
  then show ?thesis using assms reveal_budget [of r "gameState c"]
    by (simp add: handleRevealLetter_p0_eq step_p0_def)
next
  case (Load p)
  then show ?thesis using assms by simp
qed (simp_all add: submit_p0_keeps_lifeline flip_keeps_lifeline step_p0_def)

lemma run_budget:
  assumes "list_all inGame events"
  shows "letterRevealsRemaining (gameState (run env events c)) \<le> letterRevealsRemaining (gameState c) \<and>
     int (length (revealedLetters (gameState (run env events c)))) + max 0 (letterRevealsRemaining (gameState (run env events c)))
       = int (length (revealedLetters (gameState c))) + max 0 (letterRevealsRemaining (gameState c))"
  using assms
proof (induction events arbitrary: c)
  case Nil
  show ?case by (simp add: run_def)
next
  case (Cons e events)
  have e: "inGame e" and es: "list_all inGame events" using Cons.prems by simp_all
  have r: "run env (e # events) c = run env events (step env e c)" by (simp add: run_def)
  show ?case unfolding r using Cons.IH [OF es, of "step env e c"] step_budget [OF e, of env c]
    by linarith
qed

lemma run_p0_budget:
  assumes "list_all inGame events"
  shows "letterRevealsRemaining (gameState (run_p0 env events c)) \<le> letterRevealsRemaining (gameState c) \<and>
     int (length (revealedLetters (gameState (run_p0 env events c)))) + max 0 (letterRevealsRemaining (gameState (run_p0 env events c)))
       = int (length (revealedLetters (gameState c))) + max 0 (letterRevealsRemaining (gameState c))"
  using assms
proof (induction events arbitrary: c)
  case Nil
  show ?case by (simp add: run_p0_def)
next
  case (Cons e events)
  have e: "inGame e" and es: "list_all inGame events" using Cons.prems by simp_all
  have r: "run_p0 env (e # events) c = run_p0 env events (step_p0 env e c)" by (simp add: run_p0_def)
  show ?case unfolding r using Cons.IH [OF es, of "step_p0 env e c"] step_p0_budget [OF e, of env c]
    by linarith
qed

lemma run_Load: "run env (Load p # events) c = run env events (c\<lparr>gameState := loadEffect env p (gameState c)\<rparr>)"
  by (simp add: run_def)

lemma run_p0_Load:
  "run_p0 env (Load p # events) c =
     run_p0 env events (winEffect env (c\<lparr>gameState := loadEffect_p0 env p (gameState c)\<rparr>))"
  by (simp add: run_p0_def step_p0_def)

lemma loadEffect_lifeline [simp]:
  "letterRevealsRemaining (loadEffect env p gs) = 1" "revealedLetters (loadEffect env p gs) = []"
  "attempts (loadEffect env p gs) = attempts gs" "attemptIndex (loadEffect env p gs) = attemptIndex gs"
  "gameStatus (loadEffect env p gs) = gameStatus gs"
  "letterRevealsRemaining (loadEffect_p0 env p gs) = 1" "revealedLetters (loadEffect_p0 env p gs) = []"
  "attempts (loadEffect_p0 env p gs) = attempts gs" "attemptIndex (loadEffect_p0 env p gs) = attemptIndex gs"
  "gameStatus (loadEffect_p0 env p gs) = gameStatus gs"
  by (simp_all add: loadEffect_def loadEffect_p0_def)

text \<open>
  C5, amended. With \<open>r\<close> the random number drawn: \<open>handleRevealLetter\<close> returns the state
  unchanged when the budget is 0 or less, the game is not being played, or no position is
  left that is neither locked nor revealed; otherwise it adds one such position to the
  revealed ones and takes one from the budget. The positions left are those inside the word
  that hold no truthy lock and are not revealed, and the two revisions agree. The component
  starts with a budget of 1 and nothing revealed, and so does the game after every puzzle
  load, which keeps the attempts, their count and the status. Over any run of events
  between two loads (typing, submitting, revealing, timers) the budget never grows, and the
  revealed positions plus the reveals still left stay the same number: after a load one
  reveal takes effect and every later call changes nothing, until the next load.
\<close>

theorem lifeline_reveal:
  assumes "0 \<le> r" and "r < 1" and "list_all inGame events" and "list_all inGame events0"
  shows
   "(if letterRevealsRemaining gs \<le> 0 \<or> gameStatus gs \<noteq> Playing \<or> unrevealedPositions gs = []
     then handleRevealLetter r gs = gs
     else (\<exists>p. p \<in> set (unrevealedPositions gs) \<and>
             handleRevealLetter r gs =
               gs\<lparr>revealedLetters := revealedLetters gs @ [p],
                  letterRevealsRemaining := letterRevealsRemaining gs - 1\<rparr>)) \<and>
    (\<forall>i. i \<in> set (unrevealedPositions gs) \<longleftrightarrow>
        i < wordLength gs \<and> \<not> truthy (map_of (lockedLetters gs) i) \<and> i \<notin> set (revealedLetters gs)) \<and>
    handleRevealLetter_p0 r gs = handleRevealLetter r gs \<and>
    letterRevealsRemaining (gameState (run env events c)) \<le> letterRevealsRemaining (gameState c) \<and>
    int (length (revealedLetters (gameState (run env events c))))
        + max 0 (letterRevealsRemaining (gameState (run env events c)))
      = int (length (revealedLetters (gameState c))) + max 0 (letterRevealsRemaining (gameState c)) \<and>
    letterRevealsRemaining (gameState (run_p0 env events0 c0)) \<le> letterRevealsRemaining (gameState c0) \<and>
    int (length (revealedLetters (gameState (run_p0 env events0 c0))))
        + max 0 (letterRevealsRemaining (gameState (run_p0 env events0 c0)))
      = int (length (revealedLetters (gameState c0))) + max 0 (letterRevealsRemaining (gameState c0)) \<and>
    letterRevealsRemaining (initialState n) = 1 \<and>
    revealedLetters (initialState n) = [] \<and>
    loadEffect env puzzle gs =
      gs\<lparr>wordLength := puzzleWordLength puzzle, secretWord := loadedWord puzzle,
         clue := (if revealClue (settings env) then Some (loadedClue puzzle) else None),
         lockedLetters := maskLocks (loadedWord puzzle) (revealedMask puzzle),
         revealedLetters := [], letterRevealsRemaining := 1\<rparr> \<and>
    loadEffect_p0 env puzzle gs =
      gs\<lparr>wordLength := puzzleWordLength puzzle, secretWord := loadedWord puzzle,
         clue := (if revealClue (settings env) then Some (loadedClue puzzle) else None),
         lockedLetters := (if lockedLetters gs = [] then maskLocks (loadedWord puzzle) (revealedMask puzzle)
                           else lockedLetters gs),
         revealedLetters := [], letterRevealsRemaining := 1\<rparr> \<and>
    length (revealedLetters (gameState (run env (Load puzzle # events) c))) \<le> 1 \<and>
    length (revealedLetters (gameState (run_p0 env (Load puzzle # events0) c0))) \<le> 1"
proof -
  have 1: "(if letterRevealsRemaining gs \<le> 0 \<or> gameStatus gs \<noteq> Playing \<or> unrevealedPositions gs = []
     then handleRevealLetter r gs = gs
     else (\<exists>p. p \<in> set (unrevealedPositions gs) \<and>
             handleRevealLetter r gs =
               gs\<lparr>revealedLetters := revealedLetters gs @ [p],
                  letterRevealsRemaining := letterRevealsRemaining gs - 1\<rparr>))"
    using handleRevealLetter_noop [of gs r] handleRevealLetter_reveals [OF assms(1,2), of gs]
    by (cases "letterRevealsRemaining gs \<le> 0 \<or> gameStatus gs \<noteq> Playing \<or> unrevealedPositions gs = []")
       simp_all
  have 2: "length (revealedLetters (gameState (run env (Load puzzle # events) c))) \<le> 1"
    unfolding run_Load
    using run_budget [OF assms(3), of env "c\<lparr>gameState := loadEffect env puzzle (gameState c)\<rparr>"]
    by (simp add: max_def split: if_splits)
  have 3: "length (revealedLetters (gameState (run_p0 env (Load puzzle # events0) c0))) \<le> 1"
    unfolding run_p0_Load
    using run_p0_budget [OF assms(4), of env
        "winEffect env (c0\<lparr>gameState := loadEffect_p0 env puzzle (gameState c0)\<rparr>)"]
    by (simp add: max_def split: if_splits)
  have 4: "letterRevealsRemaining (initialState n) = 1" "revealedLetters (initialState n) = []"
    by (simp_all add: initialState_def)
  have 5: "loadEffect env puzzle gs =
      gs\<lparr>wordLength := puzzleWordLength puzzle, secretWord := loadedWord puzzle,
         clue := (if revealClue (settings env) then Some (loadedClue puzzle) else None),
         lockedLetters := maskLocks (loadedWord puzzle) (revealedMask puzzle),
         revealedLetters := [], letterRevealsRemaining := 1\<rparr>"
    by (simp add: loadEffect_def)
  have 6: "loadEffect_p0 env puzzle gs =
      gs\<lparr>wordLength := puzzleWordLength puzzle, secretWord := loadedWord puzzle,
         clue := (if revealClue (settings env) then Some (loadedClue puzzle) else None),
         lockedLetters := (if lockedLetters gs = [] then maskLocks (loadedWord puzzle) (revealedMask puzzle)
                           else lockedLetters gs),
         revealedLetters := [], letterRevealsRemaining := 1\<rparr>"
    by (simp add: loadEffect_p0_def)
  have 7: "(\<forall>i. i \<in> set (unrevealedPositions gs) \<longleftrightarrow>
        i < wordLength gs \<and> \<not> truthy (map_of (lockedLetters gs) i) \<and> i \<notin> set (revealedLetters gs))"
    using set_unrevealedPositions [of _ gs] by blast
  note 8 = handleRevealLetter_p0_eq [of r gs]
  note 9 = run_budget [OF assms(3), of env c]
  note 10 = run_p0_budget [OF assms(4), of env c0]
  show ?thesis
    apply (intro conjI)
    apply (rule 1)
    apply (rule 7)
    apply (rule 8)
    apply (rule 9 [THEN conjunct1])
    apply (rule 9 [THEN conjunct2])
    apply (rule 10 [THEN conjunct1])
    apply (rule 10 [THEN conjunct2])
    apply (rule 4(1))
    apply (rule 4(2))
    apply (rule 5)
    apply (rule 6)
    apply (rule 2)
    apply (rule 3)
    done
qed

lemma reveal1:
  "handleRevealLetter (1/2) (loaded 5 ''CRANE'' [(0, ''C'')]) =
     (loaded 5 ''CRANE'' [(0, ''C'')])\<lparr>revealedLetters := [3], letterRevealsRemaining := 0\<rparr>"
  by (simp add: handleRevealLetter_def unrevealedPositions_def isPositionRevealed_def truthy_def
      loaded_def revealAt_def setAdd_def eval_nat_numeral Let_def)

lemma g5:
  assumes "wordLength gs = 5" and "lockedLetters gs = [(0, ''C'')]"
  shows "theGuess (typed gs (cellsOf ''CRATE'')) = ''CRATE''"
  using assms by (simp add: theGuess_def completeGuess_def typed_def cellsOf_def eval_nat_numeral)

lemma nl5:
  "newLocked [Correct, Correct, Correct, Absent, Correct] ''CRATE'' [(0, ''C'')]
     = [(0, ''C''), (1, ''R''), (2, ''A''), (4, ''E'')]"
  by (simp add: newLocked_def lockStep_def eval_nat_numeral)

lemma submit5:
  "gameState (fst (handleSubmit (exampleEnv exampleSettings)
      (typed ((loaded 5 ''CRANE'' [(0, ''C'')])\<lparr>revealedLetters := [3], letterRevealsRemaining := 0\<rparr>)
         (cellsOf ''CRATE'')))) =
   (loaded 5 ''CRANE'' [(0, ''C''), (1, ''R''), (2, ''A''), (4, ''E'')])
      \<lparr>attempts := [''CRATE''], attemptIndex := 1, revealedLetters := [3], letterRevealsRemaining := 0\<rparr>"
proof -
  let ?gs = "(loaded 5 ''CRANE'' [(0, ''C'')])\<lparr>revealedLetters := [3], letterRevealsRemaining := 0\<rparr>"
  let ?c = "typed ?gs (cellsOf ''CRATE'')"
  have g: "completeGuess (gameState ?c) (currentGuess ?c) = ''CRATE''"
    using g5 [of ?gs] by (simp add: theGuess_def loaded_def)
  have a: "gameStatus (gameState ?c) = Playing"
    "validateGuess (completeGuess (gameState ?c) (currentGuess ?c)) (wordLength (gameState ?c))"
    "completeGuess (gameState ?c) (currentGuess ?c) \<in> dictionary (exampleEnv exampleSettings)"
    "evaluateGuess (completeGuess (gameState ?c) (currentGuess ?c)) (secretWord (gameState ?c))
       = Inr [Correct, Correct, Correct, Absent, Correct]"
    unfolding g using ev1
    by (simp_all add: typed_def loaded_def validateGuess_def exampleEnv_def)
  show ?thesis
    unfolding handleSubmit_accepted [OF a] g
    by (simp add: typed_def loaded_def nl5 newStatus_def isWin_def adjustedMaxGuesses_def
        exampleEnv_def exampleSettings_def)
qed

lemma submit5_p0:
  "fst (handleSubmit_p0 (exampleEnv exampleSettings)
      (noFlips (typed ((loaded 5 ''CRANE'' [(0, ''C'')])\<lparr>revealedLetters := [3], letterRevealsRemaining := 0\<rparr>)
         (cellsOf ''CRATE'')))) =
   (noFlips (typed ((loaded 5 ''CRANE'' [(0, ''C'')])
       \<lparr>attempts := [''CRATE''], attemptIndex := 1, revealedLetters := [3], letterRevealsRemaining := 0\<rparr>)
         (cellsOf ''CRATE'')))
     \<lparr>pendingFlips := [FlipOf \<lparr>finalLockedLetters = [(0, ''C'')], nextCells = ['''', '''', '''', '''', '''']\<rparr>]\<rparr>"
proof -
  let ?gs = "(loaded 5 ''CRANE'' [(0, ''C'')])\<lparr>revealedLetters := [3], letterRevealsRemaining := 0\<rparr>"
  let ?c = "noFlips (typed ?gs (cellsOf ''CRATE''))"
  have g: "completeGuess (gameState ?c) (currentGuess ?c) = ''CRATE''"
    using g5 [of ?gs] by (simp add: theGuess_def loaded_def)
  have a: "gameStatus (gameState ?c) = Playing"
    "validateGuess (completeGuess (gameState ?c) (currentGuess ?c)) (wordLength (gameState ?c))"
    "completeGuess (gameState ?c) (currentGuess ?c) \<in> dictionary (exampleEnv exampleSettings)"
    "evaluateGuess (completeGuess (gameState ?c) (currentGuess ?c)) (secretWord (gameState ?c))
       = Inr [Correct, Correct, Correct, Absent, Correct]"
    unfolding g using ev1
    by (simp_all add: typed_def loaded_def validateGuess_def exampleEnv_def)
  show ?thesis
    unfolding handleSubmit_p0_accepted [OF a] g
    by (simp add: typed_def loaded_def noFlips_def newStatus_def isWin_def
        exampleEnv_def exampleSettings_def eval_nat_numeral)
qed

lemma load5:
  "loadEffect (exampleEnv exampleSettings) examplePuzzle gs =
     gs\<lparr>wordLength := 5, secretWord := ''CRANE'', clue := None, lockedLetters := [(0, ''C'')],
        revealedLetters := [], letterRevealsRemaining := 1\<rparr>"
  by (simp add: loadEffect_def examplePuzzle_def maskLocks_def exampleEnv_def exampleSettings_def
      eval_nat_numeral)

lemma reveal5:
  assumes "wordLength gs = 5" and "lockedLetters gs = [(0, ''C'')]" and "revealedLetters gs = []"
    and "letterRevealsRemaining gs = 1" and "gameStatus gs = Playing"
  shows "handleRevealLetter (1/4) gs = gs\<lparr>revealedLetters := [2], letterRevealsRemaining := 0\<rparr>"
  using assms
  by (simp add: handleRevealLetter_def unrevealedPositions_def isPositionRevealed_def truthy_def
      revealAt_def setAdd_def eval_nat_numeral Let_def)

lemma winEffect_playing: "gameStatus (gameState x) = Playing \<Longrightarrow> winEffect env x = x"
  by (simp add: winEffect_def)

text \<open>
  C5 as stated fails: the budget is replenished within a puzzle. C is pre-revealed, the
  lifeline reveals position 3 and CRATE is submitted; the budget is 0. The load effect runs
  again (as it does when a setting it depends on is changed, or the page is reloaded) with
  the same puzzle: the attempt is kept and the budget is 1 again, and a second call of the
  lifeline reveals position 2. The same in part_000, there with the flip timer run before
  the load.
\<close>

theorem lifeline_replenished_counterexample:
  "gameState (run (exampleEnv exampleSettings)
       [Reveal (1/2), Typed (cellsOf ''CRATE''), Submit]
       (typed (loaded 5 ''CRANE'' [(0, ''C'')]) [])) =
     (loaded 5 ''CRANE'' [(0, ''C''), (1, ''R''), (2, ''A''), (4, ''E'')])
       \<lparr>attempts := [''CRATE''], attemptIndex := 1, revealedLetters := [3], letterRevealsRemaining := 0\<rparr> \<and>
   gameState (run (exampleEnv exampleSettings)
       [Reveal (1/2), Typed (cellsOf ''CRATE''), Submit, Load examplePuzzle]
       (typed (loaded 5 ''CRANE'' [(0, ''C'')]) [])) =
     (loaded 5 ''CRANE'' [(0, ''C'')])
       \<lparr>attempts := [''CRATE''], attemptIndex := 1, revealedLetters := [], letterRevealsRemaining := 1\<rparr> \<and>
   gameState (run (exampleEnv exampleSettings)
       [Reveal (1/2), Typed (cellsOf ''CRATE''), Submit, Load examplePuzzle, Reveal (1/4)]
       (typed (loaded 5 ''CRANE'' [(0, ''C'')]) [])) =
     (loaded 5 ''CRANE'' [(0, ''C'')])
       \<lparr>attempts := [''CRATE''], attemptIndex := 1, revealedLetters := [2], letterRevealsRemaining := 0\<rparr> \<and>
   gameState (run_p0 (exampleEnv exampleSettings)
       [Reveal (1/2), Typed (cellsOf ''CRATE''), Submit, Flip]
       (noFlips (typed (loaded 5 ''CRANE'' [(0, ''C'')]) []))) =
     (loaded 5 ''CRANE'' [(0, ''C'')])
       \<lparr>attempts := [''CRATE''], attemptIndex := 1, revealedLetters := [3], letterRevealsRemaining := 0\<rparr> \<and>
   gameState (run_p0 (exampleEnv exampleSettings)
       [Reveal (1/2), Typed (cellsOf ''CRATE''), Submit, Flip, Load examplePuzzle, Reveal (1/4)]
       (noFlips (typed (loaded 5 ''CRANE'' [(0, ''C'')]) []))) =
     (loaded 5 ''CRANE'' [(0, ''C'')])
       \<lparr>attempts := [''CRATE''], attemptIndex := 1, revealedLetters := [2], letterRevealsRemaining := 0\<rparr>"
proof -
  let ?env = "exampleEnv exampleSettings"
  let ?g0 = "loaded 5 ''CRANE'' [(0, ''C'')]"
  let ?g1 = "?g0\<lparr>revealedLetters := [3], letterRevealsRemaining := 0\<rparr>"
  have a: "run ?env [Reveal (1/2), Typed (cellsOf ''CRATE''), Submit] (typed ?g0 [])
      = fst (handleSubmit ?env (typed ?g1 (cellsOf ''CRATE'')))"
    by (simp add: run_def reveal1 typed_def)
  have 1: "gameState (run ?env [Reveal (1/2), Typed (cellsOf ''CRATE''), Submit] (typed ?g0 [])) =
     (loaded 5 ''CRANE'' [(0, ''C''), (1, ''R''), (2, ''A''), (4, ''E'')])
       \<lparr>attempts := [''CRATE''], attemptIndex := 1, revealedLetters := [3], letterRevealsRemaining := 0\<rparr>"
    unfolding a by (rule submit5)
  have r2: "run ?env [Reveal (1/2), Typed (cellsOf ''CRATE''), Submit, Load examplePuzzle] (typed ?g0 [])
      = step ?env (Load examplePuzzle) (run ?env [Reveal (1/2), Typed (cellsOf ''CRATE''), Submit] (typed ?g0 []))"
    by (simp add: run_def)
  have 2: "gameState (run ?env [Reveal (1/2), Typed (cellsOf ''CRATE''), Submit, Load examplePuzzle] (typed ?g0 [])) =
     ?g0\<lparr>attempts := [''CRATE''], attemptIndex := 1, revealedLetters := [], letterRevealsRemaining := 1\<rparr>"
    unfolding r2 by (simp add: 1 load5) (simp add: loaded_def)
  have r3: "run ?env [Reveal (1/2), Typed (cellsOf ''CRATE''), Submit, Load examplePuzzle, Reveal (1/4)] (typed ?g0 [])
      = step ?env (Reveal (1/4)) (run ?env [Reveal (1/2), Typed (cellsOf ''CRATE''), Submit, Load examplePuzzle] (typed ?g0 []))"
    by (simp add: run_def)
  have 3: "gameState (run ?env [Reveal (1/2), Typed (cellsOf ''CRATE''), Submit, Load examplePuzzle, Reveal (1/4)] (typed ?g0 [])) =
     ?g0\<lparr>attempts := [''CRATE''], attemptIndex := 1, revealedLetters := [2], letterRevealsRemaining := 0\<rparr>"
    unfolding r3 by (simp add: 2, subst reveal5) (simp_all add: loaded_def)
  let ?d1 = "(noFlips (typed (?g0\<lparr>attempts := [''CRATE''], attemptIndex := 1, revealedLetters := [3],
        letterRevealsRemaining := 0\<rparr>) (cellsOf ''CRATE'')))
     \<lparr>pendingFlips := [FlipOf \<lparr>finalLockedLetters = [(0, ''C'')], nextCells = ['''', '''', '''', '''', '''']\<rparr>]\<rparr>"
  have s1: "step_p0 ?env (Reveal (1/2)) (noFlips (typed ?g0 [])) = noFlips (typed ?g1 [])"
    unfolding step_p0_def
    by (subst winEffect_playing)
       (simp_all add: handleRevealLetter_p0_eq noFlips_def typed_def reveal1, simp add: loaded_def)
  have s2: "step_p0 ?env (Typed (cellsOf ''CRATE'')) (noFlips (typed ?g1 [])) = noFlips (typed ?g1 (cellsOf ''CRATE''))"
    unfolding step_p0_def
    by (subst winEffect_playing) (simp_all add: noFlips_def typed_def, simp add: loaded_def)
  have s3: "step_p0 ?env Submit (noFlips (typed ?g1 (cellsOf ''CRATE''))) = ?d1"
    unfolding step_p0_def deliver_p0.simps submit5_p0
    by (rule winEffect_playing) (simp add: typed_def loaded_def)
  have b: "run_p0 ?env [Reveal (1/2), Typed (cellsOf ''CRATE''), Submit] (noFlips (typed ?g0 [])) = ?d1"
    by (simp only: run_p0_def fold_simps s1 s2 s3)
  let ?d2 = "(noFlips (typed (?g0\<lparr>attempts := [''CRATE''], attemptIndex := 1, revealedLetters := [3],
        letterRevealsRemaining := 0\<rparr>) ['''', '''', '''', '''', '''']))"
  have r4: "run_p0 ?env [Reveal (1/2), Typed (cellsOf ''CRATE''), Submit, Flip] (noFlips (typed ?g0 []))
      = step_p0 ?env Flip (run_p0 ?env [Reveal (1/2), Typed (cellsOf ''CRATE''), Submit] (noFlips (typed ?g0 [])))"
    by (simp add: run_p0_def)
  have c: "run_p0 ?env [Reveal (1/2), Typed (cellsOf ''CRATE''), Submit, Flip] (noFlips (typed ?g0 [])) = ?d2"
    unfolding r4 b
    by (simp add: step_p0_def flipTimeout_def) (simp add: typed_def loaded_def noFlips_def winEffect_playing)
  have 4: "gameState (run_p0 ?env [Reveal (1/2), Typed (cellsOf ''CRATE''), Submit, Flip] (noFlips (typed ?g0 []))) =
     ?g0\<lparr>attempts := [''CRATE''], attemptIndex := 1, revealedLetters := [3], letterRevealsRemaining := 0\<rparr>"
    unfolding c by (simp add: typed_def)
  have r5: "run_p0 ?env [Reveal (1/2), Typed (cellsOf ''CRATE''), Submit, Flip, Load examplePuzzle, Reveal (1/4)]
        (noFlips (typed ?g0 []))
      = step_p0 ?env (Reveal (1/4)) (step_p0 ?env (Load examplePuzzle)
          (run_p0 ?env [Reveal (1/2), Typed (cellsOf ''CRATE''), Submit, Flip] (noFlips (typed ?g0 []))))"
    by (simp add: run_p0_def)
  have 5: "gameState (run_p0 ?env [Reveal (1/2), Typed (cellsOf ''CRATE''), Submit, Flip, Load examplePuzzle, Reveal (1/4)]
        (noFlips (typed ?g0 []))) =
     ?g0\<lparr>attempts := [''CRATE''], attemptIndex := 1, revealedLetters := [2], letterRevealsRemaining := 0\<rparr>"
    unfolding r5 c
    by (simp add: step_p0_def handleRevealLetter_p0_eq typed_def, subst reveal5)
       (simp_all add: loaded_def loadEffect_p0_def examplePuzzle_def exampleEnv_def exampleSettings_def)
  from 1 2 3 4 5 show ?thesis by blast
qed

text \<open>
  The amended C5 at the example: after the load the first reveal uncovers position 3, the
  second does nothing, and at most one position is revealed after any run without another
  load.
\<close>

theorem lifeline_reveal_witness:
  "0 \<le> (1/2 :: real) \<and> (1/2 :: real) < 1 \<and>
   list_all inGame [Reveal (1/2), Typed (cellsOf ''CRATE''), Submit, Flip, Reveal (1/4)] \<and>
   handleRevealLetter (1/2) (loaded 5 ''CRANE'' [(0, ''C'')]) =
     (loaded 5 ''CRANE'' [(0, ''C'')])\<lparr>revealedLetters := [3], letterRevealsRemaining := 0\<rparr> \<and>
   handleRevealLetter (1/4) (handleRevealLetter (1/2) (loaded 5 ''CRANE'' [(0, ''C'')])) =
     handleRevealLetter (1/2) (loaded 5 ''CRANE'' [(0, ''C'')]) \<and>
   loadEffect (exampleEnv exampleSettings) examplePuzzle (initialState 5) = loaded 5 ''CRANE'' [(0, ''C'')] \<and>
   loadEffect_p0 (exampleEnv exampleSettings) examplePuzzle (initialState 5) = loaded 5 ''CRANE'' [(0, ''C'')] \<and>
   letterRevealsRemaining (gameState (run (exampleEnv exampleSettings)
       [Reveal (1/2), Typed (cellsOf ''CRATE''), Submit, Flip, Reveal (1/4)]
       (typed (loaded 5 ''CRANE'' [(0, ''C'')]) []))) \<le> 1 \<and>
   letterRevealsRemaining (gameState (run_p0 (exampleEnv exampleSettings)
       [Reveal (1/2), Typed (cellsOf ''CRATE''), Submit, Flip, Reveal (1/4)]
       (noFlips (typed (loaded 5 ''CRANE'' [(0, ''C'')]) [])))) \<le> 1 \<and>
   length (revealedLetters (gameState (run (exampleEnv exampleSettings)
       [Load examplePuzzle, Reveal (1/2), Typed (cellsOf ''CRATE''), Submit, Flip, Reveal (1/4)]
       (typed (initialState 5) [])))) \<le> 1 \<and>
   length (revealedLetters (gameState (run_p0 (exampleEnv exampleSettings)
       [Load examplePuzzle, Reveal (1/2), Typed (cellsOf ''CRATE''), Submit, Flip, Reveal (1/4)]
       (noFlips (typed (initialState 5) []))))) \<le> 1"
proof -
  let ?evs = "[Reveal (1/2), Typed (cellsOf ''CRATE''), Submit, Flip, Reveal (1/4)]"
  let ?gs = "loaded 5 ''CRANE'' [(0, ''C'')]"
  let ?env = "exampleEnv exampleSettings"
  have v: "list_all inGame ?evs" by (simp add: cellsOf_def oneLetter_def)
  have h: "0 \<le> (1/4 :: real)" "(1/4 :: real) < 1" by simp_all
  have b: "letterRevealsRemaining (handleRevealLetter (1/2) ?gs) \<le> 0"
    by (simp add: reveal1)
  note t = lifeline_reveal [OF h v v, of "handleRevealLetter (1/2) ?gs" ?env
      "typed ?gs []" "noFlips (typed ?gs [])" 5 examplePuzzle]
  note u = lifeline_reveal [OF h v v, of "initialState 5" ?env
      "typed (initialState 5) []" "noFlips (typed (initialState 5) [])" 5 examplePuzzle]
  from t b have again: "handleRevealLetter (1/4) (handleRevealLetter (1/2) ?gs) = handleRevealLetter (1/2) ?gs"
    by simp
  have one: "letterRevealsRemaining (gameState (typed ?gs [])) = 1"
    by (simp add: typed_def loaded_def)
  from t one have r: "letterRevealsRemaining (gameState (run ?env ?evs (typed ?gs []))) \<le> 1"
    "letterRevealsRemaining (gameState (run_p0 ?env ?evs (noFlips (typed ?gs [])))) \<le> 1"
    by simp_all
  have l: "loadEffect ?env examplePuzzle (initialState 5) = ?gs"
    "loadEffect_p0 ?env examplePuzzle (initialState 5) = ?gs"
    using u
    by (simp_all add: initialState_def loaded_def examplePuzzle_def maskLocks_def exampleEnv_def
        exampleSettings_def eval_nat_numeral)
  from u have n: "length (revealedLetters (gameState (run ?env (Load examplePuzzle # ?evs)
        (typed (initialState 5) [])))) \<le> 1"
    "length (revealedLetters (gameState (run_p0 ?env (Load examplePuzzle # ?evs)
        (noFlips (typed (initialState 5) []))))) \<le> 1"
    by blast+
  from v again reveal1 r l n show ?thesis by simp
qed
section \<open>Locked letters over a game\<close>

lemma length_concat_cells:
  "\<forall>x\<in>set xs. length x \<le> 1 \<Longrightarrow> length (concat xs) \<le> length xs"
  by (induction xs) auto

lemma full_cells:
  "\<forall>x\<in>set xs. length x \<le> 1 \<Longrightarrow> length (concat xs) = length xs \<Longrightarrow> \<forall>x\<in>set xs. length x = 1"
proof (induction xs)
  case Nil
  then show ?case by simp
next
  case (Cons x xs)
  have x: "length x \<le> 1" and xs: "\<forall>y\<in>set xs. length y \<le> 1" using Cons.prems(1) by simp_all
  have le: "length (concat xs) \<le> length xs" by (rule length_concat_cells [OF xs])
  have "length x + length (concat xs) = Suc (length xs)" using Cons.prems(2) by simp
  with x le have "length x = 1" and "length (concat xs) = length xs" by linarith+
  with Cons.IH [OF xs] show ?case by simp
qed

lemma concat_singletons_nth:
  "\<forall>x\<in>set xs. length x = 1 \<Longrightarrow> i < length xs \<Longrightarrow> [concat xs ! i] = xs ! i"
proof (induction xs arbitrary: i)
  case Nil
  then show ?case by simp
next
  case (Cons x xs)
  from Cons.prems(1) have "length x = 1" by simp
  then obtain a where x: "x = [a]" by (cases x) auto
  show ?case
  proof (cases i)
    case 0
    then show ?thesis by (simp add: x)
  next
    case (Suc j)
    then show ?thesis using Cons.IH [of j] Cons.prems by (simp add: x)
  qed
qed

lemma locked_cell_small:
  "list_all (\<lambda>(i, letter). oneLetter letter) locked \<Longrightarrow> map_of locked i = Some l \<Longrightarrow> length l \<le> 1"
  by (auto simp: list_all_iff oneLetter_def dest: map_of_SomeD)

text \<open>In a complete guess of a well-formed component a locked position holds its locked letter.\<close>

lemma completeGuess_locked:
  assumes wf: "wellFormed c"
    and valid: "validateGuess (theGuess c) (wordLength (gameState c))"
    and i: "i < wordLength (gameState c)"
    and l: "map_of (lockedLetters (gameState c)) i = Some l"
  shows "[theGuess c ! i] = l"
proof -
  let ?gs = "gameState c"
  let ?cell = "\<lambda>i. case map_of (lockedLetters ?gs) i of
                         Some l \<Rightarrow> l
                       | None \<Rightarrow> (if i < length (currentGuess c) then currentGuess c ! i else [])"
  let ?xs = "map ?cell [0..<wordLength ?gs]"
  have g: "theGuess c = concat ?xs" by (simp add: theGuess_def completeGuess_def)
  have small: "\<forall>x\<in>set ?xs. length x \<le> 1"
  proof
    fix x assume "x \<in> set ?xs"
    then obtain j where x: "x = ?cell j" by auto
    show "length x \<le> 1"
    proof (cases "map_of (lockedLetters ?gs) j")
      case None
      then show ?thesis using wf x by (auto simp: wellFormed_def list_all_iff oneLetter_def)
    next
      case (Some l')
      then show ?thesis using wf x locked_cell_small [of "lockedLetters ?gs" j l']
        by (simp add: wellFormed_def)
    qed
  qed
  have len: "length (concat ?xs) = length ?xs" using valid g by (simp add: validateGuess_def)
  have one: "\<forall>x\<in>set ?xs. length x = 1" by (rule full_cells [OF small len])
  have "[concat ?xs ! i] = ?xs ! i" by (rule concat_singletons_nth [OF one]) (simp add: i)
  also have "\<dots> = l" using i l by simp
  finally show ?thesis by (simp add: g)
qed

lemma small_update:
  "list_all (\<lambda>(i, letter). oneLetter letter) m \<Longrightarrow> oneLetter v \<Longrightarrow>
     list_all (\<lambda>(i, letter). oneLetter letter) (AList.update k v m)"
  by (induction m) auto

lemma small_fold_lockStep:
  "list_all (\<lambda>(i, letter). oneLetter letter) m \<Longrightarrow>
     list_all (\<lambda>(i, letter). oneLetter letter) (fold (lockStep ev g) xs m)"
proof (induction xs arbitrary: m)
  case Nil
  then show ?case by simp
next
  case (Cons x xs)
  have "oneLetter [g ! x]" by (simp add: oneLetter_def)
  then have "list_all (\<lambda>(i, letter). oneLetter letter) (lockStep ev g x m)"
    using Cons.prems by (simp add: lockStep_def small_update)
  from Cons.IH [OF this] show ?case by simp
qed

lemma small_newLocked:
  "list_all (\<lambda>(i, letter). oneLetter letter) m \<Longrightarrow>
     list_all (\<lambda>(i, letter). oneLetter letter) (newLocked ev g m)"
  by (simp add: newLocked_def small_fold_lockStep)

lemma small_setCell:
  "list_all oneLetter xs \<Longrightarrow> oneLetter v \<Longrightarrow>
     list_all oneLetter (setCell i v xs)"
  by (auto simp: setCell_def list_all_iff oneLetter_def dest!: subsetD [OF set_update_subset_insert])

lemma small_lockedCells:
  assumes "list_all (\<lambda>(i, letter). oneLetter letter) locked"
  shows "list_all oneLetter (lockedCells n locked)"
proof -
  have "list_all oneLetter next \<Longrightarrow> list_all (\<lambda>(i, letter). oneLetter letter) m \<Longrightarrow>
      list_all oneLetter
        (fold (\<lambda>(i, letter) next. if letter \<noteq> [] then setCell i letter next else next) m next)"
    for m "next"
  proof (induction m arbitrary: "next")
    case Nil
    then show ?case by simp
  next
    case (Cons p m)
    obtain i letter where p: "p = (i, letter)" by (cases p)
    have "oneLetter letter" using Cons.prems(2) p by simp
    then have "list_all oneLetter (if letter \<noteq> [] then setCell i letter next else next)"
      using Cons.prems(1) by (simp add: small_setCell)
    moreover have "list_all (\<lambda>(i, letter). oneLetter letter) m" using Cons.prems(2) by simp
    ultimately show ?case using Cons.IH p by simp
  qed
  moreover have "list_all oneLetter (replicate n [])" by (simp add: list_all_iff oneLetter_def)
  ultimately show ?thesis using assms by (simp add: lockedCells_def)
qed

lemma handleSubmit_wellFormed:
  assumes "wellFormed c"
  shows "wellFormed (fst (handleSubmit env c))"
proof -
  have l: "list_all (\<lambda>(i, letter). oneLetter letter) (lockedLetters (gameState c))"
    using assms by (simp add: wellFormed_def)
  show ?thesis using assms l
    by (auto simp: handleSubmit_def Let_def wellFormed_def small_lockedCells small_newLocked
        split: sum.splits)
qed

lemma step_wellFormed:
  assumes "wellFormed c" and "inGame e"
  shows "wellFormed (step env e c)"
proof (cases e)
  case (Typed cells)
  then show ?thesis using assms by (simp add: wellFormed_def)
next
  case Submit
  then show ?thesis using assms by (simp add: handleSubmit_wellFormed)
next
  case (Reveal r)
  have "lockedLetters (handleRevealLetter r (gameState c)) = lockedLetters (gameState c)"
    by (simp add: handleRevealLetter_def Let_def revealAt_def)
  then show ?thesis using assms Reveal by (simp add: wellFormed_def)
next
  case Flip
  then show ?thesis using assms by simp
next
  case (Load p)
  then show ?thesis using assms by simp
qed

text \<open>components/Game.tsx: a submission keeps every lock it finds.\<close>

lemma handleSubmit_keeps_lock:
  assumes wf: "wellFormed c" and l: "map_of (lockedLetters (gameState c)) i = Some l"
  shows "map_of (lockedLetters (gameState (fst (handleSubmit env c)))) i = Some l"
proof (cases "snd (handleSubmit env c)")
  case (Accepted call)
  then have playing: "gameStatus (gameState c) = Playing"
    and valid: "validateGuess (theGuess c) (wordLength (gameState c))"
    and known: "theGuess c \<in> dictionary env"
    by (auto simp: handleSubmit_def Let_def theGuess_def split: if_splits sum.splits)
  from Accepted obtain ev where
    ev: "evaluateGuess (theGuess c) (secretWord (gameState c)) = Inr ev"
    using playing valid known
    by (auto simp: handleSubmit_def Let_def theGuess_def split: if_splits sum.splits)
  have a: "gameStatus (gameState c) = Playing"
    "validateGuess (completeGuess (gameState c) (currentGuess c)) (wordLength (gameState c))"
    "completeGuess (gameState c) (currentGuess c) \<in> dictionary env"
    "evaluateGuess (completeGuess (gameState c) (currentGuess c)) (secretWord (gameState c)) = Inr ev"
    using playing valid known ev by (simp_all add: theGuess_def)
  have locked: "lockedLetters (gameState (fst (handleSubmit env c))) =
      newLocked ev (theGuess c) (lockedLetters (gameState c))"
    by (simp add: handleSubmit_accepted [OF a] theGuess_def)
  have len: "length ev = wordLength (gameState c)"
    using evaluateGuess_length [OF ev] valid by (simp add: validateGuess_def)
  show ?thesis
  proof (cases "i < length ev \<and> ev ! i = Correct")
    case True
    then have "[theGuess c ! i] = l"
      using completeGuess_locked [OF wf valid _ l] len by simp
    then show ?thesis using True by (simp add: locked map_of_newLocked)
  next
    case False
    then show ?thesis using l by (auto simp: locked map_of_newLocked)
  qed
qed (auto simp: handleSubmit_def Let_def l split: if_splits sum.splits)

lemma step_keeps_lock:
  assumes "wellFormed c" and "map_of (lockedLetters (gameState c)) i = Some l" and "inGame e"
  shows "map_of (lockedLetters (gameState (step env e c))) i = Some l"
proof (cases e)
  case Submit
  then show ?thesis using assms by (simp add: handleSubmit_keeps_lock)
next
  case (Reveal r)
  have "lockedLetters (handleRevealLetter r (gameState c)) = lockedLetters (gameState c)"
    by (simp add: handleRevealLetter_def Let_def revealAt_def)
  then show ?thesis using assms Reveal by simp
qed (insert assms, simp_all)

lemma run_keeps_lock:
  assumes "list_all inGame events" and "wellFormed c"
    and "map_of (lockedLetters (gameState c)) i = Some l"
  shows "map_of (lockedLetters (gameState (run env events c))) i = Some l"
  using assms
proof (induction events arbitrary: c)
  case Nil
  then show ?case by (simp add: run_def)
next
  case (Cons e events)
  have e: "inGame e" and es: "list_all inGame events" using Cons.prems(1) by simp_all
  have r: "run env (e # events) c = run env events (step env e c)" by (simp add: run_def)
  show ?case unfolding r
    by (rule Cons.IH [OF es step_wellFormed [OF Cons.prems(2) e]
          step_keeps_lock [OF Cons.prems(2,3) e]])
qed

text \<open>
  components/Game.tsx: over every run of a well-formed component between two puzzle loads
  a locked position stays locked with its letter, so the locked positions only grow in
  number.
\<close>

lemma lockedLetters_monotone:
  assumes "list_all inGame events" and "wellFormed c"
  shows "(\<forall>i l. map_of (lockedLetters (gameState c)) i = Some l \<longrightarrow>
            map_of (lockedLetters (gameState (run env events c))) i = Some l) \<and>
         lockedPositions c \<subseteq> lockedPositions (run env events c) \<and>
         card (lockedPositions c) \<le> card (lockedPositions (run env events c))"
proof -
  have keep: "\<forall>i l. map_of (lockedLetters (gameState c)) i = Some l \<longrightarrow>
            map_of (lockedLetters (gameState (run env events c))) i = Some l"
    using run_keeps_lock [OF assms] by blast
  have "dom (map_of (lockedLetters (gameState c)))
          \<subseteq> dom (map_of (lockedLetters (gameState (run env events c))))"
    using keep by (auto simp: dom_def)
  then have sub: "lockedPositions c \<subseteq> lockedPositions (run env events c)"
    by (simp add: lockedPositions_def dom_map_of_conv_image_fst)
  have "finite (lockedPositions (run env events c))" by (simp add: lockedPositions_def)
  then have "card (lockedPositions c) \<le> card (lockedPositions (run env events c))"
    using sub by (rule card_mono)
  with keep sub show ?thesis by blast
qed

text \<open>Locking a position again with the letter it holds leaves the list as it is.\<close>

lemma relock_same: "map_of locked i = Some l \<Longrightarrow> AList.update i l locked = locked"
  by (rule update_triv)

lemma ev2: "evaluateGuess ''STONE'' ''CRANE'' = Inr [Absent, Absent, Absent, Correct, Correct]"
  by (simp add: evaluate_defs)

text \<open>
  C4 fails in part_000 when two submissions overlap. Each flip timer writes the locked
  letters its submission computed from the locks it saw. CRATE is submitted against CRANE
  and, before its timer runs, STONE: the first timer locks positions 0, 1, 2 and 4, the
  second replaces them by the locks of STONE alone, positions 3 and 4. Four locked
  positions become two, and positions 0, 1 and 2 lose their letters.
\<close>

theorem overlapping_submissions_drop_locks:
  "list_all validEvent [Typed (cellsOf ''CRATE''), Submit, Typed (cellsOf ''STONE''), Submit, Flip, Flip] \<and>
   wellFormed (noFlips (typed (loaded 5 ''CRANE'' []) [])) \<and>
   lockedLetters (gameState (run_p0 (exampleEnv (exampleSettings\<lparr>lockGreenMatchedLetters := True\<rparr>))
      [Typed (cellsOf ''CRATE''), Submit, Typed (cellsOf ''STONE''), Submit, Flip]
      (noFlips (typed (loaded 5 ''CRANE'' []) []))))
     = [(0, ''C''), (1, ''R''), (2, ''A''), (4, ''E'')] \<and>
   lockedLetters (gameState (run_p0 (exampleEnv (exampleSettings\<lparr>lockGreenMatchedLetters := True\<rparr>))
      [Typed (cellsOf ''CRATE''), Submit, Typed (cellsOf ''STONE''), Submit, Flip, Flip]
      (noFlips (typed (loaded 5 ''CRANE'' []) []))))
     = [(3, ''N''), (4, ''E'')] \<and>
   attempts (gameState (run_p0 (exampleEnv (exampleSettings\<lparr>lockGreenMatchedLetters := True\<rparr>))
      [Typed (cellsOf ''CRATE''), Submit, Typed (cellsOf ''STONE''), Submit, Flip, Flip]
      (noFlips (typed (loaded 5 ''CRANE'' []) []))))
     = [''CRATE'', ''STONE'']"
  by (simp add: run_p0_def step_p0_def winEffect_def handleSubmit_p0_def flipTimeout_def
      example_defs evaluate_defs wellFormed_def oneLetter_def newLocked_def lockStep_def
      lockedCells_def setCell_def newStatus_def isWin_def statsCall_def eval_nat_numeral)

text \<open>
  part_000: the timer of the win effect locks the whole solution of a won daily game, also
  with \<open>lockGreenMatchedLetters\<close> off. CRANE is guessed at once; the flip timer of the
  submission leaves no letter locked, the timer of the win effect locks all five.
\<close>

lemma win_effect_locks_solution:
  "lockedLetters (gameState (run_p0 (exampleEnv exampleSettings)
      [Typed (cellsOf ''CRANE''), Submit, Flip]
      (noFlips (typed (loaded 5 ''CRANE'' []) [])))) = [] \<and>
   gameState (run_p0 (exampleEnv exampleSettings)
      [Typed (cellsOf ''CRANE''), Submit, Flip, Flip]
      (noFlips (typed (loaded 5 ''CRANE'' []) []))) =
     (loaded 5 ''CRANE'' [(0, ''C''), (1, ''R''), (2, ''A''), (3, ''N''), (4, ''E'')])
       \<lparr>attempts := [''CRANE''], attemptIndex := 1, gameStatus := Won\<rparr>"
  by (simp add: run_p0_def step_p0_def winEffect_def handleSubmit_p0_def flipTimeout_def
      example_defs evaluate_defs newLocked_def lockStep_def lockedCells_def setCell_def
      newStatus_def isWin_def statsCall_def solutionLocked_def isArchivePuzzle_def truthy_def
      eval_nat_numeral)

section \<open>Properties of the keyboard states\<close>

lemma mark_better: "mark L s states = states(L \<mapsto> better (states L) s)"
proof (cases "states L")
  case None
  then show ?thesis by (cases s) (auto simp: mark_def better_def)
next
  case (Some t)
  then show ?thesis by (cases s; cases t) (auto simp: mark_def better_def)
qed

lemma seed_mark: "seed L = mark L Correct"
proof
  fix states show "seed L states = mark L Correct states"
  proof (cases "states L")
    case None
    then show ?thesis by (simp add: seed_def mark_def)
  next
    case (Some t)
    then show ?thesis by (cases t) (auto simp: seed_def mark_def)
  qed
qed

lemma better_swap: "better (Some (better cur s)) t = better (Some (better cur t)) s"
proof (cases cur)
  case None
  then show ?thesis by (cases s; cases t) (simp_all add: better_def)
next
  case (Some u)
  then show ?thesis by (cases s; cases t; cases u) (simp_all add: better_def)
qed

lemma mark_commute: "mark L s (mark K t states) = mark K t (mark L s states)"
proof (cases "L = K")
  case True
  then show ?thesis by (simp add: mark_better better_swap)
next
  case False
  then show ?thesis by (auto simp: mark_better)
qed

lemma applyStep_fun:
  "applyStep (Seed letter) = seed letter" "applyStep (Mark L s) = mark L s"
  by (rule ext, simp)+

lemma applyStep_mark: "\<exists>L s. applyStep st = mark L s"
proof (cases st)
  case (Seed letter)
  then show ?thesis using seed_mark [of letter] by (auto simp: applyStep_fun)
next
  case (Mark L s)
  then show ?thesis by (auto simp: applyStep_fun)
qed

lemma applyStep_commute: "applyStep a \<circ> applyStep b = applyStep b \<circ> applyStep a"
proof -
  obtain L s where a: "applyStep a = mark L s" using applyStep_mark by blast
  obtain K t where b: "applyStep b = mark K t" using applyStep_mark by blast
  show ?thesis by (rule ext) (simp add: a b mark_commute)
qed

lemma rank_better: "rank cur \<le> rank (Some (better cur s))"
proof (cases cur)
  case None
  then show ?thesis by simp
next
  case (Some t)
  then show ?thesis by (simp add: better_def)
qed

lemma mark_never_downgrades: "rank (states K) \<le> rank (mark L s states K)"
  by (simp add: mark_better rank_better)

lemma applyStep_never_downgrades: "rank (states K) \<le> rank (applyStep st states K)"
proof -
  obtain L s where "applyStep st = mark L s" using applyStep_mark by blast
  then show ?thesis by (simp add: mark_never_downgrades)
qed

lemma rank_top: "rank v \<le> 3"
proof (cases v)
  case None
  then show ?thesis by simp
next
  case (Some t)
  then show ?thesis by (cases t) simp_all
qed

lemma rank_3: "rank v = 3 \<longleftrightarrow> v = Some Correct"
proof (cases v)
  case None
  then show ?thesis by simp
next
  case (Some t)
  then show ?thesis by (cases t) simp_all
qed

lemma applyStep_keeps_correct:
  assumes "states K = Some Correct"
  shows "applyStep st states K = Some Correct"
proof -
  have "3 \<le> rank (applyStep st states K)"
    using applyStep_never_downgrades [of states K st] assms by simp
  with rank_top [of "applyStep st states K"] have "rank (applyStep st states K) = 3" by linarith
  then show ?thesis by (simp add: rank_3)
qed

text \<open>The loops make the writes listed by \<open>keySteps\<close>.\<close>

lemma seedLocked_steps: "seedLocked locked states = fold applyStep (lockedSteps locked) states"
  by (induction locked arbitrary: states) (auto simp: seedLocked_def lockedSteps_def)

lemma seedRevealed_steps:
  "seedRevealed secret revealed states = fold applyStep (revealedSteps secret revealed) states"
  by (induction revealed arbitrary: states) (auto simp: seedRevealed_def revealedSteps_def)

lemma markAttempt_steps:
  "markAttempt attempt evaln states =
     fold applyStep (map (\<lambda>i. Mark [attempt ! i] (evaln ! i)) [0..<length attempt]) states"
  by (simp add: markAttempt_def fold_map comp_def applyStep_fun)

lemma markAttempts_steps:
  assumes "list_all (\<lambda>a. length a = length secret) as"
  shows "markAttempts secret as states =
           Inr (fold applyStep (concat (map (attemptSteps secret) as)) states)"
  using assms
proof (induction as arbitrary: states)
  case Nil
  then show ?case by simp
next
  case (Cons a as)
  have len: "length a = length secret" and rest: "list_all (\<lambda>a. length a = length secret) as"
    using Cons.prems by simp_all
  obtain evaln where ev: "evaluateGuess a secret = Inr evaln"
    using len by (auto simp: evaluateGuess_def Let_def)
  show ?case
    using Cons.IH [OF rest] by (simp add: ev attemptSteps_def markAttempt_steps)
qed

lemma keyboardLetterStates_steps:
  assumes "list_all (\<lambda>a. length a = length (secretWord gs)) (attempts gs)"
  shows "keyboardLetterStates gs = Inr (fold applyStep (keySteps gs) Map.empty)"
  by (simp add: keyboardLetterStates_def markAttempts_steps [OF assms] keySteps_def
      seedLocked_steps seedRevealed_steps)

text \<open>
  C9. When every attempt has the secret's length (as every recorded attempt has), the map
  \<^verbatim>\<open>keyboardLetterStates\<close> returns is what its writes give when applied to the empty map in any
  order whatever: the seeds of locked letters, the seeds of revealed letters and the marks
  of the attempts may be permuted freely. No write lowers a letter's status in the
  precedence correct over present over absent, and a letter that is correct stays correct
  under every later write.
\<close>

theorem keyboard_states_order_independent:
  assumes "list_all (\<lambda>a. length a = length (secretWord gs)) (attempts gs)"
    and "mset steps = mset (keySteps gs)"
  shows "keyboardLetterStates gs = Inr (fold applyStep steps Map.empty) \<and>
         (\<forall>st states K. rank (states K) \<le> rank (applyStep st states K)) \<and>
         (\<forall>st states K. states K = Some Correct \<longrightarrow> applyStep st states K = Some Correct)"
proof -
  have "fold applyStep (keySteps gs) = fold applyStep steps"
    by (rule fold_multiset_equiv) (simp_all add: applyStep_commute assms(2))
  then show ?thesis
    using keyboardLetterStates_steps [OF assms(1)] applyStep_never_downgrades applyStep_keeps_correct
    by simp
qed

text \<open>
  C9 at an example: C locked, the N of CRANE revealed, SLATE and CRATE tried; the writes
  applied in reverse order give the same map.
\<close>

theorem keyboard_states_order_independent_witness:
  "list_all (\<lambda>a. length a = length ''CRANE'') [''SLATE'', ''CRATE''] \<and>
   mset (rev (keySteps ((loaded 5 ''CRANE'' [(0, ''C'')])\<lparr>attempts := [''SLATE'', ''CRATE''],
           attemptIndex := 2, revealedLetters := [3]\<rparr>)))
     = mset (keySteps ((loaded 5 ''CRANE'' [(0, ''C'')])\<lparr>attempts := [''SLATE'', ''CRATE''],
           attemptIndex := 2, revealedLetters := [3]\<rparr>)) \<and>
   keyboardLetterStates ((loaded 5 ''CRANE'' [(0, ''C'')])\<lparr>attempts := [''SLATE'', ''CRATE''],
           attemptIndex := 2, revealedLetters := [3]\<rparr>)
     = Inr (fold applyStep
         (rev (keySteps ((loaded 5 ''CRANE'' [(0, ''C'')])\<lparr>attempts := [''SLATE'', ''CRATE''],
           attemptIndex := 2, revealedLetters := [3]\<rparr>))) Map.empty) \<and>
   keyboardLetterStates ((loaded 5 ''CRANE'' [(0, ''C'')])\<lparr>attempts := [''SLATE'', ''CRATE''],
           attemptIndex := 2, revealedLetters := [3]\<rparr>)
     = Inr [''C'' \<mapsto> Correct, ''N'' \<mapsto> Correct, ''S'' \<mapsto> Absent, ''L'' \<mapsto> Absent,
            ''A'' \<mapsto> Correct, ''T'' \<mapsto> Absent, ''E'' \<mapsto> Correct, ''R'' \<mapsto> Correct]"
proof -
  let ?gs = "(loaded 5 ''CRANE'' [(0, ''C'')])\<lparr>attempts := [''SLATE'', ''CRATE''],
           attemptIndex := 2, revealedLetters := [3]\<rparr>"
  have a: "list_all (\<lambda>a. length a = length (secretWord ?gs)) (attempts ?gs)"
    by (simp add: loaded_def)
  have m: "mset (rev (keySteps ?gs)) = mset (keySteps ?gs)" by simp
  have v: "keyboardLetterStates ?gs
     = Inr [''C'' \<mapsto> Correct, ''N'' \<mapsto> Correct, ''S'' \<mapsto> Absent, ''L'' \<mapsto> Absent,
            ''A'' \<mapsto> Correct, ''T'' \<mapsto> Absent, ''E'' \<mapsto> Correct, ''R'' \<mapsto> Correct]"
    by (simp add: keyboardLetterStates_def loaded_def seedLocked_def seedRevealed_def
        markAttempt_def evaluate_defs seed_def mark_def eval_nat_numeral)
  from keyboard_states_order_independent [OF a m] v show ?thesis by simp
qed

section \<open>Properties of the puzzle load\<close>

lemma find_None_date: "find (\<lambda>p. date p = day) puzzles = None \<Longrightarrow> p \<in> set puzzles \<Longrightarrow> date p \<noteq> day"
  by (auto simp: find_None_iff)

lemma tryLoad_puzzles_failed:
  "failed (fetchPuzzles randomMode) \<Longrightarrow>
     \<exists>e. tryLoadDailyPuzzle upper randomMode day todayEST fetchPuzzles fetchClues = Inl e"
  by (cases "fetchPuzzles randomMode") (simp_all add: tryLoadDailyPuzzle_def failed_def)

lemma tryLoad_no_puzzles:
  "fetchPuzzles randomMode = Body [] \<Longrightarrow>
     \<exists>e. tryLoadDailyPuzzle upper randomMode day todayEST fetchPuzzles fetchClues = Inl e"
  by (simp add: tryLoadDailyPuzzle_def choosePuzzle_def firstPuzzle_def)

lemma tryLoad_clues_failed:
  "fetchPuzzles randomMode = Body puzzles \<Longrightarrow> \<forall>year. failed (fetchClues year) \<Longrightarrow>
     \<exists>e. tryLoadDailyPuzzle upper randomMode day todayEST fetchPuzzles fetchClues = Inl e"
proof (cases "choosePuzzle randomMode day puzzles")
  case None
  assume "fetchPuzzles randomMode = Body puzzles"
  with None show ?thesis by (simp add: tryLoadDailyPuzzle_def)
next
  case (Some p)
  assume b: "fetchPuzzles randomMode = Body puzzles" and f: "\<forall>year. failed (fetchClues year)"
  from f have "failed (fetchClues (yearOf (date p)))" by blast
  then show ?thesis using b Some
    by (cases "fetchClues (yearOf (date p))") (simp_all add: tryLoadDailyPuzzle_def failed_def)
qed

lemma load_first_puzzle:
  assumes "fetchPuzzles False = Body (p # rest)"
    and "find (\<lambda>q. date q = day) (p # rest) = None"
    and "fetchClues (yearOf (date p)) = Body clues"
  shows "date p \<noteq> day \<and>
     loadDailyPuzzle upper False day todayEST fetchPuzzles fetchClues =
       \<lparr>puzzleWord = upper (word p), puzzleClue = findClue upper clues (word p),
        isToday = (date p = todayEST)\<rparr>"
proof -
  have "date p \<noteq> day" using find_None_date [OF assms(2), of p] by simp
  then show ?thesis using assms
    by (simp add: loadDailyPuzzle_def tryLoadDailyPuzzle_def choosePuzzle_def firstPuzzle_def)
qed

text \<open>
  C10, amended. \<^verbatim>\<open>loadDailyPuzzle\<close> always returns a puzzle: what the \<^verbatim>\<open>try\<close> block returns, or,
  whatever it throws, the default puzzle HELLO. It throws, and the default is returned,
  when the puzzle fetch fails in any way, when the list is empty, and when the clue fetch
  fails. When the list is not empty and has no entry for the day read before the search,
  and the clues arrive, the result is the first puzzle of the list, its word in upper case;
  its date is not that day, and \<open>isToday\<close> tells whether it is the day read when the result
  is built: false when both readings of the clock give the same day.
\<close>

theorem loadDailyPuzzle_never_rejects:
  "(\<exists>puzzle. loadDailyPuzzle upper randomMode day todayEST fetchPuzzles fetchClues = puzzle \<and>
       (case tryLoadDailyPuzzle upper randomMode day todayEST fetchPuzzles fetchClues of
          Inl e \<Rightarrow> puzzle = \<lparr>puzzleWord = ''HELLO'', puzzleClue = ''A friendly greeting'', isToday = False\<rparr>
        | Inr found \<Rightarrow> puzzle = found)) \<and>
    (failed (fetchPuzzles randomMode) \<or> fetchPuzzles randomMode = Body [] \<or>
       ((\<exists>puzzles. fetchPuzzles randomMode = Body puzzles) \<and> (\<forall>year. failed (fetchClues year)))
     \<longrightarrow> loadDailyPuzzle upper randomMode day todayEST fetchPuzzles fetchClues =
           \<lparr>puzzleWord = ''HELLO'', puzzleClue = ''A friendly greeting'', isToday = False\<rparr>) \<and>
    (\<forall>p rest clues.
       fetchPuzzles False = Body (p # rest) \<and> find (\<lambda>q. date q = day) (p # rest) = None \<and>
       fetchClues (yearOf (date p)) = Body clues
     \<longrightarrow> date p \<noteq> day \<and>
         loadDailyPuzzle upper False day todayEST fetchPuzzles fetchClues =
           \<lparr>puzzleWord = upper (word p), puzzleClue = findClue upper clues (word p),
            isToday = (date p = todayEST)\<rparr> \<and>
         (todayEST = day \<longrightarrow>
            isToday (loadDailyPuzzle upper False day todayEST fetchPuzzles fetchClues) = False))"
proof -
  let ?body = "tryLoadDailyPuzzle upper randomMode day todayEST fetchPuzzles fetchClues"
  let ?load = "loadDailyPuzzle upper randomMode day todayEST fetchPuzzles fetchClues"
  have 1: "\<exists>puzzle. ?load = puzzle \<and>
       (case ?body of
          Inl e \<Rightarrow> puzzle = \<lparr>puzzleWord = ''HELLO'', puzzleClue = ''A friendly greeting'', isToday = False\<rparr>
        | Inr found \<Rightarrow> puzzle = found)"
    by (cases ?body) (simp_all add: loadDailyPuzzle_def defaultPuzzle_def)
  have err: "(\<exists>e. ?body = Inl e) \<Longrightarrow>
      ?load = \<lparr>puzzleWord = ''HELLO'', puzzleClue = ''A friendly greeting'', isToday = False\<rparr>"
    by (auto simp: loadDailyPuzzle_def defaultPuzzle_def)
  have 2: "failed (fetchPuzzles randomMode) \<or> fetchPuzzles randomMode = Body [] \<or>
       ((\<exists>puzzles. fetchPuzzles randomMode = Body puzzles) \<and> (\<forall>year. failed (fetchClues year)))
     \<longrightarrow> ?load = \<lparr>puzzleWord = ''HELLO'', puzzleClue = ''A friendly greeting'', isToday = False\<rparr>"
    using err tryLoad_puzzles_failed [of fetchPuzzles randomMode upper day todayEST fetchClues]
      tryLoad_no_puzzles [of fetchPuzzles randomMode upper day todayEST fetchClues]
      tryLoad_clues_failed [of fetchPuzzles randomMode _ fetchClues upper day todayEST]
    by blast
  have 3: "\<forall>p rest clues.
       fetchPuzzles False = Body (p # rest) \<and> find (\<lambda>q. date q = day) (p # rest) = None \<and>
       fetchClues (yearOf (date p)) = Body clues
     \<longrightarrow> date p \<noteq> day \<and>
         loadDailyPuzzle upper False day todayEST fetchPuzzles fetchClues =
           \<lparr>puzzleWord = upper (word p), puzzleClue = findClue upper clues (word p),
            isToday = (date p = todayEST)\<rparr> \<and>
         (todayEST = day \<longrightarrow>
            isToday (loadDailyPuzzle upper False day todayEST fetchPuzzles fetchClues) = False)"
  proof (intro allI impI)
    fix p rest clues
    assume a: "fetchPuzzles False = Body (p # rest) \<and> find (\<lambda>q. date q = day) (p # rest) = None \<and>
       fetchClues (yearOf (date p)) = Body clues"
    then have b: "fetchPuzzles False = Body (p # rest)" "find (\<lambda>q. date q = day) (p # rest) = None"
      "fetchClues (yearOf (date p)) = Body clues" by simp_all
    have "date p \<noteq> day \<and>
       loadDailyPuzzle upper False day todayEST fetchPuzzles fetchClues =
         \<lparr>puzzleWord = upper (word p), puzzleClue = findClue upper clues (word p),
          isToday = (date p = todayEST)\<rparr>"
      using b by (rule load_first_puzzle)
    then show "date p \<noteq> day \<and>
         loadDailyPuzzle upper False day todayEST fetchPuzzles fetchClues =
           \<lparr>puzzleWord = upper (word p), puzzleClue = findClue upper clues (word p),
            isToday = (date p = todayEST)\<rparr> \<and>
         (todayEST = day \<longrightarrow>
            isToday (loadDailyPuzzle upper False day todayEST fetchPuzzles fetchClues) = False)"
      by auto
  qed
  from 1 2 3 show ?thesis by blast
qed

text \<open>
  C10 as stated fails when the day changes while the puzzles are fetched. The clock reads
  2025-09-02 before the search and 2025-09-03 when the result is built; the list has no
  entry for 2025-09-02 and its first puzzle is dated 2025-09-03: that puzzle is served with
  \<open>isToday\<close> true.
\<close>

theorem loadDailyPuzzle_isToday_counterexample:
  "find (\<lambda>q. date q = ''2025-09-02'') [\<lparr>date = ''2025-09-03'', word = ''crane''\<rparr>] = None \<and>
   loadDailyPuzzle toUpperCase False ''2025-09-02'' ''2025-09-03''
     (\<lambda>r. Body [\<lparr>date = ''2025-09-03'', word = ''crane''\<rparr>])
     (\<lambda>year. Body [(''Crane'', ''A tall bird'')])
   = \<lparr>puzzleWord = ''CRANE'', puzzleClue = ''A tall bird'', isToday = True\<rparr>"
proof -
  have c: "findClue toUpperCase [(''Crane'', ''A tall bird'')] ''crane'' = ''A tall bird''"
    by code_simp
  have u: "toUpperCase ''crane'' = ''CRANE''"
    by code_simp
  show ?thesis
    by (simp add: loadDailyPuzzle_def tryLoadDailyPuzzle_def choosePuzzle_def firstPuzzle_def c u)
qed

text \<open>
  The amended C10 at an example: no puzzle is dated 2025-09-03, so the first of the list is
  served; with the clue fetch failing, the default.
\<close>

theorem loadDailyPuzzle_never_rejects_witness:
  "loadDailyPuzzle toUpperCase False ''2025-09-03'' ''2025-09-03''
     (\<lambda>r. Body [\<lparr>date = ''2025-09-01'', word = ''crane''\<rparr>, \<lparr>date = ''2025-09-02'', word = ''slate''\<rparr>])
     (\<lambda>year. if year = ''2025'' then Body [(''Crane'', ''A tall bird'')] else NotOk)
   = \<lparr>puzzleWord = ''CRANE'', puzzleClue = ''A tall bird'', isToday = False\<rparr> \<and>
   loadDailyPuzzle toUpperCase False ''2025-09-03'' ''2025-09-03''
     (\<lambda>r. Body [\<lparr>date = ''2025-09-01'', word = ''crane''\<rparr>]) (\<lambda>year. NetworkError)
   = \<lparr>puzzleWord = ''HELLO'', puzzleClue = ''A friendly greeting'', isToday = False\<rparr>"
proof -
  let ?fp = "\<lambda>r :: bool. Body [\<lparr>date = ''2025-09-01'', word = ''crane''\<rparr>, \<lparr>date = ''2025-09-02'', word = ''slate''\<rparr>]"
  let ?fc = "\<lambda>year. if year = ''2025'' then Body [(''Crane'', ''A tall bird'')] else NotOk"
  let ?fp2 = "\<lambda>r :: bool. Body [\<lparr>date = ''2025-09-01'', word = ''crane''\<rparr>]"
  let ?fc2 = "\<lambda>year :: string. NetworkError :: (string \<times> string) list Fetched"
  have y: "yearOf ''2025-09-01'' = ''2025''" by (simp add: yearOf_def)
  have c: "findClue toUpperCase [(''Crane'', ''A tall bird'')] ''crane'' = ''A tall bird''"
    by code_simp
  have u: "toUpperCase ''crane'' = ''CRANE''"
    by code_simp
  from loadDailyPuzzle_never_rejects [of toUpperCase False "''2025-09-03''" "''2025-09-03''" ?fp ?fc]
  have "loadDailyPuzzle toUpperCase False ''2025-09-03'' ''2025-09-03'' ?fp ?fc
     = \<lparr>puzzleWord = ''CRANE'', puzzleClue = ''A tall bird'', isToday = False\<rparr>"
    by (simp add: y c u)
  moreover
  from loadDailyPuzzle_never_rejects [of toUpperCase False "''2025-09-03''" "''2025-09-03''" ?fp2 ?fc2]
  have "loadDailyPuzzle toUpperCase False ''2025-09-03'' ''2025-09-03'' ?fp2 ?fc2
     = \<lparr>puzzleWord = ''HELLO'', puzzleClue = ''A friendly greeting'', isToday = False\<rparr>"
    by (simp add: failed_def)
  ultimately show ?thesis by simp
qed

section \<open>Properties of the persistence\<close>

lemma newSet_Nil [simp]: "newSet [] = []"
  by (simp add: newSet_def)

lemma revealed_stringified [simp]: "revealedLettersArray (stringified gs locked day cells) = []"
  by (simp add: revealedLettersArray_def stringified_def)

lemma save_daily:
  "dailyGame env \<Longrightarrow> secretWord (gameState c) \<noteq> [] \<Longrightarrow>
     save env c storage =
       storage\<lparr>stateItem := Some (Object (stringified (gameState c) (lockedLetters (gameState c))
                                  (today env) (currentGuess c)))\<rparr>"
  by (simp add: save_def dailyGame_def)

lemma save_p0_daily:
  "dailyGame env \<Longrightarrow> secretWord (gameState c) \<noteq> [] \<Longrightarrow>
     save_p0 env c storage =
       storage\<lparr>stateItem := Some (Object (stringified (gameState c)
            (if gameStatus (gameState c) = Won
             then solutionLocked (wordLength (gameState c)) (secretWord (gameState c))
             else lockedLetters (gameState c))
            (today env) (currentGuess c)))\<rparr>"
  by (simp add: save_p0_def dailyGame_def Let_def)

lemma restore_dated:
  "dailyGame env \<Longrightarrow> stateItem storage = Some (Object snap) \<Longrightarrow> s_date snap = Some (today env) \<Longrightarrow>
     restore env storage =
       (Some \<lparr>restoredState = snap\<lparr>s_revealedLetters := Some (AsSet (newSet (revealedLettersArray snap)))\<rparr>,
              restoredCells_of = restoredCells snap\<rparr>, storage)"
  by (simp add: restore_def tryRestore_def dailyGame_def)

lemma restore_p0_dated:
  "dailyGame env \<Longrightarrow> stateItem storage = Some (Object snap) \<Longrightarrow> s_date snap = Some (today env) \<Longrightarrow>
     restore_p0 env False storage =
       (Some \<lparr>restoredState = snap\<lparr>s_revealedLetters := Some (AsSet (newSet (revealedLettersArray snap))),
                                   s_lockedLetters := Some (finalLockedLetters_p0 snap)\<rparr>,
              restoredCells_of = restoredCells_p0 snap (finalLockedLetters_p0 snap)\<rparr>,
        s_gameStatus snap \<noteq> Some Won, storage)"
  by (simp add: restore_p0_def tryRestore_p0_def dailyGame_def Let_def)

lemma restore_stale:
  "dailyGame env \<Longrightarrow> stateItem storage = Some (Object snap) \<Longrightarrow> s_date snap \<noteq> Some (today env) \<Longrightarrow>
     restore env storage = (None, storage\<lparr>stateItem := None, completedItem := False\<rparr>) \<and>
     restore_p0 env False storage = (None, False, storage\<lparr>stateItem := None, completedItem := False\<rparr>)"
  by (simp add: restore_def tryRestore_def restore_p0_def tryRestore_p0_def dailyGame_def)

lemma restore_unreadable:
  "dailyGame env \<Longrightarrow> stateItem storage = Some item \<Longrightarrow> item = Malformed \<or> item = Null \<Longrightarrow>
     restore env storage = (None, storage) \<and> restore_p0 env False storage = (None, False, storage)"
  by (auto simp: restore_def tryRestore_def restore_p0_def tryRestore_p0_def dailyGame_def)

lemma final_locked_saved:
  assumes "secret \<noteq> []"
  shows "finalLockedLetters_p0 (stringified gs
            (if gameStatus gs = Won then solutionLocked (wordLength gs) secret else lockedLetters gs)
            day cells\<lparr>s_secretWord := Some secret\<rparr>)
         = (if gameStatus gs = Won then solutionLocked (wordLength gs) secret else lockedLetters gs)"
proof -
  obtain ch rest where s: "secret = ch # rest" using assms by (cases secret) auto
  show ?thesis
  proof (cases "gameStatus gs = Won")
    case True
    then show ?thesis
      by (cases "solutionLocked (wordLength gs) secret")
         (simp_all add: finalLockedLetters_p0_def stringified_def s)
  next
    case False
    then show ?thesis
      by (cases "lockedLetters gs"; cases "gameStatus gs")
         (simp_all add: finalLockedLetters_p0_def stringified_def s)
  qed
qed

lemma stringified_secret: "(stringified gs locked day cells)\<lparr>s_secretWord := Some (secretWord gs)\<rparr>
    = stringified gs locked day cells"
  by (simp add: stringified_def)

lemma clearStale_dated:
  "stateItem storage = Some (Object snap) \<Longrightarrow> s_date snap = Some (today env) \<Longrightarrow>
     clearStale env storage = storage"
  by (simp add: clearStale_def)

lemma mount_dated:
  assumes "dailyGame env" and "stateItem storage = Some (Object snap)"
    and "s_date snap = Some (today env)"
  shows "mount env n p storage =
      (map_option (loadEffect env p)
         (asGameState (snap\<lparr>s_revealedLetters := Some (AsSet (newSet (revealedLettersArray snap)))\<rparr>)),
       storage)"
    and "mount_p0 env n p storage =
      (map_option (loadEffect_p0 env p)
         (asGameState (snap\<lparr>s_revealedLetters := Some (AsSet (newSet (revealedLettersArray snap))),
                            s_lockedLetters := Some (finalLockedLetters_p0 snap)\<rparr>)),
       storage)"
  by (simp_all add: mount_def mount_p0_def clearStale_dated [OF assms(2,3)]
      restore_dated [OF assms] restore_p0_dated [OF assms])

text \<open>
  C6, amended. A daily game with a secret is saved and the page is mounted again on the
  same day. The restore effect sets a complete game state with the attempts, their count
  and the status of the saved one (and its word length, secret, clue and reveal budget),
  and in components/Game.tsx the typed cells; the puzzle load that follows keeps attempts,
  count and status. The locked letters the restore effect sets are the saved state's,
  except that part_000 saves a won game, and so restores it, with the full solution as its
  locked letters, whatever was locked in the state. In part_000 the puzzle load keeps
  restored locked letters unless there are none.
\<close>

theorem save_restore_roundtrip:
  assumes "dailyGame env" and "secretWord (gameState c) \<noteq> []" and "secretWord (gameState c0) \<noteq> []"
  shows
   "(\<exists>r gs gs'.
       restore env (save env c storage) = (Some r, save env c storage) \<and>
       asGameState (restoredState r) = Some gs \<and>
       wordLength gs = wordLength (gameState c) \<and>
       secretWord gs = secretWord (gameState c) \<and>
       clue gs = clue (gameState c) \<and>
       attempts gs = attempts (gameState c) \<and>
       attemptIndex gs = attemptIndex (gameState c) \<and>
       gameStatus gs = gameStatus (gameState c) \<and>
       letterRevealsRemaining gs = letterRevealsRemaining (gameState c) \<and>
       lockedLetters gs = lockedLetters (gameState c) \<and>
       restoredCells_of r = currentGuess c \<and>
       mount env n puzzle (save env c storage) = (Some gs', save env c storage) \<and>
       attempts gs' = attempts (gameState c) \<and>
       attemptIndex gs' = attemptIndex (gameState c) \<and>
       gameStatus gs' = gameStatus (gameState c)) \<and>
    (\<exists>r gs gs'.
       restore_p0 env False (save_p0 env c0 storage)
         = (Some r, gameStatus (gameState c0) \<noteq> Won, save_p0 env c0 storage) \<and>
       asGameState (restoredState r) = Some gs \<and>
       wordLength gs = wordLength (gameState c0) \<and>
       secretWord gs = secretWord (gameState c0) \<and>
       clue gs = clue (gameState c0) \<and>
       attempts gs = attempts (gameState c0) \<and>
       attemptIndex gs = attemptIndex (gameState c0) \<and>
       gameStatus gs = gameStatus (gameState c0) \<and>
       letterRevealsRemaining gs = letterRevealsRemaining (gameState c0) \<and>
       lockedLetters gs =
         (if gameStatus (gameState c0) = Won
          then solutionLocked (wordLength (gameState c0)) (secretWord (gameState c0))
          else lockedLetters (gameState c0)) \<and>
       mount_p0 env n puzzle (save_p0 env c0 storage) = (Some gs', save_p0 env c0 storage) \<and>
       attempts gs' = attempts (gameState c0) \<and>
       attemptIndex gs' = attemptIndex (gameState c0) \<and>
       gameStatus gs' = gameStatus (gameState c0) \<and>
       (lockedLetters gs \<noteq> [] \<longrightarrow> lockedLetters gs' = lockedLetters gs))"
proof -
  let ?snap = "stringified (gameState c) (lockedLetters (gameState c)) (today env) (currentGuess c)"
  let ?st = "save env c storage"
  have item: "stateItem ?st = Some (Object ?snap)"
    by (simp add: save_daily [OF assms(1,2)])
  have dated: "s_date ?snap = Some (today env)" by (simp add: stringified_def)
  have as: "asGameState (?snap\<lparr>s_revealedLetters := Some (AsSet (newSet (revealedLettersArray ?snap)))\<rparr>)
      = Some ((gameState c)\<lparr>revealedLetters := []\<rparr>)"
    by (simp add: asGameState_def stringified_def revealedLettersArray_def)
  have 1: "\<exists>r gs gs'.
       restore env ?st = (Some r, ?st) \<and>
       asGameState (restoredState r) = Some gs \<and>
       wordLength gs = wordLength (gameState c) \<and>
       secretWord gs = secretWord (gameState c) \<and>
       clue gs = clue (gameState c) \<and>
       attempts gs = attempts (gameState c) \<and>
       attemptIndex gs = attemptIndex (gameState c) \<and>
       gameStatus gs = gameStatus (gameState c) \<and>
       letterRevealsRemaining gs = letterRevealsRemaining (gameState c) \<and>
       lockedLetters gs = lockedLetters (gameState c) \<and>
       restoredCells_of r = currentGuess c \<and>
       mount env n puzzle ?st = (Some gs', ?st) \<and>
       attempts gs' = attempts (gameState c) \<and>
       attemptIndex gs' = attemptIndex (gameState c) \<and>
       gameStatus gs' = gameStatus (gameState c)"
  proof (intro exI conjI)
    show "restore env ?st =
        (Some \<lparr>restoredState = ?snap\<lparr>s_revealedLetters := Some (AsSet (newSet (revealedLettersArray ?snap)))\<rparr>,
               restoredCells_of = restoredCells ?snap\<rparr>, ?st)"
      by (rule restore_dated [OF assms(1) item dated])
    show "asGameState (restoredState
        \<lparr>restoredState = ?snap\<lparr>s_revealedLetters := Some (AsSet (newSet (revealedLettersArray ?snap)))\<rparr>,
         restoredCells_of = restoredCells ?snap\<rparr>) = Some ((gameState c)\<lparr>revealedLetters := []\<rparr>)"
      using as by simp
    show "wordLength ((gameState c)\<lparr>revealedLetters := []\<rparr>) = wordLength (gameState c)"
      "secretWord ((gameState c)\<lparr>revealedLetters := []\<rparr>) = secretWord (gameState c)"
      "clue ((gameState c)\<lparr>revealedLetters := []\<rparr>) = clue (gameState c)"
      "attempts ((gameState c)\<lparr>revealedLetters := []\<rparr>) = attempts (gameState c)"
      "attemptIndex ((gameState c)\<lparr>revealedLetters := []\<rparr>) = attemptIndex (gameState c)"
      "gameStatus ((gameState c)\<lparr>revealedLetters := []\<rparr>) = gameStatus (gameState c)"
      "letterRevealsRemaining ((gameState c)\<lparr>revealedLetters := []\<rparr>) = letterRevealsRemaining (gameState c)"
      "lockedLetters ((gameState c)\<lparr>revealedLetters := []\<rparr>) = lockedLetters (gameState c)"
      by simp_all
    show "restoredCells_of
        \<lparr>restoredState = ?snap\<lparr>s_revealedLetters := Some (AsSet (newSet (revealedLettersArray ?snap)))\<rparr>,
         restoredCells_of = restoredCells ?snap\<rparr> = currentGuess c"
      by (simp add: restoredCells_def stringified_def)
    show "mount env n puzzle ?st = (Some (loadEffect env puzzle ((gameState c)\<lparr>revealedLetters := []\<rparr>)), ?st)"
      unfolding mount_dated(1) [OF assms(1) item dated] as by simp
    show "attempts (loadEffect env puzzle ((gameState c)\<lparr>revealedLetters := []\<rparr>)) = attempts (gameState c)"
      "attemptIndex (loadEffect env puzzle ((gameState c)\<lparr>revealedLetters := []\<rparr>)) = attemptIndex (gameState c)"
      "gameStatus (loadEffect env puzzle ((gameState c)\<lparr>revealedLetters := []\<rparr>)) = gameStatus (gameState c)"
      by simp_all
  qed
  let ?locked = "if gameStatus (gameState c0) = Won
                 then solutionLocked (wordLength (gameState c0)) (secretWord (gameState c0))
                 else lockedLetters (gameState c0)"
  let ?snap0 = "stringified (gameState c0) ?locked (today env) (currentGuess c0)"
  let ?st0 = "save_p0 env c0 storage"
  have item0: "stateItem ?st0 = Some (Object ?snap0)"
    by (simp add: save_p0_daily [OF assms(1,3)])
  have dated0: "s_date ?snap0 = Some (today env)" by (simp add: stringified_def)
  have fin: "finalLockedLetters_p0 ?snap0 = ?locked"
    using final_locked_saved [OF assms(3), of "gameState c0" "today env" "currentGuess c0"]
    by (simp add: stringified_secret)
  have status: "s_gameStatus ?snap0 = Some (gameStatus (gameState c0))" by (simp add: stringified_def)
  have as0: "asGameState (?snap0\<lparr>s_revealedLetters := Some (AsSet (newSet (revealedLettersArray ?snap0))),
                            s_lockedLetters := Some ?locked\<rparr>)
      = Some ((gameState c0)\<lparr>revealedLetters := [], lockedLetters := ?locked\<rparr>)"
    by (simp add: asGameState_def stringified_def revealedLettersArray_def)
  have 2: "\<exists>r gs gs'.
       restore_p0 env False ?st0 = (Some r, gameStatus (gameState c0) \<noteq> Won, ?st0) \<and>
       asGameState (restoredState r) = Some gs \<and>
       wordLength gs = wordLength (gameState c0) \<and>
       secretWord gs = secretWord (gameState c0) \<and>
       clue gs = clue (gameState c0) \<and>
       attempts gs = attempts (gameState c0) \<and>
       attemptIndex gs = attemptIndex (gameState c0) \<and>
       gameStatus gs = gameStatus (gameState c0) \<and>
       letterRevealsRemaining gs = letterRevealsRemaining (gameState c0) \<and>
       lockedLetters gs = ?locked \<and>
       mount_p0 env n puzzle ?st0 = (Some gs', ?st0) \<and>
       attempts gs' = attempts (gameState c0) \<and>
       attemptIndex gs' = attemptIndex (gameState c0) \<and>
       gameStatus gs' = gameStatus (gameState c0) \<and>
       (lockedLetters gs \<noteq> [] \<longrightarrow> lockedLetters gs' = lockedLetters gs)"
  proof (intro exI conjI)
    let ?g = "(gameState c0)\<lparr>revealedLetters := [], lockedLetters := ?locked\<rparr>"
    let ?r = "\<lparr>restoredState = ?snap0\<lparr>s_revealedLetters := Some (AsSet (newSet (revealedLettersArray ?snap0))),
                                   s_lockedLetters := Some ?locked\<rparr>,
              restoredCells_of = restoredCells_p0 ?snap0 ?locked\<rparr>"
    show "restore_p0 env False ?st0 = (Some ?r, gameStatus (gameState c0) \<noteq> Won, ?st0)"
      using restore_p0_dated [OF assms(1) item0 dated0] unfolding fin status by simp
    show "asGameState (restoredState ?r) = Some ?g"
      using as0 by simp
    show "wordLength ?g = wordLength (gameState c0)"
      "secretWord ?g = secretWord (gameState c0)"
      "clue ?g = clue (gameState c0)"
      "attempts ?g = attempts (gameState c0)"
      "attemptIndex ?g = attemptIndex (gameState c0)"
      "gameStatus ?g = gameStatus (gameState c0)"
      "letterRevealsRemaining ?g = letterRevealsRemaining (gameState c0)"
      "lockedLetters ?g = ?locked"
      by simp_all
    show "mount_p0 env n puzzle ?st0 = (Some (loadEffect_p0 env puzzle ?g), ?st0)"
      unfolding mount_dated(2) [OF assms(1) item0 dated0] fin as0 by simp
    show "attempts (loadEffect_p0 env puzzle ?g) = attempts (gameState c0)"
      "attemptIndex (loadEffect_p0 env puzzle ?g) = attemptIndex (gameState c0)"
      "gameStatus (loadEffect_p0 env puzzle ?g) = gameStatus (gameState c0)"
      by simp_all
    show "lockedLetters ?g \<noteq> [] \<longrightarrow> lockedLetters (loadEffect_p0 env puzzle ?g) = lockedLetters ?g"
      by (simp add: loadEffect_p0_def)
  qed
  from 1 2 show ?thesis by blast
qed

lemma daily_example: "dailyGame (exampleEnv exampleSettings)"
  by (simp add: dailyGame_def exampleEnv_def exampleSettings_def isArchivePuzzle_def truthy_def)

lemma won_example:
  "fst (handleSubmit_p0 (exampleEnv exampleSettings) (noFlips (typed (loaded 5 ''CRANE'' []) (cellsOf ''CRANE''))))
   = (noFlips (typed (loaded 5 ''CRANE'' []) (cellsOf ''CRANE'')))
       \<lparr>gameState := (loaded 5 ''CRANE'' [])\<lparr>attempts := [''CRANE''], attemptIndex := 1, gameStatus := Won\<rparr>,
        pendingFlips := [FlipOf \<lparr>finalLockedLetters = [], nextCells = ['''', '''', '''', '''', '''']\<rparr>]\<rparr>"
  by (simp add: handleSubmit_p0_def example_defs evaluate_defs newStatus_def isWin_def
      eval_nat_numeral)

text \<open>
  C6 as stated fails in part_000: CRANE is guessed at once, the game is won and (the flip
  timer not having run) no letter is locked; this state is saved and restored with all five
  letters locked. And in components/Game.tsx the puzzle load that follows the restore on a
  mount sets the locked letters anew: a game saved with four letters locked comes back with
  the pre-revealed C alone.
\<close>

theorem won_snapshot_counterexample:
  "gameStatus (gameState (fst (handleSubmit_p0 (exampleEnv exampleSettings)
      (noFlips (typed (loaded 5 ''CRANE'' []) (cellsOf ''CRANE'')))))) = Won \<and>
   lockedLetters (gameState (fst (handleSubmit_p0 (exampleEnv exampleSettings)
      (noFlips (typed (loaded 5 ''CRANE'' []) (cellsOf ''CRANE'')))))) = [] \<and>
   map_option (\<lambda>r. s_lockedLetters (restoredState r))
     (fst (restore_p0 (exampleEnv exampleSettings) False
        (save_p0 (exampleEnv exampleSettings)
           (fst (handleSubmit_p0 (exampleEnv exampleSettings)
              (noFlips (typed (loaded 5 ''CRANE'' []) (cellsOf ''CRANE'')))))
           \<lparr>stateItem = None, completedItem = False\<rparr>)))
     = Some (Some [(0, ''C''), (1, ''R''), (2, ''A''), (3, ''N''), (4, ''E'')]) \<and>
   map_option lockedLetters
     (fst (mount (exampleEnv exampleSettings) 5 examplePuzzle
        (save (exampleEnv exampleSettings)
           (typed ((loaded 5 ''CRANE'' [(0, ''C''), (1, ''R''), (2, ''A''), (4, ''E'')])
                     \<lparr>attempts := [''CRATE''], attemptIndex := 1\<rparr>)
              [''C'', ''R'', ''A'', '''', ''E''])
           \<lparr>stateItem = None, completedItem = False\<rparr>)))
     = Some [(0, ''C'')]"
proof -
  have 1: "gameStatus (gameState (fst (handleSubmit_p0 (exampleEnv exampleSettings)
      (noFlips (typed (loaded 5 ''CRANE'' []) (cellsOf ''CRANE'')))))) = Won \<and>
   lockedLetters (gameState (fst (handleSubmit_p0 (exampleEnv exampleSettings)
      (noFlips (typed (loaded 5 ''CRANE'' []) (cellsOf ''CRANE'')))))) = [] \<and>
   map_option (\<lambda>r. s_lockedLetters (restoredState r))
     (fst (restore_p0 (exampleEnv exampleSettings) False
        (save_p0 (exampleEnv exampleSettings)
           (fst (handleSubmit_p0 (exampleEnv exampleSettings)
              (noFlips (typed (loaded 5 ''CRANE'' []) (cellsOf ''CRANE'')))))
           \<lparr>stateItem = None, completedItem = False\<rparr>)))
     = Some (Some [(0, ''C''), (1, ''R''), (2, ''A''), (3, ''N''), (4, ''E'')])"
    unfolding won_example
    by (simp add: save_p0_def restore_p0_def tryRestore_p0_def finalLockedLetters_p0_def
        stringified_def solutionLocked_def noFlips_def typed_def loaded_def exampleEnv_def
        exampleSettings_def isArchivePuzzle_def truthy_def eval_nat_numeral Let_def)
  have 2: "map_option lockedLetters
     (fst (mount (exampleEnv exampleSettings) 5 examplePuzzle
        (save (exampleEnv exampleSettings)
           (typed ((loaded 5 ''CRANE'' [(0, ''C''), (1, ''R''), (2, ''A''), (4, ''E'')])
                     \<lparr>attempts := [''CRATE''], attemptIndex := 1\<rparr>)
              [''C'', ''R'', ''A'', '''', ''E''])
           \<lparr>stateItem = None, completedItem = False\<rparr>)))
     = Some [(0, ''C'')]"
    by (simp add: mount_def clearStale_def save_def restore_def tryRestore_def asGameState_def
        stringified_def loadEffect_def maskLocks_def examplePuzzle_def typed_def loaded_def
        exampleEnv_def exampleSettings_def isArchivePuzzle_def truthy_def eval_nat_numeral)
  from 1 2 show ?thesis by blast
qed

text \<open>
  The amended C6 at an example: a game with C locked, one attempt made and two cells typed.
\<close>

theorem save_restore_roundtrip_witness:
  "dailyGame (exampleEnv exampleSettings) \<and>
   secretWord (gameState (typed ((loaded 5 ''CRANE'' [(0, ''C'')])\<lparr>attempts := [''SLATE''], attemptIndex := 1\<rparr>)
      (cellsOf ''CR''))) \<noteq> [] \<and>
   map_option (\<lambda>r. map_option (\<lambda>gs. (attempts gs, lockedLetters gs, gameStatus gs)) (asGameState (restoredState r)))
     (fst (restore (exampleEnv exampleSettings)
        (save (exampleEnv exampleSettings)
           (typed ((loaded 5 ''CRANE'' [(0, ''C'')])\<lparr>attempts := [''SLATE''], attemptIndex := 1\<rparr>) (cellsOf ''CR''))
           \<lparr>stateItem = None, completedItem = False\<rparr>)))
     = Some (Some ([''SLATE''], [(0, ''C'')], Playing)) \<and>
   map_option (\<lambda>gs. (attempts gs, attemptIndex gs, gameStatus gs))
     (fst (mount (exampleEnv exampleSettings) 5 examplePuzzle
        (save (exampleEnv exampleSettings)
           (typed ((loaded 5 ''CRANE'' [(0, ''C'')])\<lparr>attempts := [''SLATE''], attemptIndex := 1\<rparr>) (cellsOf ''CR''))
           \<lparr>stateItem = None, completedItem = False\<rparr>)))
     = Some ([''SLATE''], 1, Playing) \<and>
   map_option (\<lambda>gs. (attempts gs, lockedLetters gs, gameStatus gs))
     (fst (mount_p0 (exampleEnv exampleSettings) 5 examplePuzzle
        (save_p0 (exampleEnv exampleSettings)
           (noFlips (typed ((loaded 5 ''CRANE'' [(0, ''C'')])\<lparr>attempts := [''SLATE''], attemptIndex := 1\<rparr>)
              (cellsOf ''CR'')))
           \<lparr>stateItem = None, completedItem = False\<rparr>)))
     = Some ([''SLATE''], [(0, ''C'')], Playing)"
proof -
  let ?g = "(loaded 5 ''CRANE'' [(0, ''C'')])\<lparr>attempts := [''SLATE''], attemptIndex := 1\<rparr>"
  let ?c = "typed ?g (cellsOf ''CR'')"
  let ?env = "exampleEnv exampleSettings"
  let ?s = "\<lparr>stateItem = None, completedItem = False\<rparr>"
  have s: "secretWord (gameState ?c) \<noteq> []" "secretWord (gameState (noFlips ?c)) \<noteq> []"
    by (simp_all add: typed_def loaded_def noFlips_def)
  have g: "gameState ?c = ?g" by (simp add: typed_def)
  have f: "attempts ?g = [''SLATE'']" "attemptIndex ?g = 1" "gameStatus ?g = Playing"
    "lockedLetters ?g = [(0, ''C'')]"
    by (simp_all add: loaded_def)
  note T = save_restore_roundtrip [OF daily_example s, of ?s 5 examplePuzzle]
  have 1: "map_option (\<lambda>r. map_option (\<lambda>gs. (attempts gs, lockedLetters gs, gameStatus gs)) (asGameState (restoredState r)))
      (fst (restore ?env (save ?env ?c ?s))) = Some (Some ([''SLATE''], [(0, ''C'')], Playing))"
    using T [THEN conjunct1] by (auto simp: typed_def loaded_def noFlips_def)
  have 2: "map_option (\<lambda>gs. (attempts gs, attemptIndex gs, gameStatus gs))
      (fst (mount ?env 5 examplePuzzle (save ?env ?c ?s))) = Some ([''SLATE''], 1, Playing)"
    using T [THEN conjunct1] by (auto simp: typed_def loaded_def)
  have 3: "map_option (\<lambda>gs. (attempts gs, lockedLetters gs, gameStatus gs))
      (fst (mount_p0 ?env 5 examplePuzzle (save_p0 ?env (noFlips ?c) ?s))) = Some ([''SLATE''], [(0, ''C'')], Playing)"
    using T [THEN conjunct2] by (auto simp: typed_def loaded_def noFlips_def)
  from s daily_example 1 2 3 show ?thesis by simp
qed

lemma restore_not_daily:
  "\<not> dailyGame env \<Longrightarrow>
     restore env storage = (None, storage) \<and> restore_p0 env h storage = (None, h, storage)"
  by (auto simp: restore_def restore_p0_def dailyGame_def split: option.splits)

lemma restore_nothing_stored:
  "stateItem storage = None \<Longrightarrow>
     restore env storage = (None, storage) \<and> restore_p0 env h storage = (None, h, storage)"
  by (simp add: restore_def restore_p0_def)

lemma clearStale_cases:
  "clearStale env storage =
     (if \<not> isArchivePuzzle (router env) \<and>
         (\<exists>snap. stateItem storage = Some (Object snap) \<and> s_date snap \<noteq> Some (today env))
      then storage\<lparr>stateItem := None, completedItem := False\<rparr> else storage)"
  by (auto simp: clearStale_def split: option.splits Stored.splits)

lemma mount_fresh:
  assumes "stateItem storage = Some item"
    and "item = Malformed \<or> item = Null \<or> (\<exists>snap. item = Object snap \<and> s_date snap \<noteq> Some (today env))"
  shows "fst (mount env n p storage) = Some (loadEffect env p (initialState n)) \<and>
         fst (mount_p0 env n p storage) = Some (loadEffect_p0 env p (initialState n))"
proof (cases "dailyGame env")
  case False
  then show ?thesis
    by (simp add: mount_def mount_p0_def restore_not_daily)
next
  case True
  then have na: "\<not> isArchivePuzzle (router env)" by (simp add: dailyGame_def)
  show ?thesis
  proof (cases "\<exists>snap. item = Object snap \<and> s_date snap \<noteq> Some (today env)")
    case True
    then have "clearStale env storage = storage\<lparr>stateItem := None, completedItem := False\<rparr>"
      using assms(1) na by (auto simp: clearStale_cases)
    then show ?thesis
      by (simp add: mount_def mount_p0_def restore_nothing_stored)
  next
    case False
    with assms(2) have u: "item = Malformed \<or> item = Null" by blast
    then have "clearStale env storage = storage"
      using assms(1) by (auto simp: clearStale_cases)
    then show ?thesis
      using restore_unreadable [OF \<open>dailyGame env\<close> assms(1) u]
      by (simp add: mount_def mount_p0_def)
  qed
qed

text \<open>
  C7, amended. The restore effect returns in every case: what its \<^verbatim>\<open>try\<close> block throws is
  caught. Outside a daily game (random or archive mode), and in part_000 once it has
  restored, it does nothing. In a daily game a text that does not parse, or parses to null,
  makes it set nothing and leave the storage as it is; an object whose date is not the day
  makes it set nothing and delete the snapshot and the completed flag. The cleanup of the
  load effect deletes such an object too unless the route is an archive puzzle, and leaves
  every other stored text. With a stored text of either kind the mount ends in the fresh
  load: the loaded puzzle with no attempts, the game on and one reveal.
\<close>

theorem restore_stale_or_unreadable:
  "restore env storage =
      (case stateItem storage of
         None \<Rightarrow> (None, storage)
       | Some item \<Rightarrow>
           if \<not> randomPuzzle (settings env) \<and> \<not> isArchivePuzzle (router env)
           then (case tryRestore env item storage of Inl e \<Rightarrow> (None, storage) | Inr result \<Rightarrow> result)
           else (None, storage)) \<and>
   restore_p0 env False storage =
      (case stateItem storage of
         None \<Rightarrow> (None, False, storage)
       | Some item \<Rightarrow>
           if \<not> randomPuzzle (settings env) \<and> \<not> isArchivePuzzle (router env)
           then (case tryRestore_p0 env item storage of
                   Inl e \<Rightarrow> (None, False, storage) | Inr result \<Rightarrow> result)
           else (None, False, storage)) \<and>
   restore_p0 env True storage = (None, True, storage) \<and>
   (randomPuzzle (settings env) \<or> isArchivePuzzle (router env) \<longrightarrow>
      restore env storage = (None, storage) \<and> restore_p0 env False storage = (None, False, storage)) \<and>
   (\<not> randomPuzzle (settings env) \<and> \<not> isArchivePuzzle (router env) \<and>
    (stateItem storage = Some Malformed \<or> stateItem storage = Some Null) \<longrightarrow>
      restore env storage = (None, storage) \<and> restore_p0 env False storage = (None, False, storage)) \<and>
   (\<forall>snap. \<not> randomPuzzle (settings env) \<and> \<not> isArchivePuzzle (router env) \<and>
      stateItem storage = Some (Object snap) \<and> s_date snap \<noteq> Some (today env) \<longrightarrow>
      restore env storage = (None, storage\<lparr>stateItem := None, completedItem := False\<rparr>) \<and>
      restore_p0 env False storage = (None, False, storage\<lparr>stateItem := None, completedItem := False\<rparr>)) \<and>
   clearStale env storage =
      (if \<not> isArchivePuzzle (router env) \<and>
          (\<exists>snap. stateItem storage = Some (Object snap) \<and> s_date snap \<noteq> Some (today env))
       then storage\<lparr>stateItem := None, completedItem := False\<rparr> else storage) \<and>
   (stateItem storage = Some Malformed \<or> stateItem storage = Some Null \<or>
    (\<exists>snap. stateItem storage = Some (Object snap) \<and> s_date snap \<noteq> Some (today env)) \<longrightarrow>
      fst (mount env n puzzle storage) =
        Some \<lparr>wordLength = puzzleWordLength puzzle, secretWord = loadedWord puzzle,
              clue = (if revealClue (settings env) then Some (loadedClue puzzle) else None),
              attempts = [], lockedLetters = maskLocks (loadedWord puzzle) (revealedMask puzzle),
              gameStatus = Playing, attemptIndex = 0, revealedLetters = [],
              letterRevealsRemaining = 1\<rparr> \<and>
      fst (mount_p0 env n puzzle storage) = fst (mount env n puzzle storage) \<and>
      snd (mount env n puzzle storage) = clearStale env storage \<and>
      snd (mount_p0 env n puzzle storage) = clearStale env storage)"
proof -
  have d: "dailyGame env \<longleftrightarrow> \<not> randomPuzzle (settings env) \<and> \<not> isArchivePuzzle (router env)"
    by (simp add: dailyGame_def)
  have 1: "restore env storage =
      (case stateItem storage of
         None \<Rightarrow> (None, storage)
       | Some item \<Rightarrow>
           if \<not> randomPuzzle (settings env) \<and> \<not> isArchivePuzzle (router env)
           then (case tryRestore env item storage of Inl e \<Rightarrow> (None, storage) | Inr result \<Rightarrow> result)
           else (None, storage))"
    by (simp add: restore_def)
  have 2: "restore_p0 env False storage =
      (case stateItem storage of
         None \<Rightarrow> (None, False, storage)
       | Some item \<Rightarrow>
           if \<not> randomPuzzle (settings env) \<and> \<not> isArchivePuzzle (router env)
           then (case tryRestore_p0 env item storage of
                   Inl e \<Rightarrow> (None, False, storage) | Inr result \<Rightarrow> result)
           else (None, False, storage))"
    by (simp add: restore_p0_def)
  have 3: "restore_p0 env True storage = (None, True, storage)"
    by (simp add: restore_p0_def)
  have 4: "randomPuzzle (settings env) \<or> isArchivePuzzle (router env) \<longrightarrow>
      restore env storage = (None, storage) \<and> restore_p0 env False storage = (None, False, storage)"
    using restore_not_daily [of env storage False] d by blast
  have 5: "\<not> randomPuzzle (settings env) \<and> \<not> isArchivePuzzle (router env) \<and>
    (stateItem storage = Some Malformed \<or> stateItem storage = Some Null) \<longrightarrow>
      restore env storage = (None, storage) \<and> restore_p0 env False storage = (None, False, storage)"
    using restore_unreadable [of env storage] d by blast
  have 6: "\<forall>snap. \<not> randomPuzzle (settings env) \<and> \<not> isArchivePuzzle (router env) \<and>
      stateItem storage = Some (Object snap) \<and> s_date snap \<noteq> Some (today env) \<longrightarrow>
      restore env storage = (None, storage\<lparr>stateItem := None, completedItem := False\<rparr>) \<and>
      restore_p0 env False storage = (None, False, storage\<lparr>stateItem := None, completedItem := False\<rparr>)"
    using restore_stale [of env storage] d by blast
  note 7 = clearStale_cases [of env storage]
  have 8: "stateItem storage = Some Malformed \<or> stateItem storage = Some Null \<or>
    (\<exists>snap. stateItem storage = Some (Object snap) \<and> s_date snap \<noteq> Some (today env)) \<longrightarrow>
      fst (mount env n puzzle storage) =
        Some \<lparr>wordLength = puzzleWordLength puzzle, secretWord = loadedWord puzzle,
              clue = (if revealClue (settings env) then Some (loadedClue puzzle) else None),
              attempts = [], lockedLetters = maskLocks (loadedWord puzzle) (revealedMask puzzle),
              gameStatus = Playing, attemptIndex = 0, revealedLetters = [],
              letterRevealsRemaining = 1\<rparr> \<and>
      fst (mount_p0 env n puzzle storage) = fst (mount env n puzzle storage) \<and>
      snd (mount env n puzzle storage) = clearStale env storage \<and>
      snd (mount_p0 env n puzzle storage) = clearStale env storage"
  proof
    assume a: "stateItem storage = Some Malformed \<or> stateItem storage = Some Null \<or>
      (\<exists>snap. stateItem storage = Some (Object snap) \<and> s_date snap \<noteq> Some (today env))"
    then obtain item where i: "stateItem storage = Some item"
      and k: "item = Malformed \<or> item = Null \<or> (\<exists>snap. item = Object snap \<and> s_date snap \<noteq> Some (today env))"
      by auto
    note f = mount_fresh [OF i k, of n puzzle]
    have fresh: "loadEffect env puzzle (initialState n) =
        \<lparr>wordLength = puzzleWordLength puzzle, secretWord = loadedWord puzzle,
         clue = (if revealClue (settings env) then Some (loadedClue puzzle) else None),
         attempts = [], lockedLetters = maskLocks (loadedWord puzzle) (revealedMask puzzle),
         gameStatus = Playing, attemptIndex = 0, revealedLetters = [],
         letterRevealsRemaining = 1\<rparr>"
      "loadEffect_p0 env puzzle (initialState n) = loadEffect env puzzle (initialState n)"
      by (simp_all add: loadEffect_def loadEffect_p0_def initialState_def)
    have st: "snd (mount env n puzzle storage) = clearStale env storage \<and>
        snd (mount_p0 env n puzzle storage) = clearStale env storage"
    proof (cases "stateItem (clearStale env storage)")
      case None
      then show ?thesis
        by (simp add: mount_def mount_p0_def restore_nothing_stored)
    next
      case (Some item')
      then have same: "clearStale env storage = storage"
        by (auto simp: clearStale_cases split: if_splits)
      show ?thesis
      proof (cases "dailyGame env")
        case False
        then show ?thesis by (simp add: mount_def mount_p0_def restore_not_daily)
      next
        case True
        then have na: "\<not> isArchivePuzzle (router env)" by (simp add: dailyGame_def)
        have "\<not> (\<exists>snap. stateItem storage = Some (Object snap) \<and> s_date snap \<noteq> Some (today env))"
          using Some na by (auto simp: clearStale_cases split: if_splits)
        with i k have u: "item = Malformed \<or> item = Null" by auto
        show ?thesis
          using restore_unreadable [OF True i u] same by (simp add: mount_def mount_p0_def)
      qed
    qed
    from f fresh st show "fst (mount env n puzzle storage) =
        Some \<lparr>wordLength = puzzleWordLength puzzle, secretWord = loadedWord puzzle,
              clue = (if revealClue (settings env) then Some (loadedClue puzzle) else None),
              attempts = [], lockedLetters = maskLocks (loadedWord puzzle) (revealedMask puzzle),
              gameStatus = Playing, attemptIndex = 0, revealedLetters = [],
              letterRevealsRemaining = 1\<rparr> \<and>
      fst (mount_p0 env n puzzle storage) = fst (mount env n puzzle storage) \<and>
      snd (mount env n puzzle storage) = clearStale env storage \<and>
      snd (mount_p0 env n puzzle storage) = clearStale env storage"
      by simp
  qed
  show ?thesis
    apply (intro conjI)
    apply (rule 1)
    apply (rule 2)
    apply (rule 3)
    apply (rule 4)
    apply (rule 5)
    apply (rule 6)
    apply (rule 7)
    apply (rule 8)
    done
qed

text \<open>
  C7 as stated fails twice. A text that does not parse is not deleted: it is still stored
  after the effect has run. And an object that has today's date and nothing else, no game
  state at all, is restored.
\<close>

theorem restore_keeps_corrupt_counterexample:
  "stateItem (snd (restore (exampleEnv exampleSettings) \<lparr>stateItem = Some Malformed, completedItem = True\<rparr>))
     = Some Malformed \<and>
   stateItem (snd (snd (restore_p0 (exampleEnv exampleSettings) False
       \<lparr>stateItem = Some Malformed, completedItem = True\<rparr>))) = Some Malformed \<and>
   map_option (\<lambda>r. asGameState (restoredState r))
     (fst (restore (exampleEnv exampleSettings)
        \<lparr>stateItem = Some (Object \<lparr>s_date = Some ''2025-09-01'', s_wordLength = None,
            s_secretWord = None, s_clue = None, s_attempts = None, s_lockedLetters = None,
            s_gameStatus = None, s_attemptIndex = None, s_revealedLetters = None,
            s_letterRevealsRemaining = None, s_currentGuess = None\<rparr>), completedItem = True\<rparr>))
     = Some None \<and>
   map_option (\<lambda>r. asGameState (restoredState r))
     (fst (restore_p0 (exampleEnv exampleSettings) False
        \<lparr>stateItem = Some (Object \<lparr>s_date = Some ''2025-09-01'', s_wordLength = None,
            s_secretWord = None, s_clue = None, s_attempts = None, s_lockedLetters = None,
            s_gameStatus = None, s_attemptIndex = None, s_revealedLetters = None,
            s_letterRevealsRemaining = None, s_currentGuess = None\<rparr>), completedItem = True\<rparr>))
     = Some None"
  by (simp add: restore_def tryRestore_def restore_p0_def tryRestore_p0_def asGameState_def
      exampleEnv_def exampleSettings_def isArchivePuzzle_def truthy_def Let_def)

text \<open>
  The amended C7 at examples: a snapshot of the day before is deleted and the mount ends in
  the fresh load of the example puzzle; a stored null is left, and the mount ends in the
  fresh load as well.
\<close>

theorem restore_stale_or_unreadable_witness:
  "restore (exampleEnv exampleSettings)
     \<lparr>stateItem = Some (Object (stringified (loaded 5 ''SLATE'' []) [] ''2025-08-31'' [])),
      completedItem = True\<rparr>
     = (None, \<lparr>stateItem = None, completedItem = False\<rparr>) \<and>
   restore_p0 (exampleEnv exampleSettings) False
     \<lparr>stateItem = Some (Object (stringified (loaded 5 ''SLATE'' []) [] ''2025-08-31'' [])),
      completedItem = True\<rparr>
     = (None, False, \<lparr>stateItem = None, completedItem = False\<rparr>) \<and>
   mount (exampleEnv exampleSettings) 5 examplePuzzle
     \<lparr>stateItem = Some (Object (stringified (loaded 5 ''SLATE'' []) [] ''2025-08-31'' [])),
      completedItem = True\<rparr>
     = (Some (loaded 5 ''CRANE'' [(0, ''C'')]), \<lparr>stateItem = None, completedItem = False\<rparr>) \<and>
   restore (exampleEnv exampleSettings) \<lparr>stateItem = Some Null, completedItem = True\<rparr>
     = (None, \<lparr>stateItem = Some Null, completedItem = True\<rparr>) \<and>
   mount_p0 (exampleEnv exampleSettings) 5 examplePuzzle \<lparr>stateItem = Some Null, completedItem = True\<rparr>
     = (Some (loaded 5 ''CRANE'' [(0, ''C'')]), \<lparr>stateItem = Some Null, completedItem = True\<rparr>) \<and>
   restore (exampleEnv (exampleSettings\<lparr>randomPuzzle := True\<rparr>))
     \<lparr>stateItem = Some (Object (stringified (loaded 5 ''SLATE'' []) [] ''2025-08-31'' [])),
      completedItem = True\<rparr>
     = (None, \<lparr>stateItem = Some (Object (stringified (loaded 5 ''SLATE'' []) [] ''2025-08-31'' [])),
               completedItem = True\<rparr>)"
proof -
  let ?env = "exampleEnv exampleSettings"
  let ?envR = "exampleEnv (exampleSettings\<lparr>randomPuzzle := True\<rparr>)"
  let ?snap = "stringified (loaded 5 ''SLATE'' []) [] ''2025-08-31'' []"
  let ?st = "\<lparr>stateItem = Some (Object ?snap), completedItem = True\<rparr>"
  let ?st2 = "\<lparr>stateItem = Some Null, completedItem = True\<rparr>"
  have d: "s_date ?snap \<noteq> Some (today ?env)"
    by (simp add: stringified_def exampleEnv_def)
  have e: "\<not> randomPuzzle (settings ?env)" "\<not> isArchivePuzzle (router ?env)"
    "randomPuzzle (settings ?envR)" "revealClue (settings ?env) = False"
    by (simp_all add: exampleEnv_def exampleSettings_def isArchivePuzzle_def truthy_def)
  have i: "stateItem ?st = Some (Object ?snap)" "stateItem ?st2 = Some Null" by simp_all
  note T = restore_stale_or_unreadable [of ?env ?st 5 examplePuzzle]
  note T2 = restore_stale_or_unreadable [of ?env ?st2 5 examplePuzzle]
  note TR = restore_stale_or_unreadable [of ?envR ?st 5 examplePuzzle]
  have a: "restore ?env ?st = (None, ?st\<lparr>stateItem := None, completedItem := False\<rparr>) \<and>
           restore_p0 ?env False ?st = (None, False, ?st\<lparr>stateItem := None, completedItem := False\<rparr>)"
    using T e i d by blast
  have c1: "clearStale ?env ?st = \<lparr>stateItem = None, completedItem = False\<rparr>"
    using T e d by simp
  have c2: "clearStale ?env ?st2 = ?st2"
    using T2 by simp
  have m: "fst (mount ?env 5 examplePuzzle ?st) = Some (loaded 5 ''CRANE'' [(0, ''C'')]) \<and>
           snd (mount ?env 5 examplePuzzle ?st) = clearStale ?env ?st"
    using T e i d
    by (simp add: examplePuzzle_def maskLocks_def loaded_def eval_nat_numeral)
  have b: "restore ?env ?st2 = (None, ?st2)"
    using T2 e i by blast
  have m2: "fst (mount_p0 ?env 5 examplePuzzle ?st2) = Some (loaded 5 ''CRANE'' [(0, ''C'')]) \<and>
           snd (mount_p0 ?env 5 examplePuzzle ?st2) = clearStale ?env ?st2"
    using T2 e i
    by (simp add: examplePuzzle_def maskLocks_def loaded_def eval_nat_numeral)
  have r: "restore ?envR ?st = (None, ?st)"
    using TR e by blast
  from a m c1 b m2 c2 r show ?thesis by (simp add: prod_eq_iff)
qed

end
